theory Spec2Isabelle
  imports Main "HOL-Library.Sublist"
begin

section \<open>JavaScript strings\<close>

text \<open>
  A JavaScript string is a sequence of UTF-16 code units, and \<open>length\<close>, \<open>substring\<close>,
  \<open>split\<close> and the regular expressions of the source all count code units. A string is
  therefore a list of code units, each a natural number. \<open>js\<close> reads an ASCII literal,
  \<open>bs\<close> reads one that starts with a backslash, \<open>nl\<close> is the line feed.
\<close>

type_synonym jstring = "nat list"

definition js :: "string \<Rightarrow> jstring" where
  "js s = map of_char s"

definition bs :: "string \<Rightarrow> jstring" where
  "bs s = 92 # js s"

definition nl :: jstring where
  "nl = [10]"

text \<open>Line terminators and white space of ECMAScript: what \<open>trim\<close> strips.\<close>

definition isLineTerminator :: "nat \<Rightarrow> bool" where
  "isLineTerminator c = (c = 10 \<or> c = 13 \<or> c = 8232 \<or> c = 8233)"

definition isWhiteSpace :: "nat \<Rightarrow> bool" where
  "isWhiteSpace c =
     (c = 9 \<or> c = 11 \<or> c = 12 \<or> c = 32 \<or> c = 160 \<or> c = 5760
      \<or> (8192 \<le> c \<and> c \<le> 8202) \<or> c = 8239 \<or> c = 8287 \<or> c = 12288 \<or> c = 65279
      \<or> isLineTerminator c)"

definition trimStart :: "jstring \<Rightarrow> jstring" where
  "trimStart s = dropWhile isWhiteSpace s"

definition trimEnd :: "jstring \<Rightarrow> jstring" where
  "trimEnd s = rev (dropWhile isWhiteSpace (rev s))"

definition trim :: "jstring \<Rightarrow> jstring" where
  "trim s = trimEnd (trimStart s)"

text \<open>\<open>s.startsWith(p)\<close> and \<open>s.includes(p)\<close>.\<close>

definition startsWith :: "jstring \<Rightarrow> jstring \<Rightarrow> bool" where
  "startsWith s p = prefix p s"

fun jsIncludes :: "jstring \<Rightarrow> jstring \<Rightarrow> bool" where
  "jsIncludes [] p = (p = [])"
| "jsIncludes (c # cs) p = (prefix p (c # cs) \<or> jsIncludes cs p)"

text \<open>
  \<open>s.split(sep)\<close> for a string separator: the pieces between the occurrences of
  \<open>sep\<close>, found from the left and not overlapping. The empty separator splits into code
  units.
\<close>

fun splitAt :: "jstring \<Rightarrow> jstring \<Rightarrow> jstring \<Rightarrow> jstring list" where
  "splitAt sep cur [] = [cur]"
| "splitAt sep cur (c # cs) =
     (if prefix sep (c # cs) then cur # splitAt sep [] (drop (length sep - 1) cs)
      else splitAt sep (cur @ [c]) cs)"

definition split :: "jstring \<Rightarrow> jstring \<Rightarrow> jstring list" where
  "split s sep = (if sep = [] then map (\<lambda>c. [c]) s else splitAt sep [] s)"

text \<open>\<open>xs.join(sep)\<close>.\<close>

fun join :: "jstring list \<Rightarrow> jstring \<Rightarrow> jstring" where
  "join [] sep = []"
| "join [x] sep = x"
| "join (x # y # ys) sep = x @ sep @ join (y # ys) sep"

text \<open>
  An optional string property is \<open>None\<close> when absent. In a condition JavaScript takes
  both \<open>undefined\<close> and the empty string for false.
\<close>

definition truthy :: "jstring option \<Rightarrow> bool" where
  "truthy v = (case v of None \<Rightarrow> False | Some s \<Rightarrow> s \<noteq> [])"

definition orElse :: "jstring option \<Rightarrow> jstring \<Rightarrow> jstring" where
  "orElse v d = (case v of None \<Rightarrow> d | Some s \<Rightarrow> if s \<noteq> [] then s else d)"

definition strOr :: "jstring \<Rightarrow> jstring \<Rightarrow> jstring" where
  "strOr s d = (if s \<noteq> [] then s else d)"

section \<open>The data model\<close>

text \<open>
  The records follow the interfaces of the types module: a required property is a plain
  field, an optional one an \<open>option\<close>. Property names used by several interfaces carry
  the interface as a prefix (\<open>exp_location\<close>, \<open>proj_name\<close>, \<open>cert_name\<close>,
  \<open>award_name\<close>, \<open>group_skills\<close>). \<open>startDate\<close> of an experience entry is optional
  here although the interface requires it, because the extractor builds entries without
  it. The properties of \<open>ResumeData\<close> are all optional: \<open>validateResumeData\<close> exists
  to fill in the ones that are missing.

  The records that hold an array of strings (\<open>bullets\<close>, \<open>honors\<close>, \<open>skills\<close>,
  \<open>technologies\<close>) take the representation of such an array as a type parameter: the
  list of its elements where only the value matters (\<open>Experience\<close>, \<open>ResumeData\<close>),
  and the address of the array in a store where a claim is about mutation
  (\<open>ExperienceRef\<close>, \<open>ResumeDataRef\<close>).
\<close>

record PersonalInfo =
  name :: jstring
  email :: jstring
  phone :: "jstring option"
  location :: "jstring option"
  linkedin :: "jstring option"
  github :: "jstring option"
  website :: "jstring option"

record 'arr ExperienceOf =
  company :: jstring
  position :: jstring
  exp_location :: "jstring option"
  startDate :: "jstring option"
  endDate :: "jstring option"
  bullets :: 'arr

record 'arr EducationOf =
  institution :: jstring
  degree :: jstring
  field :: "jstring option"
  graduationDate :: "jstring option"
  gpa :: "jstring option"
  honors :: "'arr option"

record 'arr SkillOf =
  category :: jstring
  group_skills :: 'arr

record 'arr ProjectOf =
  proj_name :: jstring
  description :: jstring
  technologies :: "'arr option"
  url :: "jstring option"
  proj_startDate :: "jstring option"
  proj_endDate :: "jstring option"

record Certification =
  cert_name :: jstring
  cert_issuer :: jstring
  cert_date :: jstring
  expiryDate :: "jstring option"
  credentialId :: "jstring option"

record Award =
  award_name :: jstring
  award_issuer :: jstring
  award_date :: jstring
  award_description :: "jstring option"

record 'arr ResumeDataOf =
  personalInfo :: "PersonalInfo option"
  summary :: "jstring option"
  experience :: "'arr ExperienceOf list option"
  education :: "'arr EducationOf list option"
  skills :: "'arr SkillOf list option"
  projects :: "'arr ProjectOf list option"
  certifications :: "Certification list option"
  awards :: "Award list option"

type_synonym Experience = "jstring list ExperienceOf"
type_synonym Education = "jstring list EducationOf"
type_synonym Skill = "jstring list SkillOf"
type_synonym Project = "jstring list ProjectOf"
type_synonym ResumeData = "jstring list ResumeDataOf"

type_synonym ExperienceRef = "nat ExperienceOf"
type_synonym EducationRef = "nat EducationOf"
type_synonym SkillRef = "nat SkillOf"
type_synonym ProjectRef = "nat ProjectOf"
type_synonym ResumeDataRef = "nat ResumeDataOf"

text \<open>
  The two exceptions the renderer can raise: a \<open>TypeError\<close> when it reads a property of
  a missing \<open>personalInfo\<close>, and the \<open>URIError\<close> of \<open>encodeURI\<close>.
\<close>

datatype error = TypeError | URIError

section \<open>validateResumeData\<close>

definition emptyPersonalInfo :: PersonalInfo where
  "emptyPersonalInfo =
     \<lparr>name = [], email = [], phone = Some [], location = Some [], linkedin = Some [],
      github = Some [], website = Some []\<rparr>"

text \<open>
  The source assigns to the properties of \<open>data\<close> and returns \<open>data\<close>: the result is
  the updated record. An object or an array, empty or not, counts as true, so
  \<open>x || []\<close> replaces only a missing collection.
\<close>

definition orEmpty :: "'a list option \<Rightarrow> 'a list option" where
  "orEmpty v = (case v of None \<Rightarrow> Some [] | Some xs \<Rightarrow> Some xs)"

definition validateResumeData :: "ResumeData \<Rightarrow> ResumeData" where
  "validateResumeData d =
     (let d1 = (case personalInfo d of
                  None \<Rightarrow> d\<lparr>personalInfo := Some emptyPersonalInfo\<rparr>
                | Some p \<Rightarrow> d);
          d2 = d1\<lparr>experience := orEmpty (experience d1)\<rparr>;
          d3 = d2\<lparr>education := orEmpty (education d2)\<rparr>;
          d4 = d3\<lparr>skills := orEmpty (skills d3)\<rparr>;
          d5 = d4\<lparr>projects := orEmpty (projects d4)\<rparr>;
          d6 = d5\<lparr>certifications := orEmpty (certifications d5)\<rparr>;
          d7 = d6\<lparr>awards := orEmpty (awards d6)\<rparr>
      in d7)"

section \<open>Regular expressions\<close>

text \<open>
  The regular expressions of the source are written as terms of \<open>rx\<close> and run by a
  backtracking matcher that follows the ECMAScript semantics (no \<open>u\<close> and no \<open>m\<close>
  flag): alternatives are tried left to right, a greedy quantifier tries one more
  iteration before it tries the rest of the pattern, a lazy one the other way round, and
  an iteration of a quantifier that consumes nothing is rejected. The matcher state is
  the code unit before the current position (\<open>None\<close> at the start of the input), the
  rest of the input, and the captures so far.

  A class item is a range of ASCII characters, a set of ASCII characters, one code unit
  given by its number, \<open>\s\<close> or \<open>\d\<close>. With the \<open>i\<close> flag a code unit also matches when
  its other ASCII case does: ECMAScript's \<open>Canonicalize\<close> never maps a code unit above 127
  to an ASCII one, and the patterns of the source hold ASCII letters only.
\<close>

datatype citem = Rng char char | Chars string | Code nat | WS | Digit

fun inItem :: "citem \<Rightarrow> nat \<Rightarrow> bool" where
  "inItem (Rng a b) c = (of_char a \<le> c \<and> c \<le> of_char b)"
| "inItem (Chars s) c = (c \<in> set (js s))"
| "inItem (Code n) c = (c = n)"
| "inItem WS c = isWhiteSpace c"
| "inItem Digit c = (48 \<le> c \<and> c \<le> 57)"

definition swapCase :: "nat \<Rightarrow> nat" where
  "swapCase c =
     (if 65 \<le> c \<and> c \<le> 90 then c + 32 else if 97 \<le> c \<and> c \<le> 122 then c - 32 else c)"

definition inClass :: "bool \<Rightarrow> citem list \<Rightarrow> nat \<Rightarrow> bool" where
  "inClass ci items c =
     (list_ex (\<lambda>it. inItem it c) items \<or> (ci \<and> list_ex (\<lambda>it. inItem it (swapCase c)) items))"

definition isWordChar :: "nat \<Rightarrow> bool" where
  "isWordChar c =
     ((48 \<le> c \<and> c \<le> 57) \<or> (65 \<le> c \<and> c \<le> 90) \<or> (97 \<le> c \<and> c \<le> 122) \<or> c = 95)"

datatype rx = Eps | Dot | Cls "citem list" | Seq rx rx | Alt rx rx
  | Star rx | StarL rx | Opt rx | Grp nat rx | Bol | Eol | WordB

type_synonym caps = "nat \<Rightarrow> jstring option"
type_synonym mstate = "nat option \<times> jstring \<times> caps"

function (sequential) rxm :: "bool \<Rightarrow> rx \<Rightarrow> (mstate \<Rightarrow> 'a option) \<Rightarrow> mstate \<Rightarrow> 'a option" where
  "rxm ci Eps k x = k x"
| "rxm ci Dot k (p, r, cp) =
     (case r of [] \<Rightarrow> None
      | c # cs \<Rightarrow> if isLineTerminator c then None else k (Some c, cs, cp))"
| "rxm ci (Cls items) k (p, r, cp) =
     (case r of [] \<Rightarrow> None
      | c # cs \<Rightarrow> if inClass ci items c then k (Some c, cs, cp) else None)"
| "rxm ci (Seq a b) k x = rxm ci a (\<lambda>y. rxm ci b k y) x"
| "rxm ci (Alt a b) k x = (case rxm ci a k x of Some z \<Rightarrow> Some z | None \<Rightarrow> rxm ci b k x)"
| "rxm ci (Star a) k (p, r, cp) =
     (case rxm ci a (\<lambda>(p', r', cp').
                 if length r' < length r then rxm ci (Star a) k (p', r', cp') else None) (p, r, cp) of
        Some z \<Rightarrow> Some z
      | None \<Rightarrow> k (p, r, cp))"
| "rxm ci (StarL a) k (p, r, cp) =
     (case k (p, r, cp) of
        Some z \<Rightarrow> Some z
      | None \<Rightarrow> rxm ci a (\<lambda>(p', r', cp').
                 if length r' < length r then rxm ci (StarL a) k (p', r', cp') else None) (p, r, cp))"
| "rxm ci (Opt a) k (p, r, cp) =
     (case rxm ci a (\<lambda>(p', r', cp'). if length r' < length r then k (p', r', cp') else None) (p, r, cp) of
        Some z \<Rightarrow> Some z
      | None \<Rightarrow> k (p, r, cp))"
| "rxm ci (Grp n a) k (p, r, cp) =
     rxm ci a (\<lambda>(p', r', cp'). k (p', r', cp'(n \<mapsto> take (length r - length r') r))) (p, r, cp)"
| "rxm ci Bol k (p, r, cp) = (if p = None then k (p, r, cp) else None)"
| "rxm ci Eol k (p, r, cp) = (if r = [] then k (p, r, cp) else None)"
| "rxm ci WordB k (p, r, cp) =
     (let a = (case p of None \<Rightarrow> False | Some c \<Rightarrow> isWordChar c);
          b = (case r of [] \<Rightarrow> False | c # cs \<Rightarrow> isWordChar c)
      in if a \<noteq> b then k (p, r, cp) else None)"
  by pat_completeness auto
termination
  by (relation "inv_image (less_than <*lex*> less_than) (\<lambda>(ci, a, k, (p, r, cp)). (size a, length r))")
    auto

text \<open>Abbreviations of the pattern syntax: a literal, a sequence, \<open>a+\<close>, \<open>a+?\<close>, \<open>a{n}\<close>.\<close>

definition lit :: "string \<Rightarrow> rx" where
  "lit s = foldr (\<lambda>c a. Seq (Cls [Chars [c]]) a) s Eps"

definition cat :: "rx list \<Rightarrow> rx" where
  "cat as = foldr Seq as Eps"

fun alts :: "rx list \<Rightarrow> rx" where
  "alts [] = Eps"
| "alts [a] = a"
| "alts (a # b # rest) = Alt a (alts (b # rest))"

definition plusG :: "rx \<Rightarrow> rx" where
  "plusG a = Seq a (Star a)"

definition plusL :: "rx \<Rightarrow> rx" where
  "plusL a = Seq a (StarL a)"

definition rep :: "nat \<Rightarrow> rx \<Rightarrow> rx" where
  "rep n a = cat (replicate n a)"

text \<open>
  \<open>searchFrom\<close> is the loop of \<open>RegExp.prototype.exec\<close>: it tries the pattern at each
  position from the left and returns the text and the captures of the first match.
  \<open>s.match(re)\<close> returns this match, and with the \<open>g\<close> flag its element 0 is the text
  of this match; \<open>re.test(s)\<close> says whether there is one.
\<close>

fun searchFrom :: "bool \<Rightarrow> rx \<Rightarrow> nat option \<Rightarrow> jstring \<Rightarrow> (jstring \<times> caps) option" where
  "searchFrom ci re p [] =
     (case rxm ci re Some (p, [], Map.empty) of
        Some (p', r', cp) \<Rightarrow> Some ([], cp)
      | None \<Rightarrow> None)"
| "searchFrom ci re p (c # cs) =
     (case rxm ci re Some (p, c # cs, Map.empty) of
        Some (p', r', cp) \<Rightarrow> Some (take (length (c # cs) - length r') (c # cs), cp)
      | None \<Rightarrow> searchFrom ci re (Some c) cs)"

definition rxExec :: "bool \<Rightarrow> rx \<Rightarrow> jstring \<Rightarrow> (jstring \<times> caps) option" where
  "rxExec ci re s = searchFrom ci re None s"

definition rxTest :: "bool \<Rightarrow> rx \<Rightarrow> jstring \<Rightarrow> bool" where
  "rxTest ci re s = (rxExec ci re s \<noteq> None)"

definition firstMatch :: "bool \<Rightarrow> rx \<Rightarrow> jstring \<Rightarrow> jstring option" where
  "firstMatch ci re s = map_option fst (rxExec ci re s)"

text \<open>
  \<open>s.split(re)\<close> for the two shapes of pattern the source splits on: a class of single
  code units (\<open>/[|\-]/\<close>, a split at every such unit), and a run of them (\<open>/\n+/\<close>, a
  split at every maximal run).
\<close>

fun splitCls :: "citem list \<Rightarrow> jstring \<Rightarrow> jstring \<Rightarrow> jstring list" where
  "splitCls items cur [] = [cur]"
| "splitCls items cur (c # cs) =
     (if inClass False items c then cur # splitCls items [] cs
      else splitCls items (cur @ [c]) cs)"

function splitRuns :: "citem list \<Rightarrow> jstring \<Rightarrow> jstring \<Rightarrow> jstring list" where
  "splitRuns items cur [] = [cur]"
| "splitRuns items cur (c # cs) =
     (if inClass False items c then cur # splitRuns items [] (dropWhile (inClass False items) cs)
      else splitRuns items (cur @ [c]) cs)"
  by pat_completeness auto
termination
  by (relation "measure (\<lambda>(items, cur, s). length s)")
    (auto simp: length_dropWhile_le less_Suc_eq_le)

section \<open>The renderer\<close>

subsection \<open>escapeLatex\<close>

text \<open>
  The five \<open>replace\<close> calls of \<open>escapeLatex\<close>, in the order of the source, each on the
  result of the one before: \<open>/\r?\n/g\<close> to a space, the backslash to
  \<open>\textbackslash{}\<close>, each of \<open>&%$#_{}~^\<close> to itself after a backslash, \<open><\<close> to
  \<open>\textless{}\<close> and \<open>>\<close> to \<open>\textgreater{}\<close>.
\<close>

fun collapseNewlines :: "jstring \<Rightarrow> jstring" where
  "collapseNewlines [] = []"
| "collapseNewlines [c] = (if c = 10 then [32] else [c])"
| "collapseNewlines (c # d # cs) =
     (if c = 13 \<and> d = 10 then 32 # collapseNewlines cs
      else if c = 10 then 32 # collapseNewlines (d # cs)
      else c # collapseNewlines (d # cs))"

definition escBackslash :: "jstring \<Rightarrow> jstring" where
  "escBackslash s = concat (map (\<lambda>c. if c = 92 then bs ''textbackslash{}'' else [c]) s)"

definition escReserved :: "jstring \<Rightarrow> jstring" where
  "escReserved s = concat (map (\<lambda>c. if c \<in> set (js ''&%$#_{}~^'') then [92, c] else [c]) s)"

definition escLess :: "jstring \<Rightarrow> jstring" where
  "escLess s = concat (map (\<lambda>c. if c = 60 then bs ''textless{}'' else [c]) s)"

definition escGreater :: "jstring \<Rightarrow> jstring" where
  "escGreater s = concat (map (\<lambda>c. if c = 62 then bs ''textgreater{}'' else [c]) s)"

definition escapeLatex :: "jstring \<Rightarrow> jstring" where
  "escapeLatex text = escGreater (escLess (escReserved (escBackslash (collapseNewlines text))))"

subsection \<open>encodeURI and normalizeUrl\<close>

text \<open>
  \<open>encodeURI\<close> keeps the unreserved and reserved URI characters and \<open>#\<close>, and writes
  every other code point as the percent-escaped bytes of its UTF-8 encoding. It raises
  \<open>URIError\<close> at a surrogate code unit that is not part of a pair.
\<close>

definition uriUnescaped :: "nat \<Rightarrow> bool" where
  "uriUnescaped c =
     ((48 \<le> c \<and> c \<le> 57) \<or> (65 \<le> c \<and> c \<le> 90) \<or> (97 \<le> c \<and> c \<le> 122)
      \<or> c \<in> set (js ''-_.!~*()'') \<or> c = 39 \<or> c \<in> set (js '';/?:@&=+$,#''))"

definition isLead :: "nat \<Rightarrow> bool" where
  "isLead c = (55296 \<le> c \<and> c \<le> 56319)"

definition isTrail :: "nat \<Rightarrow> bool" where
  "isTrail c = (56320 \<le> c \<and> c \<le> 57343)"

definition hexDigit :: "nat \<Rightarrow> nat" where
  "hexDigit n = (if n < 10 then 48 + n else 55 + n)"

definition pct :: "nat \<Rightarrow> jstring" where
  "pct b = [37, hexDigit (b div 16), hexDigit (b mod 16)]"

definition utf8 :: "nat \<Rightarrow> nat list" where
  "utf8 cp =
     (if cp < 128 then [cp]
      else if cp < 2048 then [192 + cp div 64, 128 + cp mod 64]
      else if cp < 65536 then [224 + cp div 4096, 128 + (cp div 64) mod 64, 128 + cp mod 64]
      else [240 + cp div 262144, 128 + (cp div 4096) mod 64, 128 + (cp div 64) mod 64,
            128 + cp mod 64])"

definition andThen :: "error + jstring \<Rightarrow> (jstring \<Rightarrow> jstring) \<Rightarrow> error + jstring" where
  "andThen r f = (case r of Inl e \<Rightarrow> Inl e | Inr y \<Rightarrow> Inr (f y))"

fun encodeURI :: "jstring \<Rightarrow> error + jstring" where
  "encodeURI [] = Inr []"
| "encodeURI [c] =
     (if uriUnescaped c then Inr [c]
      else if isLead c \<or> isTrail c then Inl URIError
      else Inr (concat (map pct (utf8 c))))"
| "encodeURI (c # d # cs) =
     (if uriUnescaped c then andThen (encodeURI (d # cs)) (\<lambda>y. c # y)
      else if isTrail c then Inl URIError
      else if isLead c then
        (if isTrail d
         then andThen (encodeURI cs)
                (\<lambda>y. concat (map pct (utf8 ((c - 55296) * 1024 + (d - 56320) + 65536))) @ y)
         else Inl URIError)
      else andThen (encodeURI (d # cs)) (\<lambda>y. concat (map pct (utf8 c)) @ y))"

text \<open>The string a template literal prints for an optional value.\<close>

definition toStr :: "jstring option \<Rightarrow> jstring" where
  "toStr v = (case v of None \<Rightarrow> js ''undefined'' | Some s \<Rightarrow> s)"

definition httpRe :: rx where
  "httpRe = cat [Bol, lit ''http'', Opt (lit ''s''), lit ''://'']"

definition normalizeUrl :: "jstring option \<Rightarrow> error + jstring option" where
  "normalizeUrl u =
     (if \<not> truthy u then Inr None
      else let trimmed = trim (toStr u) in
        if trimmed = [] then Inr None
        else if startsWith trimmed (js ''mailto:'') then map_sum id Some (encodeURI trimmed)
        else if rxTest True httpRe trimmed then map_sum id Some (encodeURI trimmed)
        else map_sum id Some (encodeURI (js ''https://'' @ trimmed)))"

subsection \<open>formatDateRange and toBulletLines\<close>

definition formatDateRange :: "jstring option \<Rightarrow> jstring option \<Rightarrow> jstring" where
  "formatDateRange startD endD =
     (let trimmedStart = map_option trim startD;
          trimmedEnd = map_option trim endD
      in if truthy trimmedStart \<and> truthy trimmedEnd
           then toStr trimmedStart @ js '' '' @ [8211] @ js '' '' @ toStr trimmedEnd
         else if truthy trimmedStart \<and> \<not> truthy trimmedEnd
           then toStr trimmedStart @ js '' '' @ [8211] @ js '' Present''
         else if \<not> truthy trimmedStart \<and> truthy trimmedEnd
           then toStr trimmedEnd
         else js ''Present'')"

definition resumeItem :: "jstring \<Rightarrow> jstring" where
  "resumeItem item = js ''        '' @ bs ''resumeItem{'' @ escapeLatex item @ js ''}''"

text \<open>
  \<open>normalized\<close> is the new array that \<open>map\<close> and \<open>filter\<close> return; the \<open>push\<close> of the
  fallback goes to it.
\<close>

definition toBulletLines :: "jstring list \<Rightarrow> jstring \<Rightarrow> jstring" where
  "toBulletLines items fallback =
     (let normalized = filter (\<lambda>item. item \<noteq> []) (map trim items);
          normalized' = (if length normalized = 0 then normalized @ [fallback] else normalized)
      in join (map resumeItem normalized') nl)"

subsection \<open>The sections\<close>

text \<open>
  The block that \<open>buildHeader\<close> repeats for \<open>linkedin\<close>, \<open>github\<close> and \<open>website\<close>:
  the elements it pushes on \<open>contactParts\<close>.
\<close>

definition hrefPart :: "jstring option \<Rightarrow> string \<Rightarrow> error + jstring list" where
  "hrefPart v label =
     (if truthy v then
        (case normalizeUrl v of
           Inl e \<Rightarrow> Inl e
         | Inr link \<Rightarrow>
             if truthy link then Inr [bs ''href{'' @ toStr link @ js ''}{'' @ js label @ js ''}'']
             else Inr [])
      else Inr [])"

definition buildHeader :: "PersonalInfo \<Rightarrow> error + jstring" where
  "buildHeader p =
     (let nameT = (if trim (name p) \<noteq> [] then trim (name p) else js ''Your Name'');
          c1 = (if truthy (location p) then [escapeLatex (toStr (location p))] else []);
          c2 = c1 @ (if truthy (phone p) then [escapeLatex (toStr (phone p))] else []);
          c3 = c2 @ (if email p \<noteq> []
                     then [bs ''href{mailto:'' @ trim (email p) @ js ''}{''
                             @ escapeLatex (trim (email p)) @ js ''}'']
                     else [])
      in case hrefPart (linkedin p) ''LinkedIn'' of
           Inl e \<Rightarrow> Inl e
         | Inr c4 \<Rightarrow>
        (case hrefPart (github p) ''GitHub'' of
           Inl e \<Rightarrow> Inl e
         | Inr c5 \<Rightarrow>
        (case hrefPart (website p) ''Portfolio'' of
           Inl e \<Rightarrow> Inl e
         | Inr c6 \<Rightarrow>
             let c7 = c3 @ c4 @ c5 @ c6;
                 contactParts = (if length c7 = 0
                                 then c7 @ [js ''Add your preferred contact details''] else c7)
             in Inr (bs ''begin{center}'' @ nl @ js ''    {'' @ bs ''Huge '' @ bs ''scshape ''
                     @ escapeLatex nameT @ js ''} '' @ bs '' '' @ bs ''vspace{1pt}'' @ nl
                     @ js ''    '' @ join contactParts (js '' $|$ '') @ js '' '' @ bs [] @ nl
                     @ bs ''end{center}''))))"

definition buildSummary :: "jstring option \<Rightarrow> jstring" where
  "buildSummary summ =
     (let trimmedSummary = map_option trim summ
      in if \<not> truthy trimmedSummary then []
         else bs ''section{Professional Summary}'' @ nl @ bs ''small{''
              @ escapeLatex (toStr trimmedSummary) @ js ''}'')"

definition experienceFallback :: jstring where
  "experienceFallback =
     js ''Describe your impact with quantified achievements and relevant skills.''"

text \<open>
  \<open>experienceBlock\<close> is the template literal that the callback of \<open>experience.map\<close>
  returns, given the bullet lines.
\<close>

definition experienceBlock :: "'arr ExperienceOf \<Rightarrow> jstring \<Rightarrow> jstring" where
  "experienceBlock exp bulletsT =
     (let dateRange = formatDateRange (startDate exp) (endDate exp);
          companyT = escapeLatex (strOr (company exp) (js ''Company Name''));
          role = escapeLatex (strOr (position exp) (js ''Role Title''));
          locationT = escapeLatex (orElse (exp_location exp) [])
      in js ''    '' @ bs ''resumeSubheading'' @ nl @ js ''      {'' @ role @ js ''}{''
         @ escapeLatex dateRange @ js ''}'' @ nl @ js ''      {'' @ companyT @ js ''}{''
         @ locationT @ js ''}'' @ nl @ js ''      '' @ bs ''resumeItemListStart'' @ nl
         @ bulletsT @ nl @ js ''      '' @ bs ''resumeItemListEnd'')"

definition experienceEntry :: "Experience \<Rightarrow> jstring" where
  "experienceEntry exp =
     (let bulletsT = toBulletLines (bullets exp) experienceFallback
      in experienceBlock exp bulletsT)"

definition experienceSectionOf :: "jstring list \<Rightarrow> jstring" where
  "experienceSectionOf entryTexts =
     (let entries = join entryTexts (nl @ bs ''vspace{-16pt}'' @ nl)
      in js ''%-----------PROFESSIONAL EXPERIENCE-----------'' @ nl
         @ bs ''section{Professional Experience}'' @ nl @ js ''  ''
         @ bs ''resumeSubHeadingListStart'' @ nl @ entries @ nl @ js ''  ''
         @ bs ''resumeSubHeadingListEnd'' @ nl @ bs ''vspace{-16pt}'')"

definition buildExperienceSection :: "Experience list option \<Rightarrow> jstring" where
  "buildExperienceSection experienceO =
     (case experienceO of
        None \<Rightarrow> []
      | Some exps \<Rightarrow>
          if length exps = 0 then []
          else experienceSectionOf (map experienceEntry exps))"

text \<open>
  \<open>projects.map\<close> calls \<open>normalizeUrl\<close> for each project in turn; the first exception
  ends the call. \<open>mapE\<close> is \<open>map\<close> for a function that can raise.
\<close>

fun mapE :: "('a \<Rightarrow> error + 'b) \<Rightarrow> 'a list \<Rightarrow> error + 'b list" where
  "mapE f [] = Inr []"
| "mapE f (x # xs) =
     (case f x of
        Inl e \<Rightarrow> Inl e
      | Inr y \<Rightarrow> (case mapE f xs of Inl e \<Rightarrow> Inl e | Inr ys \<Rightarrow> Inr (y # ys)))"

definition projectFallback :: jstring where
  "projectFallback =
     js ''Summarize the project outcome, your contribution, and measurable impact.''"

text \<open>
  \<open>projectBlock\<close> is the template literal that the callback of \<open>projects.map\<close>
  returns, \<open>projectsSectionOf\<close> the one of the section.
\<close>

definition projectBlock :: "jstring \<Rightarrow> jstring \<Rightarrow> jstring \<Rightarrow> jstring \<Rightarrow> jstring" where
  "projectBlock projectName techStack rightColumn bulletsT =
     js ''      '' @ bs ''resumeProjectHeading'' @ nl @ js ''          {''
     @ bs ''textbf{'' @ projectName @ js ''}'' @ techStack @ js ''}{''
     @ rightColumn @ js ''}'' @ nl @ js ''          ''
     @ bs ''resumeItemListStart'' @ nl @ bulletsT @ nl @ js ''          ''
     @ bs ''resumeItemListEnd'' @ nl @ js ''          '' @ bs ''vspace{-13pt}''"

definition projectsSectionOf :: "jstring list \<Rightarrow> jstring" where
  "projectsSectionOf entryTexts =
     (let entries = join entryTexts nl
      in js ''%-----------PROJECTS-----------'' @ nl @ bs ''section{Projects}''
         @ nl @ js ''    '' @ bs ''vspace{-5pt}'' @ nl @ js ''    ''
         @ bs ''resumeSubHeadingListStart'' @ nl @ entries @ nl @ js ''    ''
         @ bs ''resumeSubHeadingListEnd'' @ nl @ bs ''vspace{-15pt}'')"

definition techStackText :: "jstring list option \<Rightarrow> jstring" where
  "techStackText techsO =
     (case techsO of
        None \<Rightarrow> []
      | Some techs \<Rightarrow>
          if length techs > 0
          then js '' $|$ '' @ bs ''emph{'' @ escapeLatex (join techs (js '', '')) @ js ''}''
          else [])"

definition dateMeta :: "'arr ProjectOf \<Rightarrow> jstring list" where
  "dateMeta project =
     (if truthy (proj_startDate project) \<or> truthy (proj_endDate project)
      then [escapeLatex (formatDateRange (proj_startDate project) (proj_endDate project))]
      else [])"

definition projectEntry :: "Project \<Rightarrow> error + jstring" where
  "projectEntry project =
     (let projectName = escapeLatex (strOr (proj_name project) (js ''Project Name''));
          techStack = techStackText (technologies project);
          m1 = dateMeta project
      in case hrefPart (url project) ''Link'' of
           Inl e \<Rightarrow> Inl e
         | Inr m2 \<Rightarrow>
             let metaParts = m1 @ m2;
                 rightColumn = join metaParts (js '' $|$ '');
                 descriptionLines =
                   (if description project \<noteq> []
                    then filter (\<lambda>item. item \<noteq> [])
                           (map trim (splitRuns [Code 10] [] (description project)))
                    else []);
                 bulletsT = toBulletLines descriptionLines projectFallback
             in Inr (projectBlock projectName techStack rightColumn bulletsT))"

definition buildProjectsSection :: "Project list option \<Rightarrow> error + jstring" where
  "buildProjectsSection projectsO =
     (case projectsO of
        None \<Rightarrow> Inr []
      | Some ps \<Rightarrow>
          if length ps = 0 then Inr []
          else (case mapE projectEntry ps of
                  Inl e \<Rightarrow> Inl e
                | Inr es \<Rightarrow> Inr (projectsSectionOf es)))"

text \<open>
  In the template literal of \<open>buildSkillsSection\<close> the source writes \<open>\item\<close> with one
  backslash, which JavaScript reads as the letter i: the text produced is \<open>item{\<close>.
\<close>

definition skillLine :: "Skill \<Rightarrow> jstring" where
  "skillLine skillGroup =
     (let skillsText = (if length (group_skills skillGroup) > 0
                        then join (group_skills skillGroup) (js '', '')
                        else js ''Update this section with your core competencies.'')
      in js ''     '' @ bs ''textbf{''
         @ escapeLatex (strOr (category skillGroup) (js ''Skills'')) @ js ''}{: ''
         @ escapeLatex skillsText @ js ''}'')"

definition buildSkillsSection :: "Skill list option \<Rightarrow> jstring" where
  "buildSkillsSection skillsO =
     (case skillsO of
        None \<Rightarrow> []
      | Some sks \<Rightarrow>
          if length sks = 0 then []
          else let skillLines = map skillLine sks
               in js ''%-----------TECHNICAL SKILLS-----------'' @ nl
                  @ bs ''section{Technical Skills}'' @ nl @ js '' ''
                  @ bs ''begin{itemize}[leftmargin=0.15in, label={}]'' @ nl @ js ''    ''
                  @ bs ''small{item{'' @ nl @ join skillLines (js '' '' @ bs [] @ nl)
                  @ js '' '' @ bs [] @ nl @ js ''    }}'' @ nl @ js '' '' @ bs ''end{itemize}''
                  @ nl @ js '' '' @ bs ''vspace{-16pt}'')"

definition educationEntry :: "Education \<Rightarrow> jstring" where
  "educationEntry edu =
     (let degreeLine = strOr (degree edu) (js ''Degree'')
                       @ (if truthy (field edu) then js '' in '' @ toStr (field edu) else []);
          dateLine = (if truthy (graduationDate edu) then escapeLatex (toStr (graduationDate edu))
                      else []);
          institutionT = escapeLatex (strOr (institution edu) (js ''Institution''));
          trailing = (if (case honors edu of None \<Rightarrow> False | Some hs \<Rightarrow> length hs > 0)
                      then escapeLatex (join (case honors edu of None \<Rightarrow> [] | Some hs \<Rightarrow> hs)
                                          (js '', ''))
                      else if truthy (gpa edu) then escapeLatex (js ''GPA: '' @ toStr (gpa edu))
                      else [])
      in js ''    '' @ bs ''resumeSubheading'' @ nl @ js ''      {'' @ escapeLatex degreeLine
         @ js ''}{'' @ dateLine @ js ''}'' @ nl @ js ''      {'' @ institutionT @ js ''}{''
         @ trailing @ js ''}'')"

definition buildEducationSection :: "Education list option \<Rightarrow> jstring" where
  "buildEducationSection educationO =
     (case educationO of
        None \<Rightarrow> []
      | Some edus \<Rightarrow>
          if length edus = 0 then []
          else let entries = join (map educationEntry edus) nl
               in js ''%-----------EDUCATION-----------'' @ nl @ bs ''section{Education}'' @ nl
                  @ js ''  '' @ bs ''resumeSubHeadingListStart'' @ nl @ entries @ nl @ js ''  ''
                  @ bs ''resumeSubHeadingListEnd'')"

definition metaText :: "jstring list \<Rightarrow> jstring" where
  "metaText meta =
     (if length meta \<noteq> 0
      then js '' ('' @ join (map escapeLatex meta) (js ''; '') @ js '')''
      else [])"

definition certificationItem :: "Certification \<Rightarrow> jstring" where
  "certificationItem cert =
     (let m1 = (if cert_issuer cert \<noteq> [] then [js ''Issued by '' @ cert_issuer cert] else []);
          m2 = m1 @ (if cert_date cert \<noteq> [] then [cert_date cert] else []);
          m3 = m2 @ (if truthy (expiryDate cert) then [js ''Expires '' @ toStr (expiryDate cert)]
                     else []);
          meta = m3 @ (if truthy (credentialId cert) then [js ''ID '' @ toStr (credentialId cert)]
                       else [])
      in js ''    '' @ bs ''item '' @ escapeLatex (cert_name cert) @ metaText meta)"

definition buildCertificationsSection :: "Certification list option \<Rightarrow> jstring" where
  "buildCertificationsSection certificationsO =
     (case certificationsO of
        None \<Rightarrow> []
      | Some cs \<Rightarrow>
          if length cs = 0 then []
          else let items = map certificationItem cs
               in js ''%-----------CERTIFICATIONS-----------'' @ nl @ bs ''section{Certifications}''
                  @ nl @ js ''  '' @ bs ''begin{itemize}[leftmargin=0.15in]'' @ nl
                  @ join items nl @ nl @ js ''  '' @ bs ''end{itemize}'')"

definition awardItem :: "Award \<Rightarrow> jstring" where
  "awardItem award =
     (let m1 = (if award_issuer award \<noteq> [] then [award_issuer award] else []);
          meta = m1 @ (if award_date award \<noteq> [] then [award_date award] else []);
          descriptionT = (if truthy (award_description award)
                          then js '' -- '' @ escapeLatex (toStr (award_description award))
                          else [])
      in js ''    '' @ bs ''item '' @ escapeLatex (award_name award) @ metaText meta
         @ descriptionT)"

definition buildAwardsSection :: "Award list option \<Rightarrow> jstring" where
  "buildAwardsSection awardsO =
     (case awardsO of
        None \<Rightarrow> []
      | Some aws \<Rightarrow>
          if length aws = 0 then []
          else let items = map awardItem aws
               in js ''%-----------AWARDS-----------'' @ nl @ bs ''section{Awards}'' @ nl
                  @ js ''  '' @ bs ''begin{itemize}[leftmargin=0.15in]'' @ nl
                  @ join items nl @ nl @ js ''  '' @ bs ''end{itemize}'')"

subsection \<open>buildLatexBody and generateLatexFromResume\<close>

text \<open>
  \<open>pushIf\<close> is \<open>if (section) sections.push(section)\<close>. Reading a property of a missing
  \<open>personalInfo\<close> in \<open>buildHeader\<close> raises \<open>TypeError\<close>.
\<close>

definition pushIf :: "jstring list \<Rightarrow> jstring \<Rightarrow> jstring list" where
  "pushIf sections sect = (if sect \<noteq> [] then sections @ [sect] else sections)"

definition buildLatexBody :: "ResumeData \<Rightarrow> error + jstring" where
  "buildLatexBody resumeData =
     (case personalInfo resumeData of
        None \<Rightarrow> Inl TypeError
      | Some p \<Rightarrow>
     (case buildHeader p of
        Inl e \<Rightarrow> Inl e
      | Inr header \<Rightarrow>
          let s1 = [header];
              s2 = pushIf s1 (buildSummary (summary resumeData));
              s3 = pushIf s2 (buildExperienceSection (experience resumeData))
          in (case buildProjectsSection (projects resumeData) of
                Inl e \<Rightarrow> Inl e
              | Inr projectsSection \<Rightarrow>
                  let s4 = pushIf s3 projectsSection;
                      s5 = pushIf s4 (buildSkillsSection (skills resumeData));
                      s6 = pushIf s5 (buildEducationSection (education resumeData));
                      s7 = pushIf s6 (buildCertificationsSection (certifications resumeData));
                      s8 = pushIf s7 (buildAwardsSection (awards resumeData))
                  in Inr (join (filter (\<lambda>s. s \<noteq> []) s8) (nl @ nl)))))"

definition beginDelimiter :: jstring where
  "beginDelimiter = bs ''begin{document}''"

definition endDelimiter :: jstring where
  "endDelimiter = bs ''end{document}''"

definition getDefaultPreamble :: jstring where
  "getDefaultPreamble = bs ''documentclass[letterpaper,11pt]{article}'' @ nl"

text \<open>
  The destructuring \<open>[preambleSection, bodyAndAfter] = ...\<close> reads elements 0 and 1 of the
  array, \<open>undefined\<close> where the array is shorter.
\<close>

definition nthOpt :: "'a list \<Rightarrow> nat \<Rightarrow> 'a option" where
  "nthOpt xs i = (if i < length xs then Some (xs ! i) else None)"

text \<open>
  The splice of \<open>generateLatexFromResume\<close>, given the outcome of \<open>buildLatexBody\<close>.
\<close>

definition spliceTemplate :: "jstring \<Rightarrow> error + jstring \<Rightarrow> error + jstring" where
  "spliceTemplate templateLatex bodyResult =
     (let hasBegin = jsIncludes templateLatex beginDelimiter;
          hasEnd = jsIncludes templateLatex endDelimiter;
          parts = (if hasBegin then split templateLatex beginDelimiter
                   else [getDefaultPreamble, []]);
          preambleSection = nthOpt parts 0;
          bodyAndAfter = nthOpt parts 1;
          afterBegin = orElse bodyAndAfter [];
          postDocument = (if hasEnd then join (drop 1 (split afterBegin endDelimiter)) endDelimiter
                          else [])
      in case bodyResult of
           Inl e \<Rightarrow> Inl e
         | Inr latexBody \<Rightarrow>
             let preamble = (if hasBegin then toStr preambleSection else getDefaultPreamble);
                 documentCore = preamble @ beginDelimiter @ nl @ latexBody @ nl @ endDelimiter
             in Inr (if postDocument \<noteq> [] then documentCore @ postDocument else documentCore))"

definition generateLatexFromResume :: "ResumeData \<Rightarrow> jstring \<Rightarrow> error + jstring" where
  "generateLatexFromResume resumeData templateLatex =
     spliceTemplate templateLatex (buildLatexBody resumeData)"

section \<open>The extractor\<close>

text \<open>
  \<open>String.prototype.toLowerCase\<close>. The letters A to Z go to a to z. Outside ASCII the
  lower-case form of a character holds an ASCII letter in two cases only, which are
  modelled: U+0130 (capital I with dot above) gives \<open>i\<close> and the combining dot U+0307,
  and U+212A (the Kelvin sign) gives \<open>k\<close>. Every other code unit is kept as it is;
  \<open>toLowerCase\<close> maps the cased characters among them to characters outside ASCII,
  which the model does not follow. The extractor only looks for ASCII keywords in the
  result and compares it with the ASCII word \<open>experience\<close>.
\<close>

definition lowerUnit :: "nat \<Rightarrow> jstring" where
  "lowerUnit c =
     (if 65 \<le> c \<and> c \<le> 90 then [c + 32]
      else if c = 304 then [105, 775]
      else if c = 8490 then [107]
      else [c])"

definition toLowerCase :: "jstring \<Rightarrow> jstring" where
  "toLowerCase s = concat (map lowerUnit s)"

text \<open>
  \<open>lowerExact s\<close> holds of strings on which \<open>toLowerCase\<close> above is exactly the mapping
  of the source: every code unit of \<open>s\<close> is below 128, or in the General Punctuation
  block, U+2000 to U+206F, where the bullet and the dashes are and no character is cased.
\<close>

definition lowerExact :: "jstring \<Rightarrow> bool" where
  "lowerExact s = list_all (\<lambda>c. c < 128 \<or> (8192 \<le> c \<and> c \<le> 8303)) s"

definition bullet :: nat where
  "bullet = 8226"

subsection \<open>isSectionHeader\<close>

definition sectionHeaders :: "jstring list" where
  "sectionHeaders =
     [js ''experience'', js ''education'', js ''skills'', js ''projects'', js ''certifications'',
      js ''awards'', js ''summary'', js ''objective'', js ''professional'', js ''academic'']"

definition upperRe :: rx where
  "upperRe = cat [Bol, plusG (Cls [Rng CHR ''A'' CHR ''Z'', WS]), Eol]"

definition isSectionHeader :: "jstring \<Rightarrow> bool" where
  "isSectionHeader line =
     (let lowerLine = toLowerCase line
      in list_ex (\<lambda>header. jsIncludes lowerLine header) sectionHeaders
         \<or> (length line < 30 \<and> rxTest False upperRe line))"

text \<open>
  Each section scanner starts with the same loop: the index after the first line that
  contains one of the section's keywords, \<open>None\<close> for the \<open>-1\<close> of the source.
\<close>

fun findStart :: "jstring list \<Rightarrow> jstring list \<Rightarrow> nat option" where
  "findStart keywords [] = None"
| "findStart keywords (l # ls) =
     (if list_ex (\<lambda>keyword. jsIncludes (toLowerCase l) keyword) keywords then Some 1
      else map_option Suc (findStart keywords ls))"

subsection \<open>extractPersonalInfo\<close>

definition digitRe :: rx where
  "digitRe = Cls [Digit]"

definition emailRe :: rx where
  "emailRe =
     cat [WordB,
          plusG (Cls [Rng CHR ''A'' CHR ''Z'', Rng CHR ''a'' CHR ''z'', Rng CHR ''0'' CHR ''9'',
                      Chars ''._%+-'']),
          lit ''@'',
          plusG (Cls [Rng CHR ''A'' CHR ''Z'', Rng CHR ''a'' CHR ''z'', Rng CHR ''0'' CHR ''9'',
                      Chars ''.-'']),
          lit ''.'',
          rep 2 (Cls [Rng CHR ''A'' CHR ''Z'', Chars ''|'', Rng CHR ''a'' CHR ''z'']),
          Star (Cls [Rng CHR ''A'' CHR ''Z'', Chars ''|'', Rng CHR ''a'' CHR ''z'']),
          WordB]"

definition phoneRe :: rx where
  "phoneRe =
     cat [Opt (Grp 1 (cat [Opt (lit ''+''), Opt (lit ''1''), Opt (Cls [Chars ''-.'', WS])])),
          Opt (lit ''(''),
          Grp 2 (rep 3 (Cls [Rng CHR ''0'' CHR ''9''])),
          Opt (lit '')''),
          Opt (Cls [Chars ''-.'', WS]),
          Grp 3 (rep 3 (Cls [Rng CHR ''0'' CHR ''9''])),
          Opt (Cls [Chars ''-.'', WS]),
          Grp 4 (rep 4 (Cls [Rng CHR ''0'' CHR ''9''])),
          WordB]"

definition linkedinRe :: rx where
  "linkedinRe =
     cat [lit ''linkedin.com/in/'',
          plusG (Cls [Rng CHR ''A'' CHR ''Z'', Rng CHR ''a'' CHR ''z'', Rng CHR ''0'' CHR ''9'',
                      Chars ''_-''])]"

definition githubRe :: rx where
  "githubRe =
     cat [lit ''github.com/'',
          plusG (Cls [Rng CHR ''A'' CHR ''Z'', Rng CHR ''a'' CHR ''z'', Rng CHR ''0'' CHR ''9'',
                      Chars ''_-''])]"

definition matchOr :: "jstring option \<Rightarrow> jstring \<Rightarrow> jstring" where
  "matchOr mt d = (case mt of None \<Rightarrow> d | Some x \<Rightarrow> x)"

definition extractPersonalInfo :: "jstring list \<Rightarrow> PersonalInfo" where
  "extractPersonalInfo lines =
     (let nameT = (case find (\<lambda>line. length line > 0 \<and> length line < 50
                                \<and> \<not> jsIncludes line (js ''@'') \<and> \<not> rxTest False digitRe line
                                \<and> \<not> jsIncludes line (js ''|'') \<and> \<not> jsIncludes line [bullet]
                                \<and> \<not> jsIncludes line (js '' - ''))
                          (take (min 5 (length lines)) lines) of
                     None \<Rightarrow> [] | Some line \<Rightarrow> line);
          fullText = join lines (js '' '');
          emailT = matchOr (firstMatch False emailRe fullText) [];
          phoneT = matchOr (firstMatch False phoneRe fullText) [];
          linkedinT = matchOr (firstMatch True linkedinRe fullText) [];
          githubT = matchOr (firstMatch True githubRe fullText) [];
          locationT = (case find (\<lambda>line. jsIncludes line (js '','') \<and> length line < 50
                                    \<and> \<not> jsIncludes line (js ''@'')
                                    \<and> length (split line (js '','')) = 2)
                              (take 10 lines) of
                         None \<Rightarrow> [] | Some line \<Rightarrow> line)
      in \<lparr>name = nameT, email = emailT, phone = Some phoneT, location = Some locationT,
          linkedin = Some linkedinT, github = Some githubT, website = Some []\<rparr>)"

subsection \<open>extractSummary\<close>

fun collectSummary :: "jstring list \<Rightarrow> jstring list \<Rightarrow> jstring list" where
  "collectSummary summaryLines [] = summaryLines"
| "collectSummary summaryLines (line # rest) =
     (if isSectionHeader line then summaryLines
      else let summaryLines' = (if length line > 10 then summaryLines @ [line] else summaryLines)
           in if length summaryLines' \<ge> 3 then summaryLines'
              else collectSummary summaryLines' rest)"

definition extractSummary :: "jstring list \<Rightarrow> jstring" where
  "extractSummary lines =
     (case findStart [js ''summary'', js ''objective'', js ''profile'', js ''about''] lines of
        None \<Rightarrow> []
      | Some summaryStart \<Rightarrow> join (collectSummary [] (drop summaryStart lines)) (js '' ''))"

subsection \<open>extractExperience\<close>

text \<open>
  \<open>currentExp\<close> is an object, and \<open>experience.push(currentExp)\<close> stores a reference to
  it: a line that looks like a job heading but matches neither format leaves
  \<open>currentExp\<close> in place after it was pushed, so later bullets reach the pushed entry
  and the object is pushed again. The loop state therefore keeps the objects created so
  far in \<open>objs\<close>, the array \<open>experience\<close> as the indices pushed, and \<open>currentExp\<close> as
  an index (\<open>None\<close> for the initial empty object). The flag \<open>collectingBullets\<close> is
  written and never read; it is left out.
\<close>

record expState =
  objs :: "Experience list"
  pushed :: "nat list"
  currentExp :: "nat option"

definition jobRe :: rx where
  "jobRe =
     cat [Bol, Grp 1 (plusL Dot), Star (Cls [WS]), Alt (lit ''at'') (lit ''@''), Star (Cls [WS]),
          Grp 2 (plusL Dot), Opt (cat [Star (Cls [WS]), lit ''|'', Star Dot]), Eol]"

definition newExperience :: "jstring \<Rightarrow> jstring \<Rightarrow> Experience" where
  "newExperience posT compT =
     \<lparr>company = compT, position = posT, exp_location = None, startDate = None, endDate = None,
      bullets = []\<rparr>"

definition isComplete :: "expState \<Rightarrow> bool" where
  "isComplete st =
     (case currentExp st of
        None \<Rightarrow> False
      | Some i \<Rightarrow> position (objs st ! i) \<noteq> [] \<and> company (objs st ! i) \<noteq> [])"

definition pushCurrent :: "expState \<Rightarrow> expState" where
  "pushCurrent st =
     (case currentExp st of
        None \<Rightarrow> st
      | Some i \<Rightarrow> if isComplete st then st\<lparr>pushed := pushed st @ [i]\<rparr> else st)"

definition setCurrent :: "Experience \<Rightarrow> expState \<Rightarrow> expState" where
  "setCurrent e st = st\<lparr>objs := objs st @ [e], currentExp := Some (length (objs st))\<rparr>"

definition isBulletLine :: "jstring \<Rightarrow> bool" where
  "isBulletLine line = (startsWith line [bullet] \<or> startsWith line (js ''-''))"

definition jobHeading :: "jstring \<Rightarrow> expState \<Rightarrow> expState" where
  "jobHeading line st =
     (let st1 = pushCurrent st
      in case rxExec True jobRe line of
           Some (m0, jobMatch) \<Rightarrow>
             setCurrent (newExperience (trim (toStr (jobMatch 1))) (trim (toStr (jobMatch 2)))) st1
         | None \<Rightarrow>
             if jsIncludes line (js ''|'') \<or> jsIncludes line (js '' - '')
             then let parts = map trim (splitCls [Chars ''|-''] [] line)
                  in if length parts \<ge> 2 then setCurrent (newExperience (parts ! 0) (parts ! 1)) st1
                     else st1
             else st1)"

definition addBullet :: "jstring \<Rightarrow> expState \<Rightarrow> expState" where
  "addBullet line st =
     (case currentExp st of
        None \<Rightarrow> st
      | Some i \<Rightarrow>
          if position (objs st ! i) \<noteq> []
          then let bulletT = trim (drop 1 line)
               in if length bulletT > 0
                  then st\<lparr>objs := (objs st)
                            [i := (objs st ! i)\<lparr>bullets := bullets (objs st ! i) @ [bulletT]\<rparr>]\<rparr>
                  else st
          else st)"

fun experienceLoop :: "jstring list \<Rightarrow> expState \<Rightarrow> expState" where
  "experienceLoop [] st = st"
| "experienceLoop (line # rest) st =
     (if isSectionHeader line \<and> toLowerCase line \<noteq> js ''experience'' then st
      else if \<not> isBulletLine line \<and> length line > 5 then experienceLoop rest (jobHeading line st)
      else if isBulletLine line then experienceLoop rest (addBullet line st)
      else experienceLoop rest st)"

definition extractExperience :: "jstring list \<Rightarrow> Experience list" where
  "extractExperience lines =
     (case findStart [js ''experience'', js ''work'', js ''employment'', js ''professional''] lines of
        None \<Rightarrow> []
      | Some experienceStart \<Rightarrow>
          let st = experienceLoop (drop experienceStart lines)
                     \<lparr>objs = [], pushed = [], currentExp = None\<rparr>;
              st' = pushCurrent st
          in map (\<lambda>i. objs st' ! i) (pushed st'))"

subsection \<open>extractEducation\<close>

definition educationKeywords :: "jstring list" where
  "educationKeywords = [js ''education'', js ''academic'', js ''university'', js ''college'']"

definition eduRe :: rx where
  "eduRe =
     cat [Bol, Grp 1 (plusL Dot), lit '','', Star (Cls [WS]), Grp 2 (plusL Dot),
          Opt (cat [lit '','', Star (Cls [WS]), Grp 3 (plusL Dot)]), Eol]"

definition newEducation :: "jstring \<Rightarrow> jstring \<Rightarrow> jstring \<Rightarrow> Education" where
  "newEducation deg inst fld =
     \<lparr>institution = inst, degree = deg, field = Some fld, graduationDate = None, gpa = None,
      honors = None\<rparr>"

definition educationLine :: "jstring \<Rightarrow> Education list" where
  "educationLine line =
     (case rxExec False eduRe line of
        Some (m0, eduMatch) \<Rightarrow>
          [newEducation (trim (toStr (eduMatch 1))) (trim (toStr (eduMatch 2)))
             (orElse (map_option trim (eduMatch 3)) [])]
      | None \<Rightarrow>
          let parts = map trim (split line (js '',''))
          in if length parts \<ge> 2
             then [newEducation (parts ! 0) (parts ! 1) (join (drop 2 parts) (js '', ''))]
             else [])"

fun educationLoop :: "jstring list \<Rightarrow> Education list \<Rightarrow> Education list" where
  "educationLoop [] acc = acc"
| "educationLoop (line # rest) acc =
     (if isSectionHeader line
         \<and> \<not> list_ex (\<lambda>k. jsIncludes (toLowerCase line) k) educationKeywords then acc
      else if length line > 10 \<and> \<not> isBulletLine line
        then educationLoop rest (acc @ educationLine line)
      else educationLoop rest acc)"

definition extractEducation :: "jstring list \<Rightarrow> Education list" where
  "extractEducation lines =
     (case findStart educationKeywords lines of
        None \<Rightarrow> []
      | Some educationStart \<Rightarrow> educationLoop (drop educationStart lines) [])"

subsection \<open>extractSkills\<close>

definition technicalRe :: rx where
  "technicalRe =
     cat [WordB,
          Grp 1 (alts [lit ''javascript'', lit ''python'', lit ''java'', lit ''react'', lit ''node'',
                       lit ''sql'', lit ''html'', lit ''css'', lit ''aws'', lit ''docker'',
                       lit ''git'']),
          WordB]"

definition softRe :: rx where
  "softRe =
     cat [WordB,
          Grp 1 (alts [lit ''communication'', lit ''leadership'', lit ''teamwork'',
                       cat [lit ''problem'', Dot, lit ''solving''], lit ''analytical'']),
          WordB]"

fun collectSkillsText :: "jstring list \<Rightarrow> jstring list" where
  "collectSkillsText [] = []"
| "collectSkillsText (line # rest) =
     (if isSectionHeader line then []
      else if length line > 0 then line # collectSkillsText rest
      else collectSkillsText rest)"

text \<open>
  \<open>skillItems\<close> is the token list of the source: the collected lines joined with
  spaces, split at bullets, commas and line feeds, trimmed, the empty ones dropped.
\<close>

definition skillItems :: "jstring list \<Rightarrow> jstring list" where
  "skillItems skillsText =
     (let allSkillsText = join skillsText (js '' '')
      in filter (\<lambda>s. length s > 0)
           (map trim (splitCls [Code bullet, Chars '','', Code 10] [] allSkillsText)))"

definition categorize :: "jstring list \<Rightarrow> Skill list" where
  "categorize items =
     (let technicalSkills = filter (\<lambda>skill. rxTest True technicalRe skill) items;
          softSkills = filter (\<lambda>skill. rxTest True softRe skill) items;
          otherSkills = filter (\<lambda>skill. skill \<notin> set technicalSkills \<and> skill \<notin> set softSkills) items;
          g1 = (if length technicalSkills > 0
                then [\<lparr>category = js ''Technical Skills'', group_skills = technicalSkills\<rparr>] else []);
          g2 = g1 @ (if length softSkills > 0
                     then [\<lparr>category = js ''Soft Skills'', group_skills = softSkills\<rparr>] else []);
          g3 = g2 @ (if length otherSkills > 0
                     then [\<lparr>category = js ''Other Skills'', group_skills = otherSkills\<rparr>] else [])
      in g3)"

definition extractSkills :: "jstring list \<Rightarrow> Skill list" where
  "extractSkills lines =
     (case findStart [js ''skills'', js ''technologies'', js ''competencies''] lines of
        None \<Rightarrow> []
      | Some skillsStart \<Rightarrow> categorize (skillItems (collectSkillsText (drop skillsStart lines))))"

subsection \<open>extractResumeData\<close>

definition normalizeLines :: "jstring \<Rightarrow> jstring list" where
  "normalizeLines text = filter (\<lambda>line. length line > 0) (map trim (split text nl))"

definition extractResumeData :: "jstring \<Rightarrow> ResumeData" where
  "extractResumeData text =
     (let lines = normalizeLines text
      in \<lparr>personalInfo = Some (extractPersonalInfo lines),
          summary = Some (extractSummary lines),
          experience = Some (extractExperience lines),
          education = Some (extractEducation lines),
          skills = Some (extractSkills lines),
          projects = Some [],
          certifications = Some [],
          awards = Some []\<rparr>)"

section \<open>The renderer over a store of arrays\<close>

text \<open>
  Whether the renderer changes the record it is given is a question about arrays: a
  JavaScript array is an object, and \<open>push\<close> changes it for everyone who holds it. The
  renderer contains no assignment to a property and no call that writes to an array of
  objects; it reads them with \<open>length\<close> and \<open>map\<close>. Its writes are \<open>push\<close> calls on
  arrays of strings. Objects and arrays of objects therefore stay values here, and the
  arrays of strings live in a store: \<open>arrays h a\<close> is the content of the array at address
  \<open>a\<close>, and the addresses below \<open>fresh h\<close> are in use. A record of type
  \<open>ResumeDataRef\<close> holds the addresses of its \<open>bullets\<close>, \<open>honors\<close>, \<open>skills\<close> and
  \<open>technologies\<close>.

  \<open>map\<close>, \<open>filter\<close> and \<open>split\<close> return a new array; \<open>push\<close> appends to the array
  it is called on. The arrays \<open>sections\<close>, \<open>contactParts\<close>, \<open>metaParts\<close> and \<open>meta\<close>
  are created by the literal \<open>[]\<close> in the function that pushes on them and are not
  handed on; they remain the local lists of the functions above.
\<close>

record store =
  arrays :: "nat \<Rightarrow> jstring list"
  fresh :: nat

definition alloc :: "jstring list \<Rightarrow> store \<Rightarrow> nat \<times> store" where
  "alloc xs h = (fresh h, \<lparr>arrays = (arrays h)(fresh h := xs), fresh = Suc (fresh h)\<rparr>)"

definition arrayMap :: "(jstring \<Rightarrow> jstring) \<Rightarrow> nat \<Rightarrow> store \<Rightarrow> nat \<times> store" where
  "arrayMap f a h = alloc (map f (arrays h a)) h"

definition arrayFilter :: "(jstring \<Rightarrow> bool) \<Rightarrow> nat \<Rightarrow> store \<Rightarrow> nat \<times> store" where
  "arrayFilter P a h = alloc (filter P (arrays h a)) h"

definition arrayPush :: "nat \<Rightarrow> jstring \<Rightarrow> store \<Rightarrow> store" where
  "arrayPush a v h = h\<lparr>arrays := (arrays h)(a := arrays h a @ [v])\<rparr>"

definition toBulletLinesS :: "nat \<Rightarrow> jstring \<Rightarrow> store \<Rightarrow> jstring \<times> store" where
  "toBulletLinesS items fallback h =
     (let (trimmed, h1) = arrayMap trim items h;
          (normalized, h2) = arrayFilter (\<lambda>item. item \<noteq> []) trimmed h1;
          h3 = (if length (arrays h2 normalized) = 0 then arrayPush normalized fallback h2
                else h2);
          (itemLines, h4) = arrayMap resumeItem normalized h3
      in (join (arrays h4 itemLines) nl, h4))"

definition experienceEntryS :: "ExperienceRef \<Rightarrow> store \<Rightarrow> jstring \<times> store" where
  "experienceEntryS exp h =
     (let (bulletsT, h1) = toBulletLinesS (bullets exp) experienceFallback h
      in (experienceBlock exp bulletsT, h1))"

text \<open>
  \<open>mapS\<close> is \<open>map\<close> over an array of objects with a callback that works on the store,
  \<open>mapES\<close> the same for a callback that can raise.
\<close>

fun mapS :: "('a \<Rightarrow> store \<Rightarrow> 'b \<times> store) \<Rightarrow> 'a list \<Rightarrow> store \<Rightarrow> 'b list \<times> store" where
  "mapS f [] h = ([], h)"
| "mapS f (x # xs) h =
     (let (y, h1) = f x h;
          (ys, h2) = mapS f xs h1
      in (y # ys, h2))"

fun mapES :: "('a \<Rightarrow> store \<Rightarrow> (error + 'b) \<times> store) \<Rightarrow> 'a list \<Rightarrow> store
    \<Rightarrow> (error + 'b list) \<times> store" where
  "mapES f [] h = (Inr [], h)"
| "mapES f (x # xs) h =
     (case f x h of
        (Inl e, h1) \<Rightarrow> (Inl e, h1)
      | (Inr y, h1) \<Rightarrow>
          (case mapES f xs h1 of
             (Inl e, h2) \<Rightarrow> (Inl e, h2)
           | (Inr ys, h2) \<Rightarrow> (Inr (y # ys), h2)))"

definition buildExperienceSectionS :: "ExperienceRef list option \<Rightarrow> store \<Rightarrow> jstring \<times> store" where
  "buildExperienceSectionS experienceO h =
     (case experienceO of
        None \<Rightarrow> ([], h)
      | Some exps \<Rightarrow>
          if length exps = 0 then ([], h)
          else let (texts, h1) = mapS experienceEntryS exps h
               in (experienceSectionOf texts, h1))"

definition projectEntryS :: "ProjectRef \<Rightarrow> store \<Rightarrow> (error + jstring) \<times> store" where
  "projectEntryS project h =
     (let projectName = escapeLatex (strOr (proj_name project) (js ''Project Name''));
          techStack = techStackText (map_option (arrays h) (technologies project));
          m1 = dateMeta project
      in case hrefPart (url project) ''Link'' of
           Inl e \<Rightarrow> (Inl e, h)
         | Inr m2 \<Rightarrow>
             let metaParts = m1 @ m2;
                 rightColumn = join metaParts (js '' $|$ '');
                 (descriptionLines, h3) =
                   (if description project \<noteq> []
                    then let (pieces, h1) = alloc (splitRuns [Code 10] [] (description project)) h;
                             (trimmed, h2) = arrayMap trim pieces h1
                         in arrayFilter (\<lambda>item. item \<noteq> []) trimmed h2
                    else alloc [] h);
                 (bulletsT, h4) = toBulletLinesS descriptionLines projectFallback h3
             in (Inr (projectBlock projectName techStack rightColumn bulletsT), h4))"

definition buildProjectsSectionS :: "ProjectRef list option \<Rightarrow> store \<Rightarrow> (error + jstring) \<times> store" where
  "buildProjectsSectionS projectsO h =
     (case projectsO of
        None \<Rightarrow> (Inr [], h)
      | Some ps \<Rightarrow>
          if length ps = 0 then (Inr [], h)
          else (case mapES projectEntryS ps h of
                  (Inl e, h1) \<Rightarrow> (Inl e, h1)
                | (Inr es, h1) \<Rightarrow> (Inr (projectsSectionOf es), h1)))"

text \<open>
  The skills and the education section only read their arrays (\<open>length\<close>, \<open>join\<close>):
  they are the functions above on the arrays found in the store.
\<close>

definition derefExperience :: "store \<Rightarrow> ExperienceRef \<Rightarrow> Experience" where
  "derefExperience h e =
     \<lparr>company = company e, position = position e, exp_location = exp_location e,
      startDate = startDate e, endDate = endDate e, bullets = arrays h (bullets e)\<rparr>"

definition derefEducation :: "store \<Rightarrow> EducationRef \<Rightarrow> Education" where
  "derefEducation h e =
     \<lparr>institution = institution e, degree = degree e, field = field e,
      graduationDate = graduationDate e, gpa = gpa e,
      honors = map_option (arrays h) (honors e)\<rparr>"

definition derefSkill :: "store \<Rightarrow> SkillRef \<Rightarrow> Skill" where
  "derefSkill h s = \<lparr>category = category s, group_skills = arrays h (group_skills s)\<rparr>"

definition derefProject :: "store \<Rightarrow> ProjectRef \<Rightarrow> Project" where
  "derefProject h p =
     \<lparr>proj_name = proj_name p, description = description p,
      technologies = map_option (arrays h) (technologies p), url = url p,
      proj_startDate = proj_startDate p, proj_endDate = proj_endDate p\<rparr>"

definition derefResume :: "store \<Rightarrow> ResumeDataRef \<Rightarrow> ResumeData" where
  "derefResume h r =
     \<lparr>personalInfo = personalInfo r, summary = summary r,
      experience = map_option (map (derefExperience h)) (experience r),
      education = map_option (map (derefEducation h)) (education r),
      skills = map_option (map (derefSkill h)) (skills r),
      projects = map_option (map (derefProject h)) (projects r),
      certifications = certifications r, awards = awards r\<rparr>"

definition buildSkillsSectionS :: "SkillRef list option \<Rightarrow> store \<Rightarrow> jstring" where
  "buildSkillsSectionS skillsO h = buildSkillsSection (map_option (map (derefSkill h)) skillsO)"

definition buildEducationSectionS :: "EducationRef list option \<Rightarrow> store \<Rightarrow> jstring" where
  "buildEducationSectionS educationO h =
     buildEducationSection (map_option (map (derefEducation h)) educationO)"

definition buildLatexBodyS :: "ResumeDataRef \<Rightarrow> store \<Rightarrow> (error + jstring) \<times> store" where
  "buildLatexBodyS resumeData h =
     (case personalInfo resumeData of
        None \<Rightarrow> (Inl TypeError, h)
      | Some p \<Rightarrow>
     (case buildHeader p of
        Inl e \<Rightarrow> (Inl e, h)
      | Inr header \<Rightarrow>
          let s1 = [header];
              s2 = pushIf s1 (buildSummary (summary resumeData));
              (experienceSection, h1) = buildExperienceSectionS (experience resumeData) h;
              s3 = pushIf s2 experienceSection
          in (case buildProjectsSectionS (projects resumeData) h1 of
                (Inl e, h2) \<Rightarrow> (Inl e, h2)
              | (Inr projectsSection, h2) \<Rightarrow>
                  let s4 = pushIf s3 projectsSection;
                      s5 = pushIf s4 (buildSkillsSectionS (skills resumeData) h2);
                      s6 = pushIf s5 (buildEducationSectionS (education resumeData) h2);
                      s7 = pushIf s6 (buildCertificationsSection (certifications resumeData));
                      s8 = pushIf s7 (buildAwardsSection (awards resumeData))
                  in (Inr (join (filter (\<lambda>s. s \<noteq> []) s8) (nl @ nl)), h2))))"

definition generateLatexFromResumeS :: "ResumeDataRef \<Rightarrow> jstring \<Rightarrow> store
    \<Rightarrow> (error + jstring) \<times> store" where
  "generateLatexFromResumeS resumeData templateLatex h =
     (let (bodyResult, h1) = buildLatexBodyS resumeData h
      in (spliceTemplate templateLatex bodyResult, h1))"


section \<open>The properties, as the specification words them\<close>

text \<open>
  A personal-info object is fully keyed when none of its optional properties is missing
  (\<open>name\<close> and \<open>email\<close> are always there). A record has the validated shape when its
  personal info is present and fully keyed and its six collections are present.
\<close>

definition fullyKeyed :: "PersonalInfo \<Rightarrow> bool" where
  "fullyKeyed p =
     (phone p \<noteq> None \<and> location p \<noteq> None \<and> linkedin p \<noteq> None \<and> github p \<noteq> None
      \<and> website p \<noteq> None)"

definition collectionsPresent :: "ResumeData \<Rightarrow> bool" where
  "collectionsPresent v =
     (experience v \<noteq> None \<and> education v \<noteq> None \<and> skills v \<noteq> None \<and> projects v \<noteq> None
      \<and> certifications v \<noteq> None \<and> awards v \<noteq> None)"

definition validatedShape :: "ResumeData \<Rightarrow> bool" where
  "validatedShape v =
     ((case personalInfo v of None \<Rightarrow> False | Some p \<Rightarrow> fullyKeyed p) \<and> collectionsPresent v)"

text \<open>
  The number of occurrences of a marker in a template, and the text before and after
  its first occurrence.
\<close>

fun occurrences :: "jstring \<Rightarrow> jstring \<Rightarrow> nat" where
  "occurrences [] p = (if p = [] then 1 else 0)"
| "occurrences (c # cs) p = (if prefix p (c # cs) then 1 else 0) + occurrences cs p"

fun textBefore :: "jstring \<Rightarrow> jstring \<Rightarrow> jstring" where
  "textBefore [] p = []"
| "textBefore (c # cs) p = (if prefix p (c # cs) then [] else c # textBefore cs p)"

fun textAfter :: "jstring \<Rightarrow> jstring \<Rightarrow> jstring" where
  "textAfter [] p = []"
| "textAfter (c # cs) p = (if prefix p (c # cs) then drop (length p) (c # cs) else textAfter cs p)"

text \<open>
  A string is well formed when every surrogate code unit in it is part of a pair
  (\<open>String.prototype.isWellFormed\<close>). \<open>urlsWellFormed\<close> says so of the URL
  properties of a record: \<open>linkedin\<close>, \<open>github\<close>, \<open>website\<close> and the \<open>url\<close> of
  each project.
\<close>

fun isWellFormed :: "jstring \<Rightarrow> bool" where
  "isWellFormed [] = True"
| "isWellFormed [c] = (\<not> isLead c \<and> \<not> isTrail c)"
| "isWellFormed (c # d # cs) =
     (if isLead c then isTrail d \<and> isWellFormed cs else \<not> isTrail c \<and> isWellFormed (d # cs))"

definition urlOk :: "jstring option \<Rightarrow> bool" where
  "urlOk v = (case v of None \<Rightarrow> True | Some s \<Rightarrow> isWellFormed s)"

definition urlsWellFormed :: "ResumeData \<Rightarrow> bool" where
  "urlsWellFormed r =
     ((case personalInfo r of
         None \<Rightarrow> True
       | Some p \<Rightarrow> urlOk (linkedin p) \<and> urlOk (github p) \<and> urlOk (website p))
      \<and> (case projects r of
           None \<Rightarrow> True
         | Some ps \<Rightarrow> list_all (\<lambda>project. urlOk (url project)) ps))"

text \<open>
  The escaper as the specification words it: newlines collapsed, then every code unit of
  the leaf string escaped once, the backslash to \<open>\textbackslash{}\<close>, a reserved
  character to itself after a backslash, the angle brackets to \<open>\textless{}\<close> and
  \<open>\textgreater{}\<close>; markup that the escaper has produced is not escaped again.
\<close>

definition escapeChar :: "nat \<Rightarrow> jstring" where
  "escapeChar c =
     (if c = 92 then bs ''textbackslash{}''
      else if c \<in> set (js ''&%$#_{}~^'') then [92, c]
      else if c = 60 then bs ''textless{}''
      else if c = 62 then bs ''textgreater{}''
      else [c])"

definition escapeOnce :: "jstring \<Rightarrow> jstring" where
  "escapeOnce text = concat (map escapeChar (collapseNewlines text))"

text \<open>What the chain of \<open>replace\<close> calls of the source makes of one code unit.\<close>

definition escapeChain :: "nat \<Rightarrow> jstring" where
  "escapeChain c =
     (if c = 92 then bs ''textbackslash'' @ bs ''{'' @ bs ''}''
      else if c \<in> set (js ''&%$#_{}~^'') then [92, c]
      else if c = 60 then bs ''textless{}''
      else if c = 62 then bs ''textgreater{}''
      else [c])"

text \<open>
  The item list that holds the fallback sentence as its only item, and the number of
  experience entries of a record whose bullet sequence is empty.
\<close>

definition fallbackItemList :: jstring where
  "fallbackItemList =
     js ''      '' @ bs ''resumeItemListStart'' @ nl @ js ''        '' @ bs ''resumeItem{''
     @ experienceFallback @ js ''}'' @ nl @ js ''      '' @ bs ''resumeItemListEnd''"

definition emptyBulletCount :: "ResumeData \<Rightarrow> nat" where
  "emptyBulletCount r =
     length (filter (\<lambda>e. bullets e = []) (case experience r of None \<Rightarrow> [] | Some es \<Rightarrow> es))"

text \<open>
  The bullet sequence of an entry holds no text when it is empty or every bullet in it
  is blank. The own strings of an entry are the ones that the renderer escapes and
  writes into the block of the entry: the position, the date range, the company and the
  location, with their defaults, and the bullets that are not blank. An entry is free
  of the fallback sentence when none of its own strings, as escaped, holds it.
\<close>

definition blankBullets :: "Experience \<Rightarrow> bool" where
  "blankBullets e = list_all (\<lambda>item. trim item = []) (bullets e)"

definition entryStrings :: "Experience \<Rightarrow> jstring list" where
  "entryStrings e =
     [strOr (position e) (js ''Role Title''),
      formatDateRange (startDate e) (endDate e),
      strOr (company e) (js ''Company Name''),
      orElse (exp_location e) []]
     @ filter (\<lambda>item. item \<noteq> []) (map trim (bullets e))"

definition sentenceFree :: "Experience \<Rightarrow> bool" where
  "sentenceFree e =
     list_all (\<lambda>s. occurrences (escapeLatex s) experienceFallback = 0) (entryStrings e)"

text \<open>
  The tokens that skill extraction classifies, and membership of a token in the group of
  a category.
\<close>

definition skillTokens :: "jstring list \<Rightarrow> jstring list" where
  "skillTokens lines =
     (case findStart [js ''skills'', js ''technologies'', js ''competencies''] lines of
        None \<Rightarrow> []
      | Some skillsStart \<Rightarrow> skillItems (collectSkillsText (drop skillsStart lines)))"

definition inGroup :: "Skill list \<Rightarrow> jstring \<Rightarrow> jstring \<Rightarrow> bool" where
  "inGroup groups label t = list_ex (\<lambda>g. category g = label \<and> t \<in> set (group_skills g)) groups"

text \<open>
  The store \<open>h'\<close> extends \<open>h\<close> when every array that \<open>h\<close> holds is in \<open>h'\<close> with the
  same content; \<open>refsBelow n r\<close> says that the arrays of the record \<open>r\<close> are at
  addresses below \<open>n\<close>.
\<close>

definition extends :: "store \<Rightarrow> store \<Rightarrow> bool" where
  "extends h h' = (fresh h \<le> fresh h' \<and> (\<forall>a < fresh h. arrays h' a = arrays h a))"

definition optBelow :: "nat \<Rightarrow> nat option \<Rightarrow> bool" where
  "optBelow n v = (case v of None \<Rightarrow> True | Some a \<Rightarrow> a < n)"

definition listBelow :: "('a \<Rightarrow> bool) \<Rightarrow> 'a list option \<Rightarrow> bool" where
  "listBelow P v = (case v of None \<Rightarrow> True | Some xs \<Rightarrow> list_all P xs)"

definition refsBelow :: "nat \<Rightarrow> ResumeDataRef \<Rightarrow> bool" where
  "refsBelow n r =
     (listBelow (\<lambda>e. bullets e < n) (experience r)
      \<and> listBelow (\<lambda>e. optBelow n (honors e)) (education r)
      \<and> listBelow (\<lambda>s. group_skills s < n) (skills r)
      \<and> listBelow (\<lambda>p. optBelow n (technologies p)) (projects r))"


section \<open>Example inputs\<close>

text \<open>The input of the repository's test \<open>should preserve existing data\<close>.\<close>

definition johnDoe :: ResumeData where
  "johnDoe =
     \<lparr>personalInfo = Some \<lparr>name = js ''John Doe'', email = js ''john@example.com'',
                              phone = None, location = None, linkedin = None, github = None,
                              website = None\<rparr>,
      summary = None, experience = Some [], education = Some [], skills = Some [],
      projects = None, certifications = None, awards = None\<rparr>"

text \<open>The empty object of the test \<open>should ensure required fields exist\<close>.\<close>

definition emptyRecord :: ResumeData where
  "emptyRecord =
     \<lparr>personalInfo = None, summary = None, experience = None, education = None, skills = None,
      projects = None, certifications = None, awards = None\<rparr>"

text \<open>
  The body rendered for \<open>johnDoe\<close> (the header alone), and a template that holds each
  marker once, the end marker first.
\<close>

definition johnDoeBody :: jstring where
  "johnDoeBody =
     bs ''begin{center}'' @ nl @ js ''    {'' @ bs ''Huge '' @ bs ''scshape '' @ js ''John Doe''
     @ js ''} '' @ bs '' '' @ bs ''vspace{1pt}'' @ nl @ js ''    ''
     @ bs ''href{mailto:john@example.com}{john@example.com}'' @ js '' '' @ bs [] @ nl
     @ bs ''end{center}''"

definition swappedTemplate :: jstring where
  "swappedTemplate = endDelimiter @ beginDelimiter"

text \<open>
  A template with text around the markers, and a record whose \<open>website\<close> is a single
  high surrogate (what \<open>JSON.parse\<close> makes of the escape \<open>\ud83d\<close>).
\<close>

definition sampleTemplate :: jstring where
  "sampleTemplate =
     js ''%pre'' @ nl @ beginDelimiter @ js ''old body'' @ endDelimiter @ nl @ js ''%post''"

definition openTemplate :: jstring where
  "openTemplate = js ''%pre'' @ nl @ beginDelimiter @ js ''old body''"

definition badUrlRecord :: ResumeData where
  "badUrlRecord =
     \<lparr>personalInfo = Some \<lparr>name = js ''John Doe'', email = js ''john@example.com'',
                              phone = None, location = None, linkedin = None, github = None,
                              website = Some [55357]\<rparr>,
      summary = None, experience = Some [], education = Some [], skills = Some [],
      projects = None, certifications = None, awards = None\<rparr>"

text \<open>Two records that differ from \<open>johnDoe\<close> in the name.\<close>

definition associates :: ResumeData where
  "associates =
     \<lparr>personalInfo = Some \<lparr>name = js ''50% & Associates'', email = [], phone = None,
                              location = None, linkedin = None, github = None, website = None\<rparr>,
      summary = None, experience = Some [], education = Some [], skills = Some [],
      projects = None, certifications = None, awards = None\<rparr>"

definition associatesBody :: jstring where
  "associatesBody =
     bs ''begin{center}'' @ nl @ js ''    {'' @ bs ''Huge '' @ bs ''scshape '' @ js ''50''
     @ bs ''% '' @ bs ''& Associates'' @ js ''} '' @ bs '' '' @ bs ''vspace{1pt}'' @ nl
     @ js ''    Add your preferred contact details'' @ js '' '' @ bs [] @ nl @ bs ''end{center}''"

definition backslashName :: ResumeData where
  "backslashName =
     \<lparr>personalInfo = Some \<lparr>name = js ''AC'' @ bs ''DC'', email = [], phone = None,
                              location = None, linkedin = None, github = None, website = None\<rparr>,
      summary = None, experience = Some [], education = Some [], skills = Some [],
      projects = None, certifications = None, awards = None\<rparr>"

definition backslashBody :: jstring where
  "backslashBody =
     bs ''begin{center}'' @ nl @ js ''    {'' @ bs ''Huge '' @ bs ''scshape '' @ js ''AC''
     @ bs ''textbackslash'' @ bs ''{'' @ bs ''}DC'' @ js ''} '' @ bs '' '' @ bs ''vspace{1pt}'' @ nl
     @ js ''    Add your preferred contact details'' @ js '' '' @ bs [] @ nl @ bs ''end{center}''"

text \<open>
  Records with one experience entry whose bullet sequence is empty; in the second the
  position is the fallback sentence itself.
\<close>

definition emptyBulletEntry :: Experience where
  "emptyBulletEntry =
     \<lparr>company = js ''Tech Corp'', position = js ''Senior Developer'', exp_location = None,
      startDate = None, endDate = None, bullets = []\<rparr>"

definition oneJob :: ResumeData where
  "oneJob =
     \<lparr>personalInfo = Some \<lparr>name = js ''John Doe'', email = js ''john@example.com'',
                              phone = None, location = None, linkedin = None, github = None,
                              website = None\<rparr>,
      summary = None, experience = Some [emptyBulletEntry], education = Some [],
      skills = Some [], projects = None, certifications = None, awards = None\<rparr>"

definition sentenceEntry :: Experience where
  "sentenceEntry =
     \<lparr>company = js ''Tech Corp'', position = experienceFallback, exp_location = None,
      startDate = None, endDate = None, bullets = []\<rparr>"

definition sentenceJob :: ResumeData where
  "sentenceJob =
     \<lparr>personalInfo = Some \<lparr>name = js ''John Doe'', email = js ''john@example.com'',
                              phone = None, location = None, linkedin = None, github = None,
                              website = None\<rparr>,
      summary = None, experience = Some [sentenceEntry], education = Some [],
      skills = Some [], projects = None, certifications = None, awards = None\<rparr>"

text \<open>
  An entry with one bullet, and a record with two entries: the one without bullets and
  the one with a bullet.
\<close>

definition bulletEntry :: Experience where
  "bulletEntry =
     \<lparr>company = js ''Tech Corp'', position = js ''Senior Developer'', exp_location = None,
      startDate = None, endDate = None, bullets = [js '' Led a team of 5 developers '']\<rparr>"

definition twoJobs :: ResumeData where
  "twoJobs =
     \<lparr>personalInfo = Some \<lparr>name = js ''John Doe'', email = js ''john@example.com'',
                              phone = None, location = None, linkedin = None, github = None,
                              website = None\<rparr>,
      summary = None, experience = Some [emptyBulletEntry, bulletEntry], education = Some [],
      skills = Some [], projects = None, certifications = None, awards = None\<rparr>"

text \<open>The texts rendered for these entries and records, with the empty template.\<close>

definition emptyBulletEntryText :: jstring where
  "emptyBulletEntryText =
     js ''    '' @ bs ''resumeSubheading'' @ nl @ js ''      {Senior Developer}{Present}'' @ nl
     @ js ''      {Tech Corp}{}'' @ nl @ js ''      '' @ bs ''resumeItemListStart'' @ nl
     @ js ''        ''
     @ bs ''resumeItem{Describe your impact with quantified achievements and relevant skills.}''
     @ nl @ js ''      '' @ bs ''resumeItemListEnd''"

definition sentenceEntryText :: jstring where
  "sentenceEntryText =
     js ''    '' @ bs ''resumeSubheading'' @ nl
     @ js ''      {Describe your impact with quantified achievements and relevant skills.}{Present}''
     @ nl @ js ''      {Tech Corp}{}'' @ nl @ js ''      '' @ bs ''resumeItemListStart'' @ nl
     @ js ''        ''
     @ bs ''resumeItem{Describe your impact with quantified achievements and relevant skills.}''
     @ nl @ js ''      '' @ bs ''resumeItemListEnd''"

definition oneJobSection :: jstring where
  "oneJobSection =
     js ''%-----------PROFESSIONAL EXPERIENCE-----------'' @ nl
     @ bs ''section{Professional Experience}'' @ nl @ js ''  ''
     @ bs ''resumeSubHeadingListStart'' @ nl @ js ''    '' @ bs ''resumeSubheading'' @ nl
     @ js ''      {Senior Developer}{Present}'' @ nl @ js ''      {Tech Corp}{}'' @ nl
     @ js ''      '' @ bs ''resumeItemListStart'' @ nl @ js ''        ''
     @ bs ''resumeItem{Describe your impact with quantified achievements and relevant skills.}''
     @ nl @ js ''      '' @ bs ''resumeItemListEnd'' @ nl @ js ''  ''
     @ bs ''resumeSubHeadingListEnd'' @ nl @ bs ''vspace{-16pt}''"

definition sentenceJobSection :: jstring where
  "sentenceJobSection =
     js ''%-----------PROFESSIONAL EXPERIENCE-----------'' @ nl
     @ bs ''section{Professional Experience}'' @ nl @ js ''  ''
     @ bs ''resumeSubHeadingListStart'' @ nl @ js ''    '' @ bs ''resumeSubheading'' @ nl
     @ js ''      {Describe your impact with quantified achievements and relevant skills.}{Present}''
     @ nl @ js ''      {Tech Corp}{}'' @ nl @ js ''      '' @ bs ''resumeItemListStart'' @ nl
     @ js ''        ''
     @ bs ''resumeItem{Describe your impact with quantified achievements and relevant skills.}''
     @ nl @ js ''      '' @ bs ''resumeItemListEnd'' @ nl @ js ''  ''
     @ bs ''resumeSubHeadingListEnd'' @ nl @ bs ''vspace{-16pt}''"

definition bulletEntryText :: jstring where
  "bulletEntryText =
     js ''    '' @ bs ''resumeSubheading'' @ nl @ js ''      {Senior Developer}{Present}'' @ nl
     @ js ''      {Tech Corp}{}'' @ nl @ js ''      '' @ bs ''resumeItemListStart'' @ nl
     @ js ''        '' @ bs ''resumeItem{Led a team of 5 developers}''
     @ nl @ js ''      '' @ bs ''resumeItemListEnd''"

definition twoJobsSection :: jstring where
  "twoJobsSection =
     js ''%-----------PROFESSIONAL EXPERIENCE-----------'' @ nl
     @ bs ''section{Professional Experience}'' @ nl @ js ''  ''
     @ bs ''resumeSubHeadingListStart'' @ nl @ emptyBulletEntryText @ nl
     @ bs ''vspace{-16pt}'' @ nl @ bulletEntryText @ nl @ js ''  ''
     @ bs ''resumeSubHeadingListEnd'' @ nl @ bs ''vspace{-16pt}''"

definition twoJobsOut :: jstring where
  "twoJobsOut =
     getDefaultPreamble @ beginDelimiter @ nl @ johnDoeBody @ nl @ nl @ twoJobsSection @ nl
     @ endDelimiter"

definition headerOnlyOut :: jstring where
  "headerOnlyOut = getDefaultPreamble @ beginDelimiter @ nl @ johnDoeBody @ nl @ endDelimiter"

definition oneJobOut :: jstring where
  "oneJobOut =
     getDefaultPreamble @ beginDelimiter @ nl @ johnDoeBody @ nl @ nl @ oneJobSection @ nl
     @ endDelimiter"

definition sentenceJobOut :: jstring where
  "sentenceJobOut =
     getDefaultPreamble @ beginDelimiter @ nl @ johnDoeBody @ nl @ nl @ sentenceJobSection @ nl
     @ endDelimiter"

text \<open>
  The lines of the repository's tests of \<open>extractSkills\<close> and \<open>extractExperience\<close>, a
  skills line whose one token names a language and a soft skill, and a bullet text that
  contains section keywords.
\<close>

definition skillsTestLines :: "jstring list" where
  "skillsTestLines =
     [js ''Skills'', js ''JavaScript, Python, React, Node.js, SQL, Git, Docker, AWS'']"

definition bothSkillsLines :: "jstring list" where
  "bothSkillsLines = [js ''Skills'', js ''java leadership'']"

definition jobLine :: jstring where
  "jobLine = js ''Senior Developer at Tech Corp | Jan 2020 - Present''"

definition seniorDeveloper :: "jstring list \<Rightarrow> Experience" where
  "seniorDeveloper bulletTexts =
     \<lparr>company = js ''Tech Corp'', position = js ''Senior Developer'', exp_location = None,
      startDate = None, endDate = None, bullets = bulletTexts\<rparr>"

definition testBullet1 :: jstring where
  "testBullet1 = js '' Developed web applications using React and Node.js''"

definition testBullet2 :: jstring where
  "testBullet2 = js '' Led a team of 5 developers''"

definition keywordBullet :: jstring where
  "keywordBullet = js '' Gained professional experience''"

text \<open>
  A store with one array, the empty bullet sequence at address 0, and the record
  \<open>oneJob\<close> with its experience entry pointing to it.
\<close>

definition oneArrayStore :: store where
  "oneArrayStore = \<lparr>arrays = (\<lambda>a. []), fresh = 1\<rparr>"

definition oneJobRef :: ResumeDataRef where
  "oneJobRef =
     \<lparr>personalInfo = Some \<lparr>name = js ''John Doe'', email = js ''john@example.com'',
                              phone = None, location = None, linkedin = None, github = None,
                              website = None\<rparr>,
      summary = None,
      experience = Some [\<lparr>company = js ''Tech Corp'', position = js ''Senior Developer'',
                           exp_location = None, startDate = None, endDate = None, bullets = 0\<rparr>],
      education = Some [], skills = Some [], projects = None, certifications = None,
      awards = None\<rparr>"

text \<open>A skills collection with one group of one skill.\<close>

definition goSkills :: "Skill list" where
  "goSkills = [\<lparr>category = js ''Languages'', group_skills = [js ''Go'']\<rparr>]"

definition goSkillsSection :: jstring where
  "goSkillsSection =
     js ''%-----------TECHNICAL SKILLS-----------'' @ nl @ bs ''section{Technical Skills}'' @ nl
     @ js '' '' @ bs ''begin{itemize}[leftmargin=0.15in, label={}]'' @ nl @ js ''    ''
     @ bs ''small{item{'' @ nl @ js ''     '' @ bs ''textbf{Languages}{: Go}'' @ js '' '' @ bs []
     @ nl @ js ''    }}'' @ nl @ js '' '' @ bs ''end{itemize}'' @ nl @ js '' ''
     @ bs ''vspace{-16pt}''"


section \<open>Unfolding the string and pattern primitives\<close>

lemmas string_defs = js_def bs_def nl_def beginDelimiter_def endDelimiter_def
  getDefaultPreamble_def

lemmas trim_defs = trim_def trimStart_def trimEnd_def isWhiteSpace_def isLineTerminator_def

lemmas escape_defs = escapeLatex_def escBackslash_def escReserved_def escLess_def
  escGreater_def

lemmas regex_defs = rxTest_def rxExec_def cat_def lit_def plusG_def plusL_def rep_def
  inClass_def isWordChar_def swapCase_def isWhiteSpace_def isLineTerminator_def js_def


section \<open>validateResumeData: shape and idempotence\<close>

lemma orEmpty_orEmpty: "orEmpty (orEmpty v) = orEmpty v"
  by (cases v) (simp_all add: orEmpty_def)

lemma validateResumeData_fields:
  "personalInfo (validateResumeData x)
     = Some (case personalInfo x of None \<Rightarrow> emptyPersonalInfo | Some p \<Rightarrow> p)"
  "summary (validateResumeData x) = summary x"
  "experience (validateResumeData x) = orEmpty (experience x)"
  "education (validateResumeData x) = orEmpty (education x)"
  "skills (validateResumeData x) = orEmpty (skills x)"
  "projects (validateResumeData x) = orEmpty (projects x)"
  "certifications (validateResumeData x) = orEmpty (certifications x)"
  "awards (validateResumeData x) = orEmpty (awards x)"
  by (simp_all add: validateResumeData_def Let_def split: option.splits)

text \<open>
  C3, as stated, fails: a record whose \<open>personalInfo\<close> is present but lacks optional
  properties keeps them missing. The input is the one of the repository's own test
  \<open>should preserve existing data\<close>: after validation \<open>phone\<close>, \<open>location\<close>,
  \<open>linkedin\<close>, \<open>github\<close> and \<open>website\<close> are still absent, so the result is not fully
  keyed.
\<close>

theorem C3_counterexample:
  "\<not> validatedShape (validateResumeData johnDoe)
   \<and> personalInfo (validateResumeData johnDoe) = personalInfo johnDoe"
  by (simp add: validatedShape_def fullyKeyed_def validateResumeData_fields johnDoe_def)

text \<open>
  C3, amended: \<open>validateResumeData\<close> returns a record in which \<open>personalInfo\<close> is the
  fully keyed object of empty strings when the input had none, and is the input's own
  \<open>personalInfo\<close>, unchanged, when it had one; each of the six collections is present,
  the input's if it had one and empty otherwise; \<open>summary\<close> is the input's.
\<close>

theorem C3_validate_shape:
  "personalInfo (validateResumeData x)
     = Some (case personalInfo x of None \<Rightarrow> emptyPersonalInfo | Some p \<Rightarrow> p)
   \<and> emptyPersonalInfo = \<lparr>name = [], email = [], phone = Some [], location = Some [],
                           linkedin = Some [], github = Some [], website = Some []\<rparr>
   \<and> fullyKeyed emptyPersonalInfo
   \<and> experience (validateResumeData x) = Some (case experience x of None \<Rightarrow> [] | Some v \<Rightarrow> v)
   \<and> education (validateResumeData x) = Some (case education x of None \<Rightarrow> [] | Some v \<Rightarrow> v)
   \<and> skills (validateResumeData x) = Some (case skills x of None \<Rightarrow> [] | Some v \<Rightarrow> v)
   \<and> projects (validateResumeData x) = Some (case projects x of None \<Rightarrow> [] | Some v \<Rightarrow> v)
   \<and> certifications (validateResumeData x)
       = Some (case certifications x of None \<Rightarrow> [] | Some v \<Rightarrow> v)
   \<and> awards (validateResumeData x) = Some (case awards x of None \<Rightarrow> [] | Some v \<Rightarrow> v)
   \<and> summary (validateResumeData x) = summary x
   \<and> collectionsPresent (validateResumeData x)"
  by (simp add: validateResumeData_fields collectionsPresent_def orEmpty_def emptyPersonalInfo_def
      fullyKeyed_def split: option.splits)

theorem C3_validate_shape_witness:
  "validatedShape (validateResumeData emptyRecord)
   \<and> personalInfo (validateResumeData emptyRecord) = Some emptyPersonalInfo
   \<and> experience (validateResumeData emptyRecord) = Some []
   \<and> awards (validateResumeData emptyRecord) = Some []"
  using C3_validate_shape [of emptyRecord]
  by (simp add: validatedShape_def emptyRecord_def)

text \<open>
  C8: validation is idempotent, \<open>validateResumeData (validateResumeData x) =
  validateResumeData x\<close> for every record \<open>x\<close>.
\<close>

theorem C8_validate_idempotent:
  "validateResumeData (validateResumeData x) = validateResumeData x"
proof -
  have "personalInfo (validateResumeData (validateResumeData x))
          = personalInfo (validateResumeData x)"
    by (simp add: validateResumeData_fields)
  then show ?thesis
    by (cases x) (simp add: validateResumeData_def Let_def orEmpty_def split: option.splits)
qed


section \<open>Facts about split, join and the markers\<close>

lemma jsIncludes_occurrences: "jsIncludes s p \<longleftrightarrow> 0 < occurrences s p"
  by (induction s) auto

lemma prefix_drop: "prefix p s \<Longrightarrow> p @ drop (length p) s = s"
  by (auto simp: prefix_def)

lemma split_text: "p \<noteq> [] \<Longrightarrow> jsIncludes s p \<Longrightarrow> s = textBefore s p @ p @ textAfter s p"
proof (induction s)
  case Nil
  then show ?case by simp
next
  case (Cons c cs)
  show ?case
  proof (cases "prefix p (c # cs)")
    case True
    from True have "p @ drop (length p) (c # cs) = c # cs" by (rule prefix_drop)
    with True show ?thesis by simp
  next
    case False
    with Cons show ?thesis by simp
  qed
qed

lemma splitAt_not_Nil: "splitAt p cur s \<noteq> []"
  by (induction p cur s rule: splitAt.induct) auto

lemma join_Cons: "xs \<noteq> [] \<Longrightarrow> join (x # xs) sep = x @ sep @ join xs sep"
  by (cases xs) auto

lemma textAfter_prefix: "p \<noteq> [] \<Longrightarrow> prefix p (c # cs) \<Longrightarrow> textAfter (c # cs) p = drop (length p - 1) cs"
  by (cases p) auto

lemma splitAt_first:
  "p \<noteq> [] \<Longrightarrow> jsIncludes s p \<Longrightarrow>
   splitAt p cur s = (cur @ textBefore s p) # splitAt p [] (textAfter s p)"
proof (induction s arbitrary: cur)
  case Nil
  then show ?case by simp
next
  case (Cons c cs)
  show ?case
  proof (cases "prefix p (c # cs)")
    case True
    with Cons.prems show ?thesis
      by (simp add: textAfter_prefix del: textAfter.simps)
  next
    case False
    with Cons show ?thesis by simp
  qed
qed

lemma splitAt_none: "\<not> jsIncludes s p \<Longrightarrow> splitAt p cur s = [cur @ s]"
  by (induction s arbitrary: cur) auto

lemma join_splitAt: "p \<noteq> [] \<Longrightarrow> join (splitAt p cur s) p = cur @ s"
proof (induction p cur s rule: splitAt.induct)
  case (1 sep cur)
  then show ?case by simp
next
  case (2 sep cur c cs)
  show ?case
  proof (cases "prefix sep (c # cs)")
    case True
    have s1: "splitAt sep cur (c # cs) = cur # splitAt sep [] (drop (length sep - 1) cs)"
      using True by simp
    have ih: "join (splitAt sep [] (drop (length sep - 1) cs)) sep = drop (length sep - 1) cs"
      using "2.IH"(1) [OF True "2.prems"] by simp
    have d: "sep @ drop (length sep - 1) cs = c # cs"
      using True "2.prems" by (cases sep) (auto simp: prefix_def)
    show ?thesis
      unfolding s1 using ih d by (simp add: join_Cons splitAt_not_Nil)
  next
    case False
    with "2.IH"(2) "2.prems" show ?thesis by simp
  qed
qed

lemma occurrences_drop: "occurrences (drop n s) p \<le> occurrences s p"
proof (induction s arbitrary: n)
  case Nil
  then show ?case by simp
next
  case (Cons c cs)
  show ?case
  proof (cases n)
    case 0
    then show ?thesis by simp
  next
    case (Suc k)
    have "occurrences (drop k cs) p \<le> occurrences cs p" by (rule Cons.IH)
    with Suc show ?thesis by simp
  qed
qed

lemma occurrences_textAfter:
  "p \<noteq> [] \<Longrightarrow> jsIncludes s p \<Longrightarrow> 1 + occurrences (textAfter s p) p \<le> occurrences s p"
proof (induction s)
  case Nil
  then show ?case by simp
next
  case (Cons c cs)
  show ?case
  proof (cases "prefix p (c # cs)")
    case True
    have "occurrences (drop (length p - 1) cs) p \<le> occurrences cs p"
      by (rule occurrences_drop)
    with True Cons.prems show ?thesis
      by (simp add: textAfter_prefix del: textAfter.simps)
  next
    case False
    with Cons show ?thesis by simp
  qed
qed

lemma once_not_after:
  "p \<noteq> [] \<Longrightarrow> occurrences s p = 1 \<Longrightarrow> \<not> jsIncludes (textAfter s p) p"
proof
  assume p: "p \<noteq> []" and o: "occurrences s p = 1" and i: "jsIncludes (textAfter s p) p"
  from o have "jsIncludes s p" by (simp add: jsIncludes_occurrences)
  with p have "1 + occurrences (textAfter s p) p \<le> occurrences s p"
    by (rule occurrences_textAfter)
  moreover from i have "0 < occurrences (textAfter s p) p" by (simp add: jsIncludes_occurrences)
  ultimately show False using o by simp
qed

lemma occurrences_append_ge: "occurrences ys p \<le> occurrences (xs @ ys) p"
  by (induction xs) auto

lemma textAfter_append:
  "occurrences (xs @ ys) p = occurrences ys p \<Longrightarrow> textAfter (xs @ ys) p = textAfter ys p"
proof (induction xs)
  case Nil
  then show ?case by simp
next
  case (Cons c xs)
  have ge: "occurrences ys p \<le> occurrences (xs @ ys) p" by (rule occurrences_append_ge)
  from Cons.prems ge have np: "\<not> prefix p (c # xs @ ys)"
    by (auto split: if_splits)
  with Cons.prems have "occurrences (xs @ ys) p = occurrences ys p" by simp
  with Cons.IH np show ?case by simp
qed

lemma beginDelimiter_not_Nil: "beginDelimiter \<noteq> []"
  by (simp add: beginDelimiter_def bs_def)

lemma endDelimiter_not_Nil: "endDelimiter \<noteq> []"
  by (simp add: endDelimiter_def bs_def)


section \<open>Template splicing\<close>

lemma orElse_Nil: "orElse (Some s) [] = s"
  by (simp add: orElse_def)

lemma johnDoe_header:
  "buildHeader \<lparr>name = js ''John Doe'', email = js ''john@example.com'', phone = None,
                 location = None, linkedin = None, github = None, website = None\<rparr>
   = Inr johnDoeBody"
  by (simp add: buildHeader_def hrefPart_def truthy_def Let_def johnDoeBody_def string_defs
      trim_defs escape_defs)

lemma johnDoe_body: "buildLatexBody johnDoe = Inr johnDoeBody"
proof -
  have "johnDoeBody \<noteq> []" by (simp add: johnDoeBody_def bs_def)
  then show ?thesis
    by (simp add: buildLatexBody_def johnDoe_def johnDoe_header Let_def pushIf_def
        buildSummary_def buildExperienceSection_def experienceSectionOf_def buildProjectsSection_def
        buildSkillsSection_def buildEducationSection_def buildCertificationsSection_def
        buildAwardsSection_def truthy_def)
qed

text \<open>
  C1, as stated, fails for a template that holds each marker exactly once with the end
  marker before the begin marker: the renderer looks for the end marker only in the text
  after the begin marker, so the text after the end marker (here the begin marker itself)
  is not appended.
\<close>

theorem C1_counterexample:
  "occurrences swappedTemplate beginDelimiter = 1
   \<and> occurrences swappedTemplate endDelimiter = 1
   \<and> buildLatexBody johnDoe = Inr johnDoeBody
   \<and> generateLatexFromResume johnDoe swappedTemplate
       = Inr (endDelimiter @ beginDelimiter @ nl @ johnDoeBody @ nl @ endDelimiter)
   \<and> generateLatexFromResume johnDoe swappedTemplate
       \<noteq> Inr (textBefore swappedTemplate beginDelimiter @ beginDelimiter @ nl @ johnDoeBody
               @ nl @ endDelimiter @ textAfter swappedTemplate endDelimiter)"
  by (simp add: generateLatexFromResume_def spliceTemplate_def johnDoe_body swappedTemplate_def Let_def
      split_def nthOpt_def toStr_def orElse_def string_defs)

text \<open>
  C1, amended: for every record \<open>r\<close> and every template \<open>T\<close> that contains the begin
  marker exactly once and the end marker exactly once, the end marker after the begin
  marker, \<open>generateLatexFromResume r T\<close> is the text of \<open>T\<close> before the begin marker,
  the begin marker, a line feed, the generated body, a line feed, the end marker and the
  text of \<open>T\<close> after the end marker; when the generation of the body raises an
  exception, the call raises it.
\<close>

theorem C1_splice:
  assumes b: "occurrences T beginDelimiter = 1"
    and e: "occurrences T endDelimiter = 1"
    and ord: "jsIncludes (textAfter T beginDelimiter) endDelimiter"
  shows "generateLatexFromResume r T =
           (case buildLatexBody r of
              Inl err \<Rightarrow> Inl err
            | Inr body \<Rightarrow>
                Inr (textBefore T beginDelimiter @ beginDelimiter @ nl @ body @ nl
                     @ endDelimiter @ textAfter T endDelimiter))"
proof -
  let ?B = beginDelimiter and ?E = endDelimiter
  let ?P = "textBefore T ?B" and ?R = "textAfter T ?B"
  have hb: "jsIncludes T ?B" using b by (simp add: jsIncludes_occurrences)
  have he: "jsIncludes T ?E" using e by (simp add: jsIncludes_occurrences)
  have nb: "\<not> jsIncludes ?R ?B"
    using beginDelimiter_not_Nil b by (rule once_not_after)
  have parts: "split T ?B = [?P, ?R]"
    using splitAt_first [OF beginDelimiter_not_Nil hb, of "[]"] splitAt_none [OF nb, of "[]"]
    by (simp add: split_def beginDelimiter_not_Nil)
  have T: "(?P @ ?B) @ ?R = T"
    using split_text [OF beginDelimiter_not_Nil hb, symmetric] by simp
  have "occurrences ?R ?E \<le> occurrences ((?P @ ?B) @ ?R) ?E"
    by (rule occurrences_append_ge)
  then have le: "occurrences ?R ?E \<le> occurrences T ?E"
    unfolding T .
  have "0 < occurrences ?R ?E"
    using ord by (simp add: jsIncludes_occurrences)
  with le e have "occurrences ((?P @ ?B) @ ?R) ?E = occurrences ?R ?E"
    unfolding T by simp
  then have "textAfter ((?P @ ?B) @ ?R) ?E = textAfter ?R ?E"
    by (rule textAfter_append)
  then have ta: "textAfter ?R ?E = textAfter T ?E"
    unfolding T by simp
  have post: "join (drop (Suc 0) (split ?R ?E)) ?E = textAfter T ?E"
    using splitAt_first [OF endDelimiter_not_Nil ord, of "[]"]
      join_splitAt [OF endDelimiter_not_Nil, of "[]" "textAfter ?R ?E"] ta
    by (simp add: split_def endDelimiter_not_Nil)
  show ?thesis
    by (simp add: generateLatexFromResume_def spliceTemplate_def Let_def hb he parts nthOpt_def orElse_Nil
        toStr_def post split: sum.splits)
qed

theorem C1_splice_witness:
  "occurrences sampleTemplate beginDelimiter = 1
   \<and> occurrences sampleTemplate endDelimiter = 1
   \<and> jsIncludes (textAfter sampleTemplate beginDelimiter) endDelimiter
   \<and> generateLatexFromResume johnDoe sampleTemplate
       = Inr (js ''%pre'' @ nl @ beginDelimiter @ nl @ johnDoeBody @ nl @ endDelimiter @ nl
              @ js ''%post'')"
proof -
  have b: "occurrences sampleTemplate beginDelimiter = 1"
    by (simp add: sampleTemplate_def string_defs)
  have e: "occurrences sampleTemplate endDelimiter = 1"
    by (simp add: sampleTemplate_def string_defs)
  have ord: "jsIncludes (textAfter sampleTemplate beginDelimiter) endDelimiter"
    by (simp add: sampleTemplate_def string_defs)
  have tb: "textBefore sampleTemplate beginDelimiter = js ''%pre'' @ nl"
    by (simp add: sampleTemplate_def string_defs)
  have ta: "textAfter sampleTemplate endDelimiter = nl @ js ''%post''"
    by (simp add: sampleTemplate_def string_defs)
  show ?thesis
    using C1_splice [OF b e ord, of johnDoe] b e ord
    by (simp add: johnDoe_body tb ta)
qed

section \<open>The renderer returns unless a URL holds an unpaired surrogate\<close>

lemma uriUnescaped_not_surrogate: "uriUnescaped c \<Longrightarrow> \<not> isLead c \<and> \<not> isTrail c"
  by (auto simp: uriUnescaped_def isLead_def isTrail_def js_def)

lemma lead_not_trail: "isLead c \<Longrightarrow> \<not> isTrail c"
  by (simp add: isLead_def isTrail_def)

lemma encodeURI_wellFormed: "isWellFormed s \<Longrightarrow> \<exists>y. encodeURI s = Inr y"
proof (induction s rule: encodeURI.induct)
  case 1
  then show ?case by simp
next
  case (2 c)
  then show ?case by simp
next
  case (3 c d cs)
  show ?case
  proof (cases "uriUnescaped c")
    case True
    with "3.prems" have "isWellFormed (d # cs)"
      by (auto dest: uriUnescaped_not_surrogate)
    with "3.IH"(1) True obtain y where "encodeURI (d # cs) = Inr y" by blast
    with True show ?thesis by (simp add: andThen_def)
  next
    case False
    show ?thesis
    proof (cases "isLead c")
      case True
      with "3.prems" have t: "isTrail d" and w: "isWellFormed cs" by auto
      from True have nt: "\<not> isTrail c" by (rule lead_not_trail)
      from "3.IH"(2) [OF False nt True t w] obtain y where "encodeURI cs = Inr y" by blast
      with False True t nt show ?thesis by (simp add: andThen_def)
    next
      case nl: False
      with "3.prems" have nt: "\<not> isTrail c" and w: "isWellFormed (d # cs)" by auto
      from "3.IH"(3) [OF False nt nl w] obtain y where "encodeURI (d # cs) = Inr y" by blast
      with False nl nt show ?thesis by (simp add: andThen_def)
    qed
  qed
qed

lemma whiteSpace_not_surrogate: "isWhiteSpace c \<Longrightarrow> \<not> isLead c \<and> \<not> isTrail c"
  by (auto simp: isWhiteSpace_def isLineTerminator_def isLead_def isTrail_def)

lemma wellFormed_Cons: "\<not> isLead c \<Longrightarrow> \<not> isTrail c \<Longrightarrow> isWellFormed (c # s) = isWellFormed s"
  by (cases s) auto

lemma wellFormed_snoc: "\<not> isLead c \<Longrightarrow> \<not> isTrail c \<Longrightarrow> isWellFormed (s @ [c]) = isWellFormed s"
  by (induction s rule: isWellFormed.induct) auto

lemma wellFormed_trimStart: "isWellFormed s \<Longrightarrow> isWellFormed (trimStart s)"
  unfolding trimStart_def
  by (induction s) (auto simp: wellFormed_Cons dest: whiteSpace_not_surrogate)

lemma wellFormed_trimEnd: "isWellFormed s \<Longrightarrow> isWellFormed (trimEnd s)"
  unfolding trimEnd_def
  by (induction s rule: rev_induct) (auto simp: wellFormed_snoc dest: whiteSpace_not_surrogate)

lemma wellFormed_trim: "isWellFormed s \<Longrightarrow> isWellFormed (trim s)"
  by (simp add: trim_def wellFormed_trimStart wellFormed_trimEnd)

lemma wellFormed_https: "isWellFormed s \<Longrightarrow> isWellFormed (js ''https://'' @ s)"
  by (simp add: js_def wellFormed_Cons isLead_def isTrail_def)

lemma normalizeUrl_ok: "urlOk v \<Longrightarrow> \<exists>y. normalizeUrl v = Inr y"
proof (cases v)
  case None
  then show ?thesis by (simp add: normalizeUrl_def truthy_def)
next
  case (Some s)
  assume "urlOk v"
  with Some have w: "isWellFormed (trim s)" by (simp add: urlOk_def wellFormed_trim)
  from w obtain y1 where y1: "encodeURI (trim s) = Inr y1"
    using encodeURI_wellFormed by blast
  from w obtain y2 where y2: "encodeURI (js ''https://'' @ trim s) = Inr y2"
    using encodeURI_wellFormed wellFormed_https by blast
  from Some y1 y2 show ?thesis
    by (simp add: normalizeUrl_def Let_def toStr_def)
qed

lemma hrefPart_ok: "urlOk v \<Longrightarrow> \<exists>y. hrefPart v label = Inr y"
proof -
  assume "urlOk v"
  then obtain y where "normalizeUrl v = Inr y" using normalizeUrl_ok by blast
  then show ?thesis by (simp add: hrefPart_def)
qed

lemma buildHeader_ok:
  assumes "urlOk (linkedin p)" "urlOk (github p)" "urlOk (website p)"
  shows "\<exists>h. buildHeader p = Inr h"
proof -
  obtain a where a: "hrefPart (linkedin p) ''LinkedIn'' = Inr a"
    using hrefPart_ok [OF assms(1)] by blast
  obtain b where b: "hrefPart (github p) ''GitHub'' = Inr b"
    using hrefPart_ok [OF assms(2)] by blast
  obtain c where c: "hrefPart (website p) ''Portfolio'' = Inr c"
    using hrefPart_ok [OF assms(3)] by blast
  show ?thesis
    unfolding buildHeader_def Let_def a b c sum.case by blast
qed

lemma mapE_ok: "\<forall>x\<in>set xs. \<exists>y. f x = Inr y \<Longrightarrow> \<exists>ys. mapE f xs = Inr ys"
proof (induction xs)
  case Nil
  then show ?case by simp
next
  case (Cons x xs)
  then obtain y ys where "f x = Inr y" "mapE f xs = Inr ys" by auto
  then show ?case by simp
qed

lemma projectEntry_ok: "urlOk (url project) \<Longrightarrow> \<exists>y. projectEntry project = Inr y"
proof -
  assume "urlOk (url project)"
  then obtain a where a: "hrefPart (url project) ''Link'' = Inr a" using hrefPart_ok by blast
  show ?thesis
    unfolding projectEntry_def Let_def a sum.case by blast
qed

lemma buildProjectsSection_ok:
  "(case ps of None \<Rightarrow> True | Some xs \<Rightarrow> list_all (\<lambda>project. urlOk (url project)) xs) \<Longrightarrow>
   \<exists>y. buildProjectsSection ps = Inr y"
proof (cases ps)
  case None
  then show ?thesis by (simp add: buildProjectsSection_def)
next
  case (Some xs)
  assume "case ps of None \<Rightarrow> True | Some xs \<Rightarrow> list_all (\<lambda>project. urlOk (url project)) xs"
  with Some have "\<forall>x\<in>set xs. \<exists>y. projectEntry x = Inr y"
    by (auto simp: list_all_iff intro: projectEntry_ok)
  then obtain es where "mapE projectEntry xs = Inr es" using mapE_ok by blast
  with Some show ?thesis by (simp only: buildProjectsSection_def Let_def sum.case option.case) auto
qed

lemma buildLatexBody_ok:
  assumes "personalInfo r \<noteq> None" "urlsWellFormed r"
  shows "\<exists>body. buildLatexBody r = Inr body"
proof -
  from assms obtain p where p: "personalInfo r = Some p" by auto
  with assms have "urlOk (linkedin p)" "urlOk (github p)" "urlOk (website p)"
    by (simp_all add: urlsWellFormed_def)
  then obtain h where h: "buildHeader p = Inr h" using buildHeader_ok by blast
  from assms obtain q where q: "buildProjectsSection (projects r) = Inr q"
    using buildProjectsSection_ok [of "projects r"] by (auto simp: urlsWellFormed_def)
  from p h q show ?thesis by (simp only: buildLatexBody_def Let_def sum.case option.case) blast
qed

text \<open>
  C7, as stated, fails: \<open>encodeURI\<close> raises \<open>URIError\<close> for a URL that holds an unpaired
  surrogate, and the renderer does not catch it. The record has a \<open>website\<close> of one high
  surrogate; the template is empty, so it does not contain the end marker.
\<close>

theorem C7_counterexample:
  "\<not> jsIncludes [] endDelimiter
   \<and> generateLatexFromResume badUrlRecord [] = Inl URIError"
proof -
  have "normalizeUrl (Some [55357]) = Inl URIError"
    by (simp add: normalizeUrl_def truthy_def toStr_def Let_def trim_defs startsWith_def
        isLead_def isTrail_def uriUnescaped_def andThen_def js_def)
  then have "buildHeader \<lparr>name = js ''John Doe'', email = js ''john@example.com'', phone = None,
               location = None, linkedin = None, github = None, website = Some [55357]\<rparr>
             = Inl URIError"
    by (simp add: buildHeader_def hrefPart_def truthy_def Let_def)
  then show ?thesis
    by (simp add: generateLatexFromResume_def spliceTemplate_def buildLatexBody_def badUrlRecord_def Let_def
        endDelimiter_not_Nil)
qed

text \<open>
  C7, amended: for every record \<open>r\<close> that has its \<open>personalInfo\<close> and whose URL
  properties hold no unpaired surrogate, and every template \<open>T\<close> that does not contain
  the end marker, \<open>generateLatexFromResume r T\<close> returns the preamble (the text of \<open>T\<close>
  before the first begin marker when \<open>T\<close> contains one, the default preamble otherwise),
  the begin marker, a line feed, the generated body, a line feed and the end marker, with
  nothing after it.
\<close>

theorem C7_no_end_marker:
  assumes ne: "\<not> jsIncludes T endDelimiter"
    and pi: "personalInfo r \<noteq> None"
    and urls: "urlsWellFormed r"
  shows "\<exists>body. buildLatexBody r = Inr body
           \<and> generateLatexFromResume r T
               = Inr ((if jsIncludes T beginDelimiter then textBefore T beginDelimiter
                       else getDefaultPreamble)
                      @ beginDelimiter @ nl @ body @ nl @ endDelimiter)"
proof -
  from pi urls obtain body where body: "buildLatexBody r = Inr body"
    using buildLatexBody_ok by blast
  have "generateLatexFromResume r T
          = Inr ((if jsIncludes T beginDelimiter then textBefore T beginDelimiter
                  else getDefaultPreamble)
                 @ beginDelimiter @ nl @ body @ nl @ endDelimiter)"
  proof (cases "jsIncludes T beginDelimiter")
    case True
    have "split T beginDelimiter
            = textBefore T beginDelimiter # splitAt beginDelimiter [] (textAfter T beginDelimiter)"
      using splitAt_first [OF beginDelimiter_not_Nil True, of "[]"]
      by (simp add: split_def beginDelimiter_not_Nil)
    with True ne body show ?thesis
      by (simp add: generateLatexFromResume_def spliceTemplate_def Let_def nthOpt_def toStr_def)
  next
    case False
    with ne body show ?thesis
      by (simp add: generateLatexFromResume_def spliceTemplate_def Let_def nthOpt_def toStr_def)
  qed
  with body show ?thesis by blast
qed

theorem C7_no_end_marker_witness:
  "\<not> jsIncludes openTemplate endDelimiter
   \<and> personalInfo johnDoe \<noteq> None
   \<and> urlsWellFormed johnDoe
   \<and> generateLatexFromResume johnDoe openTemplate
       = Inr (js ''%pre'' @ nl @ beginDelimiter @ nl @ johnDoeBody @ nl @ endDelimiter)"
proof -
  have ne: "\<not> jsIncludes openTemplate endDelimiter"
    by (simp add: openTemplate_def string_defs)
  have pi: "personalInfo johnDoe \<noteq> None"
    by (simp add: johnDoe_def)
  have urls: "urlsWellFormed johnDoe"
    by (simp add: urlsWellFormed_def urlOk_def johnDoe_def)
  have hb: "jsIncludes openTemplate beginDelimiter"
    by (simp add: openTemplate_def string_defs)
  have tb: "textBefore openTemplate beginDelimiter = js ''%pre'' @ nl"
    by (simp add: openTemplate_def string_defs)
  show ?thesis
    using C7_no_end_marker [OF ne pi urls] ne pi urls
    by (simp add: johnDoe_body hb tb)
qed

section \<open>The extractor leaves the auxiliary collections empty\<close>

text \<open>
  C10: for every input text the record that \<open>extractResumeData\<close> returns has
  \<open>projects\<close>, \<open>certifications\<close> and \<open>awards\<close> equal to the empty sequence.
\<close>

theorem C10_extract_auxiliary_empty:
  "projects (extractResumeData text) = Some []
   \<and> certifications (extractResumeData text) = Some []
   \<and> awards (extractResumeData text) = Some []"
  by (simp add: extractResumeData_def Let_def)


section \<open>The escaper\<close>

lemma concat_map_concat_map:
  "concat (map f (concat (map g xs))) = concat (map (\<lambda>x. concat (map f (g x))) xs)"
  by (induction xs) simp_all

lemma escapeLatex_chain_one:
  "escGreater (escLess (escReserved (escBackslash [c]))) = escapeChain c"
  by (auto simp: escGreater_def escLess_def escReserved_def escBackslash_def escapeChain_def
      js_def bs_def)

text \<open>
  The five passes together map each code unit of the text, after the newlines are
  collapsed, by \<open>escapeChain\<close>.
\<close>

lemma escapeLatex_per_char: "escapeLatex text = concat (map escapeChain (collapseNewlines text))"
proof -
  have "escapeLatex text
          = concat (map (\<lambda>c. escGreater (escLess (escReserved (escBackslash [c]))))
              (collapseNewlines text))"
    by (simp add: escapeLatex_def escGreater_def escLess_def escReserved_def escBackslash_def
        concat_map_concat_map)
  then show ?thesis by (simp add: escapeLatex_chain_one)
qed

lemma collapseNewlines_set: "c \<in> set (collapseNewlines s) \<Longrightarrow> c \<in> set s \<or> c = 32"
  by (induction s rule: collapseNewlines.induct) (auto split: if_splits)

text \<open>
  On a leaf string without a backslash the source escapes as the specification says:
  every code unit once.
\<close>

lemma escapeLatex_once: "92 \<notin> set text \<Longrightarrow> escapeLatex text = escapeOnce text"
proof -
  assume nb: "92 \<notin> set text"
  have "\<forall>c \<in> set (collapseNewlines text). escapeChain c = escapeChar c"
  proof
    fix c assume "c \<in> set (collapseNewlines text)"
    with nb have "c \<noteq> 92" by (auto dest: collapseNewlines_set)
    then show "escapeChain c = escapeChar c" by (simp add: escapeChain_def escapeChar_def)
  qed
  then have m: "map escapeChain (collapseNewlines text) = map escapeChar (collapseNewlines text)"
    by simp
  show ?thesis
    unfolding escapeLatex_per_char escapeOnce_def m by (rule refl)
qed

text \<open>
  The example of the specification: \<open>%\<close> and \<open>&\<close> in a name are escaped once each, and
  the body is the same whatever the template.
\<close>

lemma associates_body: "buildLatexBody associates = Inr associatesBody"
proof -
  have e: "escapeLatex (js ''50% & Associates'') = js ''50'' @ bs ''% '' @ bs ''& Associates''"
    by (simp add: escapeLatex_per_char escapeChain_def js_def bs_def)
  have t: "trim (js ''50% & Associates'') = js ''50% & Associates''"
    by (simp add: trim_defs js_def)
  have h: "buildHeader \<lparr>name = js ''50% & Associates'', email = [], phone = None,
                         location = None, linkedin = None, github = None, website = None\<rparr>
           = Inr associatesBody"
    unfolding buildHeader_def Let_def
    by (simp add: t e hrefPart_def truthy_def associatesBody_def) (simp add: js_def bs_def)
  have "associatesBody \<noteq> []" by (simp add: associatesBody_def bs_def)
  then show ?thesis
    by (simp add: buildLatexBody_def associates_def h Let_def pushIf_def
        buildSummary_def buildExperienceSection_def experienceSectionOf_def buildProjectsSection_def
        buildSkillsSection_def buildEducationSection_def buildCertificationsSection_def
        buildAwardsSection_def truthy_def)
qed

lemma associates_two_templates:
  "generateLatexFromResume associates sampleTemplate
     = Inr (js ''%pre'' @ nl @ beginDelimiter @ nl @ associatesBody @ nl @ endDelimiter @ nl
            @ js ''%post'')
   \<and> generateLatexFromResume associates openTemplate
     = Inr (js ''%pre'' @ nl @ beginDelimiter @ nl @ associatesBody @ nl @ endDelimiter)"
  by (simp add: generateLatexFromResume_def spliceTemplate_def associates_body Let_def sampleTemplate_def
      openTemplate_def split_def nthOpt_def toStr_def orElse_def string_defs)

text \<open>
  C2 holds for every leaf string without a backslash (\<open>escapeLatex_once\<close>) and fails
  for one with a backslash: the pass that escapes the reserved characters runs on the
  result of the pass that has replaced the backslash by \<open>\textbackslash{}\<close>, and escapes
  the two braces of that markup. A name \<open>AC\DC\<close> is rendered with
  \<open>\textbackslash\{\}\<close>, where escaping every code unit once gives \<open>\textbackslash{}\<close>.
\<close>

theorem C2_backslash_escaped_twice:
  "escapeLatex (js ''AC'' @ bs ''DC'') = js ''AC'' @ bs ''textbackslash'' @ bs ''{'' @ bs ''}DC''
   \<and> escapeOnce (js ''AC'' @ bs ''DC'') = js ''AC'' @ bs ''textbackslash{}DC''
   \<and> escapeLatex (js ''AC'' @ bs ''DC'') \<noteq> escapeOnce (js ''AC'' @ bs ''DC'')
   \<and> buildLatexBody backslashName = Inr backslashBody"
proof -
  have e: "escapeLatex (js ''AC'' @ bs ''DC'')
             = js ''AC'' @ bs ''textbackslash'' @ bs ''{'' @ bs ''}DC''"
    by (simp add: escapeLatex_per_char escapeChain_def js_def bs_def)
  have o: "escapeOnce (js ''AC'' @ bs ''DC'') = js ''AC'' @ bs ''textbackslash{}DC''"
    by (simp add: escapeOnce_def escapeChar_def js_def bs_def)
  have t: "trim (js ''AC'' @ bs ''DC'') = js ''AC'' @ bs ''DC''"
    by (simp add: trim_defs js_def bs_def)
  have h: "buildHeader \<lparr>name = js ''AC'' @ bs ''DC'', email = [], phone = None,
                         location = None, linkedin = None, github = None, website = None\<rparr>
           = Inr backslashBody"
    unfolding buildHeader_def Let_def
    by (simp add: t e hrefPart_def truthy_def backslashBody_def) (simp add: js_def bs_def)
  have "backslashBody \<noteq> []" by (simp add: backslashBody_def bs_def)
  then have b: "buildLatexBody backslashName = Inr backslashBody"
    by (simp add: buildLatexBody_def backslashName_def h Let_def pushIf_def
        buildSummary_def buildExperienceSection_def experienceSectionOf_def buildProjectsSection_def
        buildSkillsSection_def buildEducationSection_def buildCertificationsSection_def
        buildAwardsSection_def truthy_def)
  have "escapeLatex (js ''AC'' @ bs ''DC'') \<noteq> escapeOnce (js ''AC'' @ bs ''DC'')"
    unfolding e o by (simp add: js_def bs_def)
  with e o b show ?thesis by simp
qed


section \<open>The bullet fallback\<close>

lemma escape_fallback: "escapeLatex experienceFallback = experienceFallback"
  by (simp add: escapeLatex_per_char escapeChain_def experienceFallback_def js_def)

lemma toBulletLines_Nil: "toBulletLines [] fb = resumeItem fb"
  by (simp add: toBulletLines_def)

lemma blank_filter:
  "list_all (\<lambda>item. trim item = []) items
     \<longleftrightarrow> filter (\<lambda>item. item \<noteq> []) (map trim items) = []"
  by (simp add: filter_empty_conv list_all_iff)

lemma toBulletLines_blank:
  "list_all (\<lambda>item. trim item = []) items \<Longrightarrow> toBulletLines items fb = resumeItem fb"
  by (simp add: toBulletLines_def blank_filter)

lemma toBulletLines_text:
  "\<not> list_all (\<lambda>item. trim item = []) items
   \<Longrightarrow> toBulletLines items fb
       = join (map resumeItem (filter (\<lambda>item. item \<noteq> []) (map trim items))) nl"
  by (simp add: toBulletLines_def blank_filter Let_def)

text \<open>The list that \<open>toBulletLines\<close> renders always has an item.\<close>

lemma toBulletLines_has_item:
  "\<exists>x xs. toBulletLines items fb = join (map resumeItem (x # xs)) nl"
proof (cases "filter (\<lambda>item. item \<noteq> []) (map trim items)")
  case Nil
  then have "toBulletLines items fb = join (map resumeItem [fb]) nl"
    by (simp add: toBulletLines_def)
  then show ?thesis by blast
next
  case (Cons x xs)
  then have "toBulletLines items fb = join (map resumeItem (x # xs)) nl"
    by (simp add: toBulletLines_def)
  then show ?thesis by blast
qed

lemma experienceEntry_blank_bullets:
  assumes "blankBullets e"
  shows "suffix fallbackItemList (experienceEntry e)"
proof -
  from assms have t: "toBulletLines (bullets e) experienceFallback = resumeItem experienceFallback"
    unfolding blankBullets_def by (rule toBulletLines_blank)
  have "experienceEntry e
          = (js ''    '' @ bs ''resumeSubheading'' @ nl @ js ''      {''
             @ escapeLatex (strOr (position e) (js ''Role Title'')) @ js ''}{''
             @ escapeLatex (formatDateRange (startDate e) (endDate e)) @ js ''}'' @ nl
             @ js ''      {'' @ escapeLatex (strOr (company e) (js ''Company Name'')) @ js ''}{''
             @ escapeLatex (orElse (exp_location e) []) @ js ''}'' @ nl)
            @ fallbackItemList"
    by (simp add: experienceEntry_def experienceBlock_def Let_def t resumeItem_def escape_fallback
        fallbackItemList_def)
  then show ?thesis
    unfolding suffix_def by blast
qed

lemma mem_join_sublist: "x \<in> set xs \<Longrightarrow> sublist x (join xs sep)"
proof (induction xs sep rule: join.induct)
  case (1 sep)
  then show ?case by simp
next
  case (2 y sep)
  then show ?case by simp
next
  case (3 y z zs sep)
  show ?case
  proof (cases "x = y")
    case True
    then show ?thesis by (simp add: sublist_append)
  next
    case False
    with "3.prems" have "x \<in> set (z # zs)" by simp
    then have "sublist x (join (z # zs) sep)" by (rule "3.IH")
    then show ?thesis by (simp add: sublist_append)
  qed
qed

lemma sublist_mid: "sublist x (a @ x @ b)"
  unfolding sublist_def by blast

lemma sublist_mid_trans: "sublist x y \<Longrightarrow> sublist x (a @ y @ b)"
  by (meson sublist_mid sublist_order.order_trans)

lemma entry_in_section:
  "e \<in> set exps \<Longrightarrow> sublist (experienceEntry e) (buildExperienceSection (Some exps))"
proof -
  assume e: "e \<in> set exps"
  then have ne: "exps \<noteq> []" by auto
  from e have "sublist (experienceEntry e)
                 (join (map experienceEntry exps) (nl @ bs ''vspace{-16pt}'' @ nl))"
    by (simp add: mem_join_sublist)
  then have "sublist (experienceEntry e)
               ((js ''%-----------PROFESSIONAL EXPERIENCE-----------'' @ nl
                 @ bs ''section{Professional Experience}'' @ nl @ js ''  ''
                 @ bs ''resumeSubHeadingListStart'' @ nl)
                @ join (map experienceEntry exps) (nl @ bs ''vspace{-16pt}'' @ nl)
                @ (nl @ js ''  '' @ bs ''resumeSubHeadingListEnd'' @ nl @ bs ''vspace{-16pt}''))"
    by (rule sublist_mid_trans)
  with ne show ?thesis
    by (simp add: buildExperienceSection_def experienceSectionOf_def Let_def)
qed

lemma pushIf_keeps: "x \<in> set s \<Longrightarrow> x \<in> set (pushIf s y)"
  by (simp add: pushIf_def)

lemma pushIf_adds: "x \<noteq> [] \<Longrightarrow> x \<in> set (pushIf s x)"
  by (simp add: pushIf_def)

lemma section_in_body:
  assumes "buildLatexBody r = Inr body"
  shows "sublist (buildExperienceSection (experience r)) body"
proof (cases "buildExperienceSection (experience r) = []")
  case True
  then show ?thesis by simp
next
  case False
  let ?x = "buildExperienceSection (experience r)"
  from assms obtain s2 a b c d e where
    body: "body = join (filter (\<lambda>s. s \<noteq> [])
                    (pushIf (pushIf (pushIf (pushIf (pushIf (pushIf s2 ?x) a) b) c) d) e))
                    (nl @ nl)"
    by (auto simp: buildLatexBody_def Let_def split: option.splits sum.splits)
  from False have "?x \<in> set (pushIf (pushIf (pushIf (pushIf (pushIf (pushIf s2 ?x) a) b) c) d) e)"
    by (intro pushIf_keeps pushIf_adds)
  with False have "?x \<in> set (filter (\<lambda>s. s \<noteq> [])
                     (pushIf (pushIf (pushIf (pushIf (pushIf (pushIf s2 ?x) a) b) c) d) e))"
    by simp
  then show ?thesis
    unfolding body by (rule mem_join_sublist)
qed

text \<open>
  The output is the body between two line feeds, in a frame that depends on the
  template alone.
\<close>

lemma splice_frame:
  "\<exists>X Y. \<forall>body. spliceTemplate T (Inr body) = Inr (X @ 10 # body @ 10 # Y)"
proof -
  let ?hasBegin = "jsIncludes T beginDelimiter"
  let ?parts = "if ?hasBegin then split T beginDelimiter else [getDefaultPreamble, []]"
  let ?pre = "if ?hasBegin then toStr (nthOpt ?parts 0) else getDefaultPreamble"
  let ?post = "if jsIncludes T endDelimiter
               then join (drop 1 (split (orElse (nthOpt ?parts 1) []) endDelimiter)) endDelimiter
               else []"
  have "\<forall>body. spliceTemplate T (Inr body)
                  = Inr ((?pre @ beginDelimiter) @ 10 # body @ 10 # (endDelimiter @ ?post))"
    by (auto simp: spliceTemplate_def Let_def nl_def)
  then show ?thesis by blast
qed

lemma body_in_output:
  assumes "generateLatexFromResume r T = Inr out"
  shows "\<exists>body. buildLatexBody r = Inr body \<and> sublist body out"
proof (cases "buildLatexBody r")
  case (Inl err)
  with assms show ?thesis
    by (simp add: generateLatexFromResume_def spliceTemplate_def Let_def)
next
  case (Inr body)
  obtain X Y where "\<forall>b. spliceTemplate T (Inr b) = Inr (X @ 10 # b @ 10 # Y)"
    using splice_frame by blast
  with assms Inr have "out = (X @ [10]) @ body @ (10 # Y)"
    by (simp add: generateLatexFromResume_def)
  then have "sublist body out"
    by (simp only: sublist_mid)
  with Inr show ?thesis by blast
qed

subsection \<open>Counting the fallback sentence\<close>

text \<open>
  An occurrence of a sentence starts at the first code unit of the sentence and does not
  run over a code unit that the sentence does not hold. So the occurrences in a text
  made of literals and fields are those in the fields, when every field is followed by
  such a code unit and the literals do not hold the first one.
\<close>

lemma occurrences_Nil: "p \<noteq> [] \<Longrightarrow> occurrences [] p = 0"
  by simp

lemma occurrences_skip: "p \<noteq> [] \<Longrightarrow> c \<noteq> hd p \<Longrightarrow> occurrences (c # xs) p = occurrences xs p"
  by (cases p) simp_all

lemma occurrences_literal:
  assumes "p \<noteq> []" and "hd p \<notin> set l"
  shows "occurrences (l @ xs) p = occurrences xs p"
  using assms(2)
proof (induction l)
  case Nil
  show ?case by simp
next
  case (Cons a l)
  then have "a \<noteq> hd p" by auto
  with assms(1) have "occurrences (a # (l @ xs)) p = occurrences (l @ xs) p"
    by (rule occurrences_skip)
  with Cons show ?case by simp
qed

lemma occurrences_literal_only: "p \<noteq> [] \<Longrightarrow> hd p \<notin> set l \<Longrightarrow> occurrences l p = 0"
  using occurrences_literal [of p l "[]"] by simp

lemma prefix_sep:
  assumes "d \<notin> set p"
  shows "prefix p (zs @ d # ys) \<longleftrightarrow> prefix p zs"
proof
  assume "prefix p (zs @ d # ys)"
  then consider "prefix p zs" | us where "p = zs @ us" and "prefix us (d # ys)"
    by (auto simp: prefix_append)
  then show "prefix p zs"
  proof cases
    case 1
    then show ?thesis .
  next
    case 2
    show ?thesis
    proof (cases us)
      case Nil
      with 2 show ?thesis by simp
    next
      case (Cons u us')
      with 2 have "u = d" by simp
      with 2 Cons assms show ?thesis by simp
    qed
  qed
next
  assume "prefix p zs"
  then show "prefix p (zs @ d # ys)" by (rule prefix_prefix)
qed

lemma occurrences_sep:
  assumes "p \<noteq> []" and "d \<notin> set p"
  shows "occurrences (xs @ d # ys) p = occurrences xs p + occurrences ys p"
proof (induction xs)
  case Nil
  from assms have "d \<noteq> hd p" by (cases p) auto
  with assms(1) have "occurrences (d # ys) p = occurrences ys p"
    by (rule occurrences_skip)
  then show ?case
    by (simp only: append_Nil occurrences_Nil [OF assms(1)] add_0)
next
  case (Cons x xs)
  have "prefix p ((x # xs) @ d # ys) \<longleftrightarrow> prefix p (x # xs)"
    using assms(2) by (rule prefix_sep)
  with Cons show ?case by simp
qed

lemma occurrences_field:
  assumes "p \<noteq> []" and "hd p \<notin> set l" and "d \<notin> set p"
  shows "occurrences (l @ xs @ d # ys) p = occurrences xs p + occurrences ys p"
  by (simp only: occurrences_literal [OF assms(1) assms(2)] occurrences_sep [OF assms(1) assms(3)])

lemma occurrences_join:
  assumes "p \<noteq> []" and "d \<notin> set p" and "hd p \<notin> set l"
  shows "occurrences (join xs (d # l)) p = sum_list (map (\<lambda>x. occurrences x p) xs)"
proof (induction xs "d # l" rule: join.induct)
  case 1
  from assms(1) show ?case by simp
next
  case (2 x)
  show ?case by simp
next
  case (3 x y ys)
  have "occurrences (x @ d # (l @ join (y # ys) (d # l))) p
          = occurrences x p + occurrences (l @ join (y # ys) (d # l)) p"
    using assms(1) assms(2) by (rule occurrences_sep)
  also have "occurrences (l @ join (y # ys) (d # l)) p = occurrences (join (y # ys) (d # l)) p"
    using assms(1) assms(3) by (rule occurrences_literal)
  finally show ?case using 3 by simp
qed

lemma occurrences_short: "length s < length p \<Longrightarrow> occurrences s p = 0"
proof (induction s)
  case Nil
  then show ?case by auto
next
  case (Cons c cs)
  then have "\<not> prefix p (c # cs)" by (auto dest: prefix_length_le)
  with Cons show ?case by simp
qed

lemma occurrences_self: "p \<noteq> [] \<Longrightarrow> occurrences p p = 1"
  by (cases p) (simp_all add: occurrences_short)

lemma sum_list_zero: "\<forall>x \<in> set xs. f x = (0::nat) \<Longrightarrow> sum_list (map f xs) = 0"
  by (induction xs) simp_all

lemma sum_list_indicator:
  "sum_list (map (\<lambda>x. if P x then 1 else (0::nat)) xs) = length (filter P xs)"
  by (induction xs) simp_all

text \<open>The code units of the fallback sentence: letters, the space and the full stop.\<close>

lemma fallback_not_Nil: "experienceFallback \<noteq> []"
  by (simp add: experienceFallback_def js_def)

lemma fallback_hd: "hd experienceFallback = 68"
  by (simp add: experienceFallback_def js_def)

lemma fallback_without:
  "10 \<notin> set experienceFallback" "125 \<notin> set experienceFallback"
  by (simp_all add: experienceFallback_def js_def)

lemma resumeItem_occurrences:
  "occurrences (resumeItem item) experienceFallback
     = occurrences (escapeLatex item) experienceFallback"
proof -
  have l: "hd experienceFallback \<notin> set (js ''        '' @ bs ''resumeItem{'')"
    by (simp add: fallback_hd js_def bs_def)
  have "occurrences ((js ''        '' @ bs ''resumeItem{'') @ escapeLatex item @ 125 # [])
          experienceFallback
        = occurrences (escapeLatex item) experienceFallback + occurrences [] experienceFallback"
    using fallback_not_Nil l fallback_without(2) by (rule occurrences_field)
  then show ?thesis
    by (simp add: resumeItem_def js_def fallback_not_Nil)
qed

lemma item_lines_occurrences:
  "occurrences (join (map resumeItem items) nl) experienceFallback
     = sum_list (map (\<lambda>item. occurrences (escapeLatex item) experienceFallback) items)"
proof -
  have "occurrences (join (map resumeItem items) (10 # [])) experienceFallback
          = sum_list (map (\<lambda>x. occurrences x experienceFallback) (map resumeItem items))"
    using fallback_not_Nil fallback_without(1) by (rule occurrences_join) simp
  then show ?thesis
    by (simp add: nl_def comp_def resumeItem_occurrences)
qed

lemma experienceBlock_occurrences:
  "occurrences (experienceBlock e bulletsT) experienceFallback
     = occurrences (escapeLatex (strOr (position e) (js ''Role Title''))) experienceFallback
       + occurrences (escapeLatex (formatDateRange (startDate e) (endDate e))) experienceFallback
       + occurrences (escapeLatex (strOr (company e) (js ''Company Name''))) experienceFallback
       + occurrences (escapeLatex (orElse (exp_location e) [])) experienceFallback
       + occurrences bulletsT experienceFallback"
proof -
  let ?p = experienceFallback
  let ?role = "escapeLatex (strOr (position e) (js ''Role Title''))"
  let ?date = "escapeLatex (formatDateRange (startDate e) (endDate e))"
  let ?comp = "escapeLatex (strOr (company e) (js ''Company Name''))"
  let ?loc = "escapeLatex (orElse (exp_location e) [])"
  define l1 where "l1 = js ''    '' @ bs ''resumeSubheading'' @ nl @ js ''      {''"
  define l2 where "l2 = js ''{''"
  define l3 where "l3 = nl @ js ''      {''"
  define l5 where "l5 = nl @ js ''      '' @ bs ''resumeItemListStart'' @ nl"
  define l6 where "l6 = js ''      '' @ bs ''resumeItemListEnd''"
  have shape: "experienceBlock e bulletsT
                 = l1 @ ?role @ 125 # (l2 @ ?date @ 125 # (l3 @ ?comp @ 125 # (l2 @ ?loc
                     @ 125 # (l5 @ bulletsT @ 10 # l6))))"
    by (simp add: experienceBlock_def Let_def l1_def l2_def l3_def l5_def l6_def
        js_def bs_def nl_def)
  have h1: "hd ?p \<notin> set l1" by (simp add: l1_def fallback_hd js_def bs_def nl_def)
  have h2: "hd ?p \<notin> set l2" by (simp add: l2_def fallback_hd js_def)
  have h3: "hd ?p \<notin> set l3" by (simp add: l3_def fallback_hd js_def nl_def)
  have h5: "hd ?p \<notin> set l5" by (simp add: l5_def fallback_hd js_def bs_def nl_def)
  have h6: "hd ?p \<notin> set l6" by (simp add: l6_def fallback_hd js_def bs_def)
  note ne = fallback_not_Nil
  note s = fallback_without(2)
  note n = fallback_without(1)
  have "occurrences l6 ?p = 0" using ne h6 by (rule occurrences_literal_only)
  then show ?thesis
    unfolding shape
    by (simp only: occurrences_field [OF ne h1 s] occurrences_field [OF ne h2 s]
        occurrences_field [OF ne h3 s] occurrences_field [OF ne h5 n] add.assoc add_0_right)
qed

lemma experienceEntry_occurrences:
  assumes "sentenceFree e"
  shows "occurrences (experienceEntry e) experienceFallback = (if blankBullets e then 1 else 0)"
proof -
  let ?p = experienceFallback
  let ?items = "filter (\<lambda>item. item \<noteq> []) (map trim (bullets e))"
  from assms have own:
    "occurrences (escapeLatex (strOr (position e) (js ''Role Title''))) ?p = 0"
    "occurrences (escapeLatex (formatDateRange (startDate e) (endDate e))) ?p = 0"
    "occurrences (escapeLatex (strOr (company e) (js ''Company Name''))) ?p = 0"
    "occurrences (escapeLatex (orElse (exp_location e) [])) ?p = 0"
    and items: "\<forall>item \<in> set ?items. occurrences (escapeLatex item) ?p = 0"
    by (simp_all add: sentenceFree_def entryStrings_def list_all_iff)
  have b: "occurrences (toBulletLines (bullets e) ?p) ?p = (if blankBullets e then 1 else 0)"
  proof (cases "blankBullets e")
    case True
    then have "toBulletLines (bullets e) ?p = resumeItem ?p"
      unfolding blankBullets_def by (rule toBulletLines_blank)
    with True show ?thesis
      by (simp add: resumeItem_occurrences escape_fallback occurrences_self fallback_not_Nil)
  next
    case False
    then have "toBulletLines (bullets e) ?p = join (map resumeItem ?items) nl"
      unfolding blankBullets_def by (rule toBulletLines_text)
    moreover from items
    have "sum_list (map (\<lambda>item. occurrences (escapeLatex item) ?p) ?items) = 0"
      by (rule sum_list_zero)
    ultimately show ?thesis
      using False by (simp add: item_lines_occurrences)
  qed
  show ?thesis
    by (simp only: experienceEntry_def Let_def experienceBlock_occurrences own b add_0)
qed

lemma section_occurrences:
  "occurrences (buildExperienceSection (Some exps)) experienceFallback
     = sum_list (map (\<lambda>e. occurrences (experienceEntry e) experienceFallback) exps)"
proof (cases "exps = []")
  case True
  then show ?thesis by (simp add: buildExperienceSection_def fallback_not_Nil)
next
  case False
  let ?p = experienceFallback
  define l1 where "l1 = js ''%-----------PROFESSIONAL EXPERIENCE-----------'' @ nl
                        @ bs ''section{Professional Experience}'' @ nl @ js ''  ''
                        @ bs ''resumeSubHeadingListStart'' @ nl"
  define l2 where "l2 = bs ''vspace{-16pt}'' @ nl"
  define l3 where "l3 = js ''  '' @ bs ''resumeSubHeadingListEnd'' @ nl @ bs ''vspace{-16pt}''"
  have shape: "buildExperienceSection (Some exps)
                 = l1 @ join (map experienceEntry exps) (10 # l2) @ 10 # l3"
    using False
    by (simp add: buildExperienceSection_def experienceSectionOf_def Let_def l1_def l2_def l3_def
        nl_def)
  have h1: "hd ?p \<notin> set l1" by (simp add: l1_def fallback_hd js_def bs_def nl_def)
  have h2: "hd ?p \<notin> set l2" by (simp add: l2_def fallback_hd js_def bs_def nl_def)
  have h3: "hd ?p \<notin> set l3" by (simp add: l3_def fallback_hd js_def bs_def nl_def)
  have z: "occurrences l3 ?p = 0" using fallback_not_Nil h3 by (rule occurrences_literal_only)
  have j: "occurrences (join (map experienceEntry exps) (10 # l2)) ?p
             = sum_list (map (\<lambda>x. occurrences x ?p) (map experienceEntry exps))"
    using fallback_not_Nil fallback_without(1) h2 by (rule occurrences_join)
  show ?thesis
    unfolding shape
    by (simp only: occurrences_field [OF fallback_not_Nil h1 fallback_without(1)] z j
        add_0_right map_map comp_def)
qed

lemma section_count:
  assumes "list_all sentenceFree exps"
  shows "occurrences (buildExperienceSection (Some exps)) experienceFallback
           = length (filter blankBullets exps)"
proof -
  from assms have "map (\<lambda>e. occurrences (experienceEntry e) experienceFallback) exps
                     = map (\<lambda>e. if blankBullets e then 1 else 0) exps"
    by (simp add: list_all_iff experienceEntry_occurrences)
  then show ?thesis
    by (simp only: section_occurrences sum_list_indicator)
qed

text \<open>The sections of the body, counted one by one.\<close>

lemma body_join_occurrences:
  "occurrences (join (filter (\<lambda>s. s \<noteq> []) sections) (nl @ nl)) experienceFallback
     = sum_list (map (\<lambda>s. occurrences s experienceFallback) sections)"
proof -
  have h: "hd experienceFallback \<notin> set [10]" by (simp add: fallback_hd)
  have "occurrences (join (filter (\<lambda>s. s \<noteq> []) sections) (10 # [10])) experienceFallback
          = sum_list (map (\<lambda>s. occurrences s experienceFallback)
                        (filter (\<lambda>s. s \<noteq> []) sections))"
    using fallback_not_Nil fallback_without(1) h by (rule occurrences_join)
  also have "\<dots> = sum_list (map (\<lambda>s. occurrences s experienceFallback) sections)"
    by (induction sections) (simp_all add: fallback_not_Nil)
  finally show ?thesis by (simp add: nl_def)
qed

lemma pushIf_occurrences:
  "sum_list (map (\<lambda>s. occurrences s experienceFallback) (pushIf sections sect))
     = sum_list (map (\<lambda>s. occurrences s experienceFallback) sections)
       + occurrences sect experienceFallback"
  by (simp add: pushIf_def fallback_not_Nil)

lemma body_occurrences:
  assumes "buildLatexBody r = Inr body"
  shows "\<exists>body0. buildLatexBody (r\<lparr>experience := None\<rparr>) = Inr body0
           \<and> occurrences body experienceFallback
               = occurrences body0 experienceFallback
                 + occurrences (buildExperienceSection (experience r)) experienceFallback"
proof -
  from assms obtain p where p: "personalInfo r = Some p"
    by (auto simp: buildLatexBody_def split: option.splits)
  from assms p obtain header where h: "buildHeader p = Inr header"
    by (auto simp: buildLatexBody_def split: sum.splits)
  from assms p h obtain proj where j: "buildProjectsSection (projects r) = Inr proj"
    by (auto simp: buildLatexBody_def Let_def split: sum.splits)
  let ?rest = "\<lambda>s3. pushIf (pushIf (pushIf (pushIf (pushIf s3 proj)
                         (buildSkillsSection (skills r))) (buildEducationSection (education r)))
                         (buildCertificationsSection (certifications r)))
                         (buildAwardsSection (awards r))"
  let ?s2 = "pushIf [header] (buildSummary (summary r))"
  let ?x = "buildExperienceSection (experience r)"
  from assms p h j have b: "body = join (filter (\<lambda>s. s \<noteq> []) (?rest (pushIf ?s2 ?x))) (nl @ nl)"
    by (simp add: buildLatexBody_def Let_def)
  let ?body0 = "join (filter (\<lambda>s. s \<noteq> []) (?rest ?s2)) (nl @ nl)"
  from p h j have b0: "buildLatexBody (r\<lparr>experience := None\<rparr>) = Inr ?body0"
    by (simp add: buildLatexBody_def Let_def buildExperienceSection_def pushIf_def)
  have "occurrences body experienceFallback
          = occurrences ?body0 experienceFallback + occurrences ?x experienceFallback"
    unfolding b by (simp only: body_join_occurrences pushIf_occurrences)
  with b0 show ?thesis by blast
qed

lemma output_occurrences:
  assumes "generateLatexFromResume r T = Inr out"
  shows "\<exists>out0. generateLatexFromResume (r\<lparr>experience := None\<rparr>) T = Inr out0
           \<and> occurrences out experienceFallback
               = occurrences out0 experienceFallback
                 + occurrences (buildExperienceSection (experience r)) experienceFallback"
proof (cases "buildLatexBody r")
  case (Inl err)
  with assms show ?thesis
    by (simp add: generateLatexFromResume_def spliceTemplate_def Let_def)
next
  case (Inr body)
  let ?p = experienceFallback
  from Inr obtain body0 where
    b0: "buildLatexBody (r\<lparr>experience := None\<rparr>) = Inr body0" and
    c: "occurrences body ?p
          = occurrences body0 ?p + occurrences (buildExperienceSection (experience r)) ?p"
    using body_occurrences by blast
  obtain X Y where f: "\<forall>b. spliceTemplate T (Inr b) = Inr (X @ 10 # b @ 10 # Y)"
    using splice_frame by blast
  from assms Inr f have o: "out = X @ 10 # body @ 10 # Y"
    by (simp add: generateLatexFromResume_def)
  from b0 f have o0: "generateLatexFromResume (r\<lparr>experience := None\<rparr>) T
                        = Inr (X @ 10 # body0 @ 10 # Y)"
    by (simp add: generateLatexFromResume_def)
  note sep = occurrences_sep [OF fallback_not_Nil fallback_without(1)]
  have "occurrences out ?p = occurrences X ?p + occurrences body ?p + occurrences Y ?p"
    unfolding o by (simp only: sep add.assoc)
  moreover have "occurrences (X @ 10 # body0 @ 10 # Y) ?p
                   = occurrences X ?p + occurrences body0 ?p + occurrences Y ?p"
    by (simp only: sep add.assoc)
  ultimately have "occurrences out ?p
                     = occurrences (X @ 10 # body0 @ 10 # Y) ?p
                       + occurrences (buildExperienceSection (experience r)) ?p"
    using c by simp
  with o0 show ?thesis by blast
qed

subsection \<open>The example records\<close>

lemma johnDoe_header_not_Nil: "johnDoeBody \<noteq> []"
  by (simp add: johnDoeBody_def bs_def)

lemma emptyBulletEntry_text: "experienceEntry emptyBulletEntry = emptyBulletEntryText"
  by (simp add: experienceEntry_def experienceBlock_def Let_def toBulletLines_Nil resumeItem_def escape_fallback
      emptyBulletEntry_def formatDateRange_def truthy_def strOr_def orElse_def
      emptyBulletEntryText_def experienceFallback_def escapeLatex_per_char escapeChain_def
      js_def bs_def nl_def)

lemma sentenceEntry_text: "experienceEntry sentenceEntry = sentenceEntryText"
  by (simp add: experienceEntry_def experienceBlock_def Let_def toBulletLines_Nil resumeItem_def escape_fallback
      sentenceEntry_def formatDateRange_def truthy_def strOr_def orElse_def
      sentenceEntryText_def)
    (simp add: experienceFallback_def escapeLatex_per_char escapeChain_def js_def bs_def nl_def)

lemma bulletEntry_lines:
  "toBulletLines (bullets bulletEntry) experienceFallback
     = resumeItem (js ''Led a team of 5 developers'')"
  by (simp add: toBulletLines_def bulletEntry_def trim_defs js_def)

lemma bulletEntry_text: "experienceEntry bulletEntry = bulletEntryText"
  by (simp add: experienceEntry_def experienceBlock_def Let_def bulletEntry_lines resumeItem_def)
    (simp add: bulletEntry_def formatDateRange_def truthy_def strOr_def orElse_def
      bulletEntryText_def escapeLatex_per_char escapeChain_def js_def bs_def nl_def)

lemma oneJob_output: "generateLatexFromResume oneJob [] = Inr oneJobOut"
proof -
  have s: "buildExperienceSection (Some [emptyBulletEntry]) = oneJobSection"
    by (simp add: buildExperienceSection_def experienceSectionOf_def Let_def emptyBulletEntry_text
        emptyBulletEntryText_def oneJobSection_def js_def bs_def nl_def)
  have n: "oneJobSection \<noteq> []" by (simp add: oneJobSection_def js_def)
  have b: "buildLatexBody oneJob = Inr (johnDoeBody @ nl @ nl @ oneJobSection)"
    using n johnDoe_header_not_Nil
    by (simp add: buildLatexBody_def oneJob_def johnDoe_header s Let_def pushIf_def
        buildSummary_def buildProjectsSection_def buildSkillsSection_def
        buildEducationSection_def buildCertificationsSection_def buildAwardsSection_def
        truthy_def)
  show ?thesis
    by (simp add: generateLatexFromResume_def spliceTemplate_def b Let_def nthOpt_def toStr_def orElse_def
        oneJobOut_def beginDelimiter_not_Nil endDelimiter_not_Nil)
qed

lemma sentenceJob_output: "generateLatexFromResume sentenceJob [] = Inr sentenceJobOut"
proof -
  have s: "buildExperienceSection (Some [sentenceEntry]) = sentenceJobSection"
    by (simp add: buildExperienceSection_def experienceSectionOf_def Let_def sentenceEntry_text
        sentenceEntryText_def sentenceJobSection_def js_def bs_def nl_def)
  have n: "sentenceJobSection \<noteq> []" by (simp add: sentenceJobSection_def js_def)
  have b: "buildLatexBody sentenceJob = Inr (johnDoeBody @ nl @ nl @ sentenceJobSection)"
    using n johnDoe_header_not_Nil
    by (simp add: buildLatexBody_def sentenceJob_def johnDoe_header s Let_def pushIf_def
        buildSummary_def buildProjectsSection_def buildSkillsSection_def
        buildEducationSection_def buildCertificationsSection_def buildAwardsSection_def
        truthy_def)
  show ?thesis
    by (simp add: generateLatexFromResume_def spliceTemplate_def b Let_def nthOpt_def toStr_def orElse_def
        sentenceJobOut_def beginDelimiter_not_Nil endDelimiter_not_Nil)
qed

lemma twoJobs_output: "generateLatexFromResume twoJobs [] = Inr twoJobsOut"
proof -
  have s: "buildExperienceSection (Some [emptyBulletEntry, bulletEntry]) = twoJobsSection"
    by (simp add: buildExperienceSection_def experienceSectionOf_def Let_def emptyBulletEntry_text
        bulletEntry_text twoJobsSection_def nl_def)
  have n: "twoJobsSection \<noteq> []" by (simp add: twoJobsSection_def js_def)
  have b: "buildLatexBody twoJobs = Inr (johnDoeBody @ nl @ nl @ twoJobsSection)"
    using n johnDoe_header_not_Nil
    by (simp add: buildLatexBody_def twoJobs_def johnDoe_header s Let_def pushIf_def
        buildSummary_def buildProjectsSection_def buildSkillsSection_def
        buildEducationSection_def buildCertificationsSection_def buildAwardsSection_def
        truthy_def)
  show ?thesis
    by (simp add: generateLatexFromResume_def spliceTemplate_def b Let_def nthOpt_def toStr_def orElse_def
        twoJobsOut_def beginDelimiter_not_Nil endDelimiter_not_Nil)
qed

lemma headerOnly_output:
  "generateLatexFromResume (twoJobs\<lparr>experience := None\<rparr>) [] = Inr headerOnlyOut"
proof -
  have b: "buildLatexBody (twoJobs\<lparr>experience := None\<rparr>) = Inr johnDoeBody"
    using johnDoe_header_not_Nil
    by (simp add: buildLatexBody_def twoJobs_def johnDoe_header Let_def pushIf_def
        buildSummary_def buildExperienceSection_def buildProjectsSection_def
        buildSkillsSection_def buildEducationSection_def buildCertificationsSection_def
        buildAwardsSection_def truthy_def)
  show ?thesis
    by (simp add: generateLatexFromResume_def spliceTemplate_def b Let_def nthOpt_def toStr_def orElse_def
        headerOnlyOut_def beginDelimiter_not_Nil endDelimiter_not_Nil)
qed

lemma headerOnly_count: "occurrences headerOnlyOut experienceFallback = 0"
  by (simp add: headerOnlyOut_def johnDoeBody_def experienceFallback_def string_defs)

lemma example_entries:
  "blankBullets emptyBulletEntry" "\<not> blankBullets bulletEntry"
  "sentenceFree emptyBulletEntry" "sentenceFree bulletEntry"
proof -
  show "blankBullets emptyBulletEntry"
    by (simp add: blankBullets_def emptyBulletEntry_def)
  show "\<not> blankBullets bulletEntry"
    by (simp add: blankBullets_def bulletEntry_def trim_defs js_def)
  show "sentenceFree emptyBulletEntry"
    by (simp add: sentenceFree_def entryStrings_def emptyBulletEntry_def formatDateRange_def
        truthy_def strOr_def orElse_def escapeLatex_per_char escapeChain_def
        experienceFallback_def js_def)
  show "sentenceFree bulletEntry"
    by (simp add: sentenceFree_def entryStrings_def bulletEntry_def formatDateRange_def
        truthy_def strOr_def orElse_def escapeLatex_per_char escapeChain_def
        experienceFallback_def trim_defs js_def)
qed

text \<open>
  The skills section is outside the bullet fallback: its \<open>itemize\<close> environment is
  written by a template literal in which \<open>\item\<close> has a single backslash, so the text
  holds \<open>item{\<close> and no \<open>\item\<close> command.
\<close>

lemma skills_section_without_item:
  "buildSkillsSection (Some goSkills) = goSkillsSection
   \<and> jsIncludes goSkillsSection (bs ''begin{itemize}'')
   \<and> \<not> jsIncludes goSkillsSection (bs ''item'')"
proof -
  have "buildSkillsSection (Some goSkills) = goSkillsSection"
    by (simp add: buildSkillsSection_def skillLine_def goSkills_def goSkillsSection_def Let_def
        strOr_def escapeLatex_per_char escapeChain_def js_def bs_def nl_def)
  moreover have "jsIncludes goSkillsSection (bs ''begin{itemize}'')"
    by (simp add: goSkillsSection_def js_def bs_def nl_def)
  moreover have "\<not> jsIncludes goSkillsSection (bs ''item'')"
    by (simp add: goSkillsSection_def js_def bs_def nl_def)
  ultimately show ?thesis by (intro conjI)
qed

text \<open>
  C6, as stated, fails: the fallback sentence is ordinary text, and a record can hold it
  in a field of its own. The record has one experience entry, with an empty bullet
  sequence and the sentence as its position; the sentence occurs twice in the block of
  that entry and twice in the output.
\<close>

theorem C6_counterexample:
  "experience sentenceJob = Some [sentenceEntry]
   \<and> bullets sentenceEntry = []
   \<and> emptyBulletCount sentenceJob = 1
   \<and> generateLatexFromResume sentenceJob [] = Inr sentenceJobOut
   \<and> occurrences sentenceJobOut experienceFallback = 2
   \<and> occurrences (experienceEntry sentenceEntry) experienceFallback = 2"
proof -
  have o: "occurrences sentenceJobOut experienceFallback = 2"
    by (simp add: sentenceJobOut_def sentenceJobSection_def johnDoeBody_def
        experienceFallback_def string_defs)
  have p: "occurrences sentenceEntryText experienceFallback = 2"
    by (simp add: sentenceEntryText_def experienceFallback_def string_defs)
  show ?thesis
    by (simp add: o p sentenceJob_output sentenceEntry_text emptyBulletCount_def)
      (simp add: sentenceJob_def sentenceEntry_def)
qed

text \<open>
  C6, amended. Let \<open>r\<close> be a record with the experience entries \<open>exps\<close> and \<open>T\<close> a template
  for which the renderer returns \<open>out\<close>.

  For every entry \<open>e\<close> of \<open>exps\<close>: the output contains the block of \<open>e\<close>. When the bullet
  sequence of \<open>e\<close> is empty or all blank, its bullet lines are the one item that holds
  the fallback sentence, and the block ends with the item list of that one item. When
  \<open>e\<close> has a bullet that is not blank, its bullet lines are its own trimmed bullets and
  no fallback is added. When no own string of \<open>e\<close> holds the sentence, the sentence
  occurs in the block exactly once if the bullet sequence is empty or all blank, and
  not at all otherwise.

  When no own string of any entry holds the sentence, the number of occurrences of the
  sentence in \<open>out\<close> is the number of entries whose bullet sequence is empty or all
  blank, plus the number of occurrences in the document that the renderer returns for
  the same template and the record without its experience entries: exactly one per such
  entry, beyond what the template and the other sections hold.

  When \<open>exps\<close> is not empty, the experience section is the section frame around the
  blocks of the entries, one block per entry in their order, and the output contains it.

  The item list that \<open>toBulletLines\<close> renders is never empty: its result is one or more
  \<open>\resumeItem\<close> lines.
\<close>

theorem C6_fallback_bullet:
  assumes "experience r = Some exps" and "generateLatexFromResume r T = Inr out"
  shows "(\<forall>e \<in> set exps.
            sublist (experienceEntry e) out
          \<and> (blankBullets e \<longrightarrow>
               toBulletLines (bullets e) experienceFallback = resumeItem experienceFallback
             \<and> suffix fallbackItemList (experienceEntry e))
          \<and> (\<not> blankBullets e \<longrightarrow>
               toBulletLines (bullets e) experienceFallback
                 = join (map resumeItem (filter (\<lambda>item. item \<noteq> []) (map trim (bullets e)))) nl)
          \<and> (sentenceFree e \<longrightarrow>
               occurrences (experienceEntry e) experienceFallback
                 = (if blankBullets e then 1 else 0)))
       \<and> (list_all sentenceFree exps \<longrightarrow>
            (\<exists>out0. generateLatexFromResume (r\<lparr>experience := None\<rparr>) T = Inr out0
                  \<and> occurrences out experienceFallback
                      = occurrences out0 experienceFallback + length (filter blankBullets exps)))
       \<and> (exps \<noteq> [] \<longrightarrow>
            buildExperienceSection (experience r) = experienceSectionOf (map experienceEntry exps)
          \<and> sublist (experienceSectionOf (map experienceEntry exps)) out)
       \<and> (\<forall>items fb. \<exists>x xs. toBulletLines items fb = join (map resumeItem (x # xs)) nl)"
proof -
  from assms(2) obtain body where b: "buildLatexBody r = Inr body" and bo: "sublist body out"
    using body_in_output by blast
  from b have "sublist (buildExperienceSection (experience r)) body"
    by (rule section_in_body)
  with assms(1) have sb: "sublist (buildExperienceSection (Some exps)) body" by simp
  have per: "\<forall>e \<in> set exps.
               sublist (experienceEntry e) out
             \<and> (blankBullets e \<longrightarrow>
                  toBulletLines (bullets e) experienceFallback = resumeItem experienceFallback
                \<and> suffix fallbackItemList (experienceEntry e))
             \<and> (\<not> blankBullets e \<longrightarrow>
                  toBulletLines (bullets e) experienceFallback
                    = join (map resumeItem (filter (\<lambda>item. item \<noteq> []) (map trim (bullets e)))) nl)
             \<and> (sentenceFree e \<longrightarrow>
                  occurrences (experienceEntry e) experienceFallback
                    = (if blankBullets e then 1 else 0))"
  proof
    fix e
    assume e: "e \<in> set exps"
    then have "sublist (experienceEntry e) (buildExperienceSection (Some exps))"
      by (rule entry_in_section)
    with sb bo have sub: "sublist (experienceEntry e) out"
      by (meson sublist_order.order_trans)
    have c1: "blankBullets e \<longrightarrow>
                toBulletLines (bullets e) experienceFallback = resumeItem experienceFallback
              \<and> suffix fallbackItemList (experienceEntry e)"
    proof
      assume bl: "blankBullets e"
      then have "toBulletLines (bullets e) experienceFallback = resumeItem experienceFallback"
        unfolding blankBullets_def by (rule toBulletLines_blank)
      moreover from bl have "suffix fallbackItemList (experienceEntry e)"
        by (rule experienceEntry_blank_bullets)
      ultimately show "toBulletLines (bullets e) experienceFallback = resumeItem experienceFallback
                       \<and> suffix fallbackItemList (experienceEntry e)"
        by (intro conjI)
    qed
    have c2: "\<not> blankBullets e \<longrightarrow>
                toBulletLines (bullets e) experienceFallback
                  = join (map resumeItem (filter (\<lambda>item. item \<noteq> []) (map trim (bullets e)))) nl"
      unfolding blankBullets_def by (intro impI toBulletLines_text)
    have c3: "sentenceFree e \<longrightarrow>
                occurrences (experienceEntry e) experienceFallback
                  = (if blankBullets e then 1 else 0)"
      by (intro impI experienceEntry_occurrences)
    from sub c1 c2 c3
    show "sublist (experienceEntry e) out
          \<and> (blankBullets e \<longrightarrow>
               toBulletLines (bullets e) experienceFallback = resumeItem experienceFallback
             \<and> suffix fallbackItemList (experienceEntry e))
          \<and> (\<not> blankBullets e \<longrightarrow>
               toBulletLines (bullets e) experienceFallback
                 = join (map resumeItem (filter (\<lambda>item. item \<noteq> []) (map trim (bullets e)))) nl)
          \<and> (sentenceFree e \<longrightarrow>
               occurrences (experienceEntry e) experienceFallback
                 = (if blankBullets e then 1 else 0))"
      by (intro conjI)
  qed
  have cnt: "list_all sentenceFree exps \<longrightarrow>
               (\<exists>out0. generateLatexFromResume (r\<lparr>experience := None\<rparr>) T = Inr out0
                     \<and> occurrences out experienceFallback
                         = occurrences out0 experienceFallback + length (filter blankBullets exps))"
  proof
    assume sf: "list_all sentenceFree exps"
    from assms(2) obtain out0 where
      o0: "generateLatexFromResume (r\<lparr>experience := None\<rparr>) T = Inr out0" and
      c: "occurrences out experienceFallback
            = occurrences out0 experienceFallback
              + occurrences (buildExperienceSection (experience r)) experienceFallback"
      using output_occurrences by blast
    from sf have "occurrences (buildExperienceSection (Some exps)) experienceFallback
                    = length (filter blankBullets exps)"
      by (rule section_count)
    with c assms(1) have "occurrences out experienceFallback
                            = occurrences out0 experienceFallback + length (filter blankBullets exps)"
      by simp
    with o0 show "\<exists>out0. generateLatexFromResume (r\<lparr>experience := None\<rparr>) T = Inr out0
                    \<and> occurrences out experienceFallback
                        = occurrences out0 experienceFallback + length (filter blankBullets exps)"
      by blast
  qed
  have sec: "exps \<noteq> [] \<longrightarrow>
               buildExperienceSection (experience r) = experienceSectionOf (map experienceEntry exps)
             \<and> sublist (experienceSectionOf (map experienceEntry exps)) out"
  proof
    assume ne: "exps \<noteq> []"
    with assms(1) have s: "buildExperienceSection (experience r)
                             = experienceSectionOf (map experienceEntry exps)"
      by (simp add: buildExperienceSection_def)
    from sb bo have "sublist (buildExperienceSection (Some exps)) out"
      by (meson sublist_order.order_trans)
    with s assms(1) have "sublist (experienceSectionOf (map experienceEntry exps)) out"
      by simp
    with s show "buildExperienceSection (experience r)
                   = experienceSectionOf (map experienceEntry exps)
                 \<and> sublist (experienceSectionOf (map experienceEntry exps)) out"
      by (intro conjI)
  qed
  have h: "\<forall>items fb. \<exists>x xs. toBulletLines items fb = join (map resumeItem (x # xs)) nl"
    by (intro allI toBulletLines_has_item)
  from per cnt sec h show ?thesis by (intro conjI)
qed

text \<open>
  The theorem at a record with two entries, the first without bullets, the second with
  one: the sentence occurs once in the output.
\<close>

theorem C6_fallback_bullet_witness:
  "experience twoJobs = Some [emptyBulletEntry, bulletEntry]
   \<and> generateLatexFromResume twoJobs [] = Inr twoJobsOut
   \<and> blankBullets emptyBulletEntry \<and> \<not> blankBullets bulletEntry
   \<and> list_all sentenceFree [emptyBulletEntry, bulletEntry]
   \<and> generateLatexFromResume (twoJobs\<lparr>experience := None\<rparr>) [] = Inr headerOnlyOut
   \<and> occurrences headerOnlyOut experienceFallback = 0
   \<and> occurrences twoJobsOut experienceFallback = 1
   \<and> occurrences (experienceEntry emptyBulletEntry) experienceFallback = 1
   \<and> occurrences (experienceEntry bulletEntry) experienceFallback = 0
   \<and> suffix fallbackItemList (experienceEntry emptyBulletEntry)
   \<and> sublist (experienceEntry emptyBulletEntry) twoJobsOut
   \<and> toBulletLines (bullets bulletEntry) experienceFallback
       = join (map resumeItem [js ''Led a team of 5 developers'']) nl"
proof -
  have a: "experience twoJobs = Some [emptyBulletEntry, bulletEntry]"
    by (simp add: twoJobs_def)
  note t = C6_fallback_bullet [OF a twoJobs_output]
  have sf: "list_all sentenceFree [emptyBulletEntry, bulletEntry]"
    by (simp add: example_entries)
  have f: "filter (\<lambda>item. item \<noteq> []) (map trim (bullets bulletEntry))
             = [js ''Led a team of 5 developers'']"
    by (simp add: bulletEntry_def trim_defs js_def)
  have n: "length (filter blankBullets [emptyBulletEntry, bulletEntry]) = 1"
    by (simp add: example_entries)
  from t sf obtain out0 where
    o0: "generateLatexFromResume (twoJobs\<lparr>experience := None\<rparr>) [] = Inr out0" and
    c: "occurrences twoJobsOut experienceFallback
          = occurrences out0 experienceFallback
            + length (filter blankBullets [emptyBulletEntry, bulletEntry])"
    by blast
  from o0 have "out0 = headerOnlyOut" by (simp add: headerOnly_output)
  with c n have total: "occurrences twoJobsOut experienceFallback = 1"
    by (simp add: headerOnly_count)
  from t have e1: "sublist (experienceEntry emptyBulletEntry) twoJobsOut
                   \<and> suffix fallbackItemList (experienceEntry emptyBulletEntry)
                   \<and> occurrences (experienceEntry emptyBulletEntry) experienceFallback = 1"
    by (simp add: example_entries)
  from t f have e2: "occurrences (experienceEntry bulletEntry) experienceFallback = 0
                     \<and> toBulletLines (bullets bulletEntry) experienceFallback
                         = join (map resumeItem [js ''Led a team of 5 developers'']) nl"
    by (simp add: example_entries)
  from a twoJobs_output example_entries(1) example_entries(2) sf headerOnly_output
    headerOnly_count total e1 e2
  show ?thesis by (intro conjI) simp_all
qed


section \<open>Skill extraction\<close>

lemma extractSkills_tokens: "extractSkills lines = categorize (skillTokens lines)"
  by (simp add: extractSkills_def skillTokens_def categorize_def split: option.splits)

lemma category_names:
  "js ''Technical Skills'' \<noteq> js ''Soft Skills''"
  "js ''Technical Skills'' \<noteq> js ''Other Skills''"
  "js ''Soft Skills'' \<noteq> js ''Other Skills''"
  by (simp_all add: js_def)

lemma categorize_technical:
  "inGroup (categorize items) (js ''Technical Skills'') t
     \<longleftrightarrow> t \<in> set items \<and> rxTest True technicalRe t"
  using category_names by (auto simp: categorize_def inGroup_def Let_def filter_empty_conv)

lemma categorize_soft:
  "inGroup (categorize items) (js ''Soft Skills'') t \<longleftrightarrow> t \<in> set items \<and> rxTest True softRe t"
  using category_names by (auto simp: categorize_def inGroup_def Let_def filter_empty_conv)

lemma categorize_other:
  "inGroup (categorize items) (js ''Other Skills'') t
     \<longleftrightarrow> t \<in> set items \<and> \<not> rxTest True technicalRe t \<and> \<not> rxTest True softRe t"
  using category_names by (auto simp: categorize_def inGroup_def Let_def filter_empty_conv)

lemma categorize_order:
  "subseq (map category (categorize items))
     [js ''Technical Skills'', js ''Soft Skills'', js ''Other Skills'']"
  by (simp add: categorize_def Let_def)

lemma categorize_nonempty: "g \<in> set (categorize items) \<Longrightarrow> group_skills g \<noteq> []"
  by (auto simp: categorize_def Let_def split: if_splits)

lemma skillsTest_tokens:
  "skillTokens skillsTestLines
     = [js ''JavaScript'', js ''Python'', js ''React'', js ''Node.js'', js ''SQL'', js ''Git'',
        js ''Docker'', js ''AWS'']"
  by (simp add: skillTokens_def skillsTestLines_def skillItems_def toLowerCase_def lowerUnit_def
      isSectionHeader_def sectionHeaders_def upperRe_def Let_def bullet_def trim_def
      trimStart_def trimEnd_def regex_defs)

lemma technical_JavaScript: "rxTest True technicalRe (js ''JavaScript'')"
  by (simp add: technicalRe_def regex_defs)

lemma technical_React: "rxTest True technicalRe (js ''React'')"
  by (simp add: technicalRe_def regex_defs)

text \<open>
  C4, as stated, fails: the technical and the soft group are two independent filters, so
  a token that matches both patterns is placed in both groups. The one token of the line
  \<open>java leadership\<close> is in the technical and in the soft group.
\<close>

theorem C4_counterexample:
  "extractSkills bothSkillsLines
     = [\<lparr>category = js ''Technical Skills'', group_skills = [js ''java leadership'']\<rparr>,
        \<lparr>category = js ''Soft Skills'', group_skills = [js ''java leadership'']\<rparr>]
   \<and> inGroup (extractSkills bothSkillsLines) (js ''Technical Skills'') (js ''java leadership'')
   \<and> inGroup (extractSkills bothSkillsLines) (js ''Soft Skills'') (js ''java leadership'')"
proof -
  have t: "skillTokens bothSkillsLines = [js ''java leadership'']"
    by (simp add: skillTokens_def bothSkillsLines_def skillItems_def toLowerCase_def lowerUnit_def
        isSectionHeader_def sectionHeaders_def upperRe_def Let_def bullet_def trim_def
        trimStart_def trimEnd_def regex_defs)
  have a: "rxTest True technicalRe (js ''java leadership'')"
    by (simp add: technicalRe_def regex_defs)
  have b: "rxTest True softRe (js ''java leadership'')"
    by (simp add: softRe_def regex_defs)
  have "extractSkills bothSkillsLines
          = [\<lparr>category = js ''Technical Skills'', group_skills = [js ''java leadership'']\<rparr>,
             \<lparr>category = js ''Soft Skills'', group_skills = [js ''java leadership'']\<rparr>]"
    by (simp add: extractSkills_tokens t categorize_def Let_def a b)
  then show ?thesis
    by (simp add: inGroup_def)
qed

text \<open>
  C4, amended: every token is placed in at least one of the three category groups: in
  the technical group exactly when it matches the technical pattern, in the soft group
  exactly when it matches the soft pattern (a token that matches both is in both), and in
  \<open>Other Skills\<close> exactly when it matches neither; the groups hold tokens only, each
  non-empty group becomes one \<open>Skill\<close>, in the order technical, soft, other; and for the
  lines \<open>Skills\<close> and \<open>JavaScript, Python, React, Node.js, SQL, Git, Docker, AWS\<close> the
  technical group contains \<open>JavaScript\<close> and \<open>React\<close>.
\<close>

theorem C4_skill_groups:
  "(\<forall>t \<in> set (skillTokens lines).
      (inGroup (extractSkills lines) (js ''Technical Skills'') t \<longleftrightarrow> rxTest True technicalRe t)
    \<and> (inGroup (extractSkills lines) (js ''Soft Skills'') t \<longleftrightarrow> rxTest True softRe t)
    \<and> (inGroup (extractSkills lines) (js ''Other Skills'') t
         \<longleftrightarrow> \<not> rxTest True technicalRe t \<and> \<not> rxTest True softRe t)
    \<and> (\<exists>label. inGroup (extractSkills lines) label t))
   \<and> (\<forall>g \<in> set (extractSkills lines).
         group_skills g \<noteq> [] \<and> set (group_skills g) \<subseteq> set (skillTokens lines))
   \<and> subseq (map category (extractSkills lines))
        [js ''Technical Skills'', js ''Soft Skills'', js ''Other Skills'']
   \<and> inGroup (extractSkills skillsTestLines) (js ''Technical Skills'') (js ''JavaScript'')
   \<and> inGroup (extractSkills skillsTestLines) (js ''Technical Skills'') (js ''React'')"
proof -
  let ?G = "extractSkills lines"
  have tokens: "\<forall>t \<in> set (skillTokens lines).
      (inGroup ?G (js ''Technical Skills'') t \<longleftrightarrow> rxTest True technicalRe t)
    \<and> (inGroup ?G (js ''Soft Skills'') t \<longleftrightarrow> rxTest True softRe t)
    \<and> (inGroup ?G (js ''Other Skills'') t
         \<longleftrightarrow> \<not> rxTest True technicalRe t \<and> \<not> rxTest True softRe t)
    \<and> (\<exists>label. inGroup ?G label t)"
  proof
    fix t assume t: "t \<in> set (skillTokens lines)"
    have a: "inGroup ?G (js ''Technical Skills'') t \<longleftrightarrow> rxTest True technicalRe t"
      using t by (simp add: extractSkills_tokens categorize_technical)
    have b: "inGroup ?G (js ''Soft Skills'') t \<longleftrightarrow> rxTest True softRe t"
      using t by (simp add: extractSkills_tokens categorize_soft)
    have c: "inGroup ?G (js ''Other Skills'') t
               \<longleftrightarrow> \<not> rxTest True technicalRe t \<and> \<not> rxTest True softRe t"
      using t by (simp add: extractSkills_tokens categorize_other)
    from a b c have "\<exists>label. inGroup ?G label t" by blast
    with a b c show "(inGroup ?G (js ''Technical Skills'') t \<longleftrightarrow> rxTest True technicalRe t)
      \<and> (inGroup ?G (js ''Soft Skills'') t \<longleftrightarrow> rxTest True softRe t)
      \<and> (inGroup ?G (js ''Other Skills'') t
           \<longleftrightarrow> \<not> rxTest True technicalRe t \<and> \<not> rxTest True softRe t)
      \<and> (\<exists>label. inGroup ?G label t)"
      by (intro conjI)
  qed
  have groups: "\<forall>g \<in> set ?G. group_skills g \<noteq> [] \<and> set (group_skills g) \<subseteq> set (skillTokens lines)"
    by (auto simp: extractSkills_tokens categorize_def Let_def split: if_splits)
  have order: "subseq (map category ?G)
                 [js ''Technical Skills'', js ''Soft Skills'', js ''Other Skills'']"
    by (simp only: extractSkills_tokens categorize_order)
  have j: "inGroup (extractSkills skillsTestLines) (js ''Technical Skills'') (js ''JavaScript'')"
    by (simp only: extractSkills_tokens categorize_technical skillsTest_tokens
        technical_JavaScript) simp
  have r: "inGroup (extractSkills skillsTestLines) (js ''Technical Skills'') (js ''React'')"
    by (simp only: extractSkills_tokens categorize_technical skillsTest_tokens
        technical_React) simp
  from tokens groups order j r show ?thesis by (intro conjI)
qed

theorem C4_skill_groups_witness:
  "js ''Python'' \<in> set (skillTokens skillsTestLines)
   \<and> inGroup (extractSkills skillsTestLines) (js ''Technical Skills'') (js ''Python'')
   \<and> \<not> inGroup (extractSkills skillsTestLines) (js ''Soft Skills'') (js ''Python'')
   \<and> \<not> inGroup (extractSkills skillsTestLines) (js ''Other Skills'') (js ''Python'')"
proof -
  have m: "js ''Python'' \<in> set (skillTokens skillsTestLines)"
    by (simp add: skillsTest_tokens)
  have a: "rxTest True technicalRe (js ''Python'')"
    by (simp add: technicalRe_def regex_defs)
  have b: "\<not> rxTest True softRe (js ''Python'')"
    by (simp add: softRe_def regex_defs)
  from C4_skill_groups [of skillsTestLines] m a b show ?thesis
    by blast
qed


section \<open>Experience extraction\<close>

lemma job_match:
  "(case rxExec True jobRe jobLine of
      None \<Rightarrow> False
    | Some (m0, jobMatch) \<Rightarrow>
        jobMatch 1 = Some (js ''Senior Developer'') \<and> jobMatch 2 = Some (js ''Tech Corp''))"
  by (simp add: jobRe_def jobLine_def regex_defs)

lemma jobLine_heading:
  "jobHeading jobLine st
     = setCurrent (newExperience (js ''Senior Developer'') (js ''Tech Corp'')) (pushCurrent st)"
proof -
  from job_match obtain m0 jobMatch where
    m: "rxExec True jobRe jobLine = Some (m0, jobMatch)" and
    p: "jobMatch 1 = Some (js ''Senior Developer'')" and
    c: "jobMatch 2 = Some (js ''Tech Corp'')"
    by (auto split: option.splits)
  have tp: "trim (js ''Senior Developer'') = js ''Senior Developer''"
    by (simp add: trim_defs js_def)
  have tc: "trim (js ''Tech Corp'') = js ''Tech Corp''"
    by (simp add: trim_defs js_def)
  from p have p': "jobMatch (Suc 0) = Some (js ''Senior Developer'')" by simp
  show ?thesis
    by (simp add: jobHeading_def Let_def m p' c toStr_def tp tc)
qed

lemma jobLine_shape:
  "\<not> isSectionHeader jobLine" "\<not> isBulletLine jobLine" "length jobLine > 5"
  by (simp_all add: isSectionHeader_def sectionHeaders_def upperRe_def toLowerCase_def lowerUnit_def
      isBulletLine_def startsWith_def bullet_def jobLine_def Let_def regex_defs)

lemma experience_heading:
  "findStart [js ''experience'', js ''work'', js ''employment'', js ''professional'']
     (js ''Experience'' # rest) = Some 1"
  by (simp add: toLowerCase_def lowerUnit_def js_def)

lemma bullet_line: "isBulletLine (bullet # t)"
  by (simp add: isBulletLine_def startsWith_def)

lemma names_not_Nil: "js ''Senior Developer'' \<noteq> []" "js ''Tech Corp'' \<noteq> []"
  by (simp_all add: js_def)

text \<open>The three kinds of step of the loop that the inputs of C5 take.\<close>

lemma loop_job_line:
  "experienceLoop (jobLine # rest) \<lparr>objs = [], pushed = [], currentExp = None\<rparr>
     = experienceLoop rest \<lparr>objs = [seniorDeveloper []], pushed = [], currentExp = Some 0\<rparr>"
  using jobLine_shape
  by (simp add: jobLine_heading pushCurrent_def setCurrent_def newExperience_def
      seniorDeveloper_def)

lemma loop_bullet_line:
  assumes "\<not> isSectionHeader (bullet # t)" and "trim t \<noteq> []"
  shows "experienceLoop ((bullet # t) # rest)
           \<lparr>objs = [seniorDeveloper items], pushed = [], currentExp = Some 0\<rparr>
         = experienceLoop rest
             \<lparr>objs = [seniorDeveloper (items @ [trim t])], pushed = [], currentExp = Some 0\<rparr>"
  using assms names_not_Nil
  by (simp add: bullet_line addBullet_def seniorDeveloper_def Let_def)

lemma loop_header_line:
  assumes "isSectionHeader line" and "toLowerCase line \<noteq> js ''experience''"
  shows "experienceLoop (line # rest) st = st"
  using assms by simp

lemma loop_result:
  "map (\<lambda>i. objs (pushCurrent \<lparr>objs = [seniorDeveloper items], pushed = [],
                                  currentExp = Some 0\<rparr>) ! i)
       (pushed (pushCurrent \<lparr>objs = [seniorDeveloper items], pushed = [], currentExp = Some 0\<rparr>))
     = [seniorDeveloper items]"
  using names_not_Nil
  by (simp add: pushCurrent_def isComplete_def seniorDeveloper_def)

lemma extractExperience_after_heading:
  "extractExperience (js ''Experience'' # rest)
     = (let st = pushCurrent (experienceLoop rest \<lparr>objs = [], pushed = [], currentExp = None\<rparr>)
        in map (\<lambda>i. objs st ! i) (pushed st))"
  by (simp only: extractExperience_def experience_heading option.case Let_def drop_Suc_Cons
      drop_0 One_nat_def)

text \<open>
  C5, as stated, fails: a bullet line that contains a section keyword is a section
  header, and the scan of the experience section stops at it. With the first bullet
  \<open>Gained professional experience\<close> the entry has no bullets.
\<close>

theorem C5_counterexample:
  "trim keywordBullet \<noteq> [] \<and> trim testBullet2 \<noteq> []
   \<and> extractExperience [js ''Experience'', jobLine, bullet # keywordBullet, bullet # testBullet2]
       = [seniorDeveloper []]"
proof -
  have h: "isSectionHeader (bullet # keywordBullet)"
    by (simp add: isSectionHeader_def sectionHeaders_def toLowerCase_def lowerUnit_def keywordBullet_def
        bullet_def Let_def js_def)
  have l: "toLowerCase (bullet # keywordBullet) \<noteq> js ''experience''"
    by (simp add: toLowerCase_def lowerUnit_def bullet_def js_def)
  have t: "trim keywordBullet \<noteq> [] \<and> trim testBullet2 \<noteq> []"
    by (simp add: keywordBullet_def testBullet2_def trim_defs js_def)
  have "extractExperience [js ''Experience'', jobLine, bullet # keywordBullet, bullet # testBullet2]
          = [seniorDeveloper []]"
    by (simp only: extractExperience_after_heading loop_job_line loop_header_line [OF h l]
        Let_def loop_result)
  with t show ?thesis by (intro conjI) simp_all
qed

text \<open>
  C5, amended: for the lines \<open>Experience\<close>, \<open>Senior Developer at Tech Corp | Jan 2020 -
  Present\<close> and two lines that begin with the bullet marker, each carrying non-empty text
  of ASCII and general-punctuation code units (\<open>lowerExact\<close>: the strings that
  \<open>toLowerCase\<close> treats as the source does) and neither being a section header,
  experience extraction yields exactly one entry, with position \<open>Senior Developer\<close>,
  company \<open>Tech Corp\<close> and the two trimmed bullet texts as its bullet sequence.
\<close>

theorem C5_experience_entry:
  assumes "trim t1 \<noteq> []" and "trim t2 \<noteq> []"
    and "lowerExact t1" and "lowerExact t2"
    and "\<not> isSectionHeader (bullet # t1)" and "\<not> isSectionHeader (bullet # t2)"
  shows "extractExperience [js ''Experience'', jobLine, bullet # t1, bullet # t2]
           = [seniorDeveloper [trim t1, trim t2]]
         \<and> length (extractExperience [js ''Experience'', jobLine, bullet # t1, bullet # t2]) = 1
         \<and> position (seniorDeveloper [trim t1, trim t2]) = js ''Senior Developer''
         \<and> company (seniorDeveloper [trim t1, trim t2]) = js ''Tech Corp''
         \<and> length (bullets (seniorDeveloper [trim t1, trim t2])) = 2"
proof -
  have e: "experienceLoop [] \<lparr>objs = [seniorDeveloper [trim t1, trim t2]], pushed = [],
                               currentExp = Some 0\<rparr>
           = \<lparr>objs = [seniorDeveloper [trim t1, trim t2]], pushed = [], currentExp = Some 0\<rparr>"
    by simp
  have "extractExperience [js ''Experience'', jobLine, bullet # t1, bullet # t2]
          = [seniorDeveloper [trim t1, trim t2]]"
    by (simp only: extractExperience_after_heading loop_job_line
        loop_bullet_line [OF assms(5) assms(1)] loop_bullet_line [OF assms(6) assms(2)]
        append_Nil append_Cons e Let_def loop_result)
  then show ?thesis by (simp add: seniorDeveloper_def)
qed

theorem C5_experience_entry_witness:
  "trim testBullet1 \<noteq> [] \<and> trim testBullet2 \<noteq> []
   \<and> lowerExact testBullet1 \<and> lowerExact testBullet2
   \<and> \<not> isSectionHeader (bullet # testBullet1) \<and> \<not> isSectionHeader (bullet # testBullet2)
   \<and> extractExperience [js ''Experience'', jobLine, bullet # testBullet1, bullet # testBullet2]
       = [seniorDeveloper [js ''Developed web applications using React and Node.js'',
                           js ''Led a team of 5 developers'']]"
proof -
  have a: "trim testBullet1 = js ''Developed web applications using React and Node.js''"
    by (simp add: testBullet1_def trim_defs js_def)
  have b: "trim testBullet2 = js ''Led a team of 5 developers''"
    by (simp add: testBullet2_def trim_defs js_def)
  have a': "trim testBullet1 \<noteq> []" unfolding a by (simp add: js_def)
  have b': "trim testBullet2 \<noteq> []" unfolding b by (simp add: js_def)
  have x1: "lowerExact testBullet1"
    by (simp add: lowerExact_def testBullet1_def js_def)
  have x2: "lowerExact testBullet2"
    by (simp add: lowerExact_def testBullet2_def js_def)
  have h1: "\<not> isSectionHeader (bullet # testBullet1)"
    by (simp add: isSectionHeader_def sectionHeaders_def upperRe_def toLowerCase_def lowerUnit_def
        testBullet1_def bullet_def Let_def regex_defs)
  have h2: "\<not> isSectionHeader (bullet # testBullet2)"
    by (simp add: isSectionHeader_def sectionHeaders_def upperRe_def toLowerCase_def lowerUnit_def
        testBullet2_def bullet_def Let_def regex_defs)
  from C5_experience_entry [OF a' b' x1 x2 h1 h2] a b a' b' x1 x2 h1 h2 show ?thesis
    by simp
qed


section \<open>The renderer does not write to the arrays of its input\<close>

lemma extends_refl: "extends h h"
  by (simp add: extends_def)

lemma extends_trans: "extends h h1 \<Longrightarrow> extends h1 h2 \<Longrightarrow> extends h h2"
  by (auto simp: extends_def)

lemma alloc_extends: "extends h (snd (alloc xs h))"
  by (simp add: alloc_def extends_def)

lemma toBulletLinesS_text:
  "fst (toBulletLinesS items fb h) = toBulletLines (arrays h items) fb"
  by (simp add: toBulletLinesS_def toBulletLines_def arrayMap_def arrayFilter_def arrayPush_def
      alloc_def Let_def case_prod_beta)

text \<open>
  The \<open>push\<close> of the fallback goes to the array that \<open>filter\<close> has returned, at an
  address that was not in use before the call.
\<close>

lemma toBulletLinesS_extends: "extends h (snd (toBulletLinesS items fb h))"
  by (simp add: toBulletLinesS_def arrayMap_def arrayFilter_def arrayPush_def alloc_def Let_def
      case_prod_beta extends_def)

lemma experienceBlock_deref: "experienceBlock (derefExperience h e) t = experienceBlock e t"
  by (simp add: experienceBlock_def derefExperience_def)

lemma experienceEntryS_text:
  "fst (experienceEntryS e h) = experienceEntry (derefExperience h e)"
proof -
  have "bullets (derefExperience h e) = arrays h (bullets e)"
    by (simp add: derefExperience_def)
  then show ?thesis
    by (simp add: experienceEntryS_def experienceEntry_def Let_def case_prod_beta
        toBulletLinesS_text experienceBlock_deref)
qed

lemma experienceEntryS_extends: "extends h (snd (experienceEntryS e h))"
  by (simp add: experienceEntryS_def Let_def case_prod_beta toBulletLinesS_extends)

lemma derefExperience_extends:
  "extends h h' \<Longrightarrow> bullets e < fresh h \<Longrightarrow> derefExperience h' e = derefExperience h e"
  by (simp add: derefExperience_def extends_def)

lemma list_all_below_mono:
  "extends h h' \<Longrightarrow> list_all (\<lambda>e. f e < fresh h) es \<Longrightarrow> list_all (\<lambda>e. f e < fresh h') es"
  by (auto simp: extends_def list_all_iff)

lemma mapS_experience:
  "list_all (\<lambda>e. bullets e < fresh h) es \<Longrightarrow>
   fst (mapS experienceEntryS es h) = map (\<lambda>e. experienceEntry (derefExperience h e)) es
   \<and> extends h (snd (mapS experienceEntryS es h))"
proof (induction es arbitrary: h)
  case Nil
  then show ?case by (simp add: extends_refl)
next
  case (Cons e es)
  obtain t1 h1 where p1: "experienceEntryS e h = (t1, h1)" by (cases "experienceEntryS e h")
  obtain t2 h2 where p2: "mapS experienceEntryS es h1 = (t2, h2)"
    by (cases "mapS experienceEntryS es h1")
  from experienceEntryS_extends [of h e] p1 have e1: "extends h h1" by simp
  from experienceEntryS_text [of e h] p1 have t1: "t1 = experienceEntry (derefExperience h e)"
    by simp
  from Cons.prems have below: "list_all (\<lambda>e. bullets e < fresh h) es" by simp
  with e1 have "list_all (\<lambda>e. bullets e < fresh h1) es" by (rule list_all_below_mono)
  from Cons.IH [OF this] p2
  have ih: "t2 = map (\<lambda>e. experienceEntry (derefExperience h1 e)) es" and e2: "extends h1 h2"
    by simp_all
  have "\<forall>q \<in> set es. derefExperience h1 q = derefExperience h q"
    using below e1 by (auto simp: list_all_iff derefExperience_extends)
  then have t2: "t2 = map (\<lambda>e. experienceEntry (derefExperience h e)) es"
    unfolding ih by simp
  from e1 e2 have x2: "extends h h2" by (rule extends_trans)
  from p1 p2 t1 t2 x2 show ?case
    by simp
qed

lemma buildExperienceSectionS_spec:
  assumes "listBelow (\<lambda>e. bullets e < fresh h) eo"
  shows "fst (buildExperienceSectionS eo h)
           = buildExperienceSection (map_option (map (derefExperience h)) eo)
         \<and> extends h (snd (buildExperienceSectionS eo h))"
proof (cases eo)
  case None
  then show ?thesis
    by (simp add: buildExperienceSectionS_def buildExperienceSection_def extends_refl)
next
  case (Some es)
  with assms have "list_all (\<lambda>e. bullets e < fresh h) es" by (simp add: listBelow_def)
  then have "fst (mapS experienceEntryS es h) = map (\<lambda>e. experienceEntry (derefExperience h e)) es"
    and "extends h (snd (mapS experienceEntryS es h))"
    using mapS_experience by blast+
  with Some show ?thesis
    by (simp add: buildExperienceSectionS_def buildExperienceSection_def Let_def case_prod_beta
        extends_refl comp_def)
qed

lemma projectEntryS_text: "fst (projectEntryS p h) = projectEntry (derefProject h p)"
proof -
  have d: "technologies (derefProject h p) = map_option (arrays h) (technologies p)"
    "url (derefProject h p) = url p" "description (derefProject h p) = description p"
    "proj_name (derefProject h p) = proj_name p" "dateMeta (derefProject h p) = dateMeta p"
    by (simp_all add: derefProject_def dateMeta_def)
  show ?thesis
    by (simp add: projectEntryS_def projectEntry_def d Let_def case_prod_beta
        toBulletLinesS_text arrayMap_def arrayFilter_def alloc_def split: sum.splits)
qed

lemma projectEntryS_extends: "extends h (snd (projectEntryS p h))"
proof (cases "hrefPart (url p) ''Link''")
  case (Inl e)
  then show ?thesis by (simp add: projectEntryS_def Let_def extends_refl)
next
  case (Inr m2)
  let ?h3 = "snd (if description p \<noteq> []
                  then let (pieces, h1) = alloc (splitRuns [Code 10] [] (description p)) h;
                           (trimmed, h2) = arrayMap trim pieces h1
                       in arrayFilter (\<lambda>item. item \<noteq> []) trimmed h2
                  else alloc [] h)"
  let ?d = "fst (if description p \<noteq> []
                 then let (pieces, h1) = alloc (splitRuns [Code 10] [] (description p)) h;
                          (trimmed, h2) = arrayMap trim pieces h1
                      in arrayFilter (\<lambda>item. item \<noteq> []) trimmed h2
                 else alloc [] h)"
  have a: "extends h ?h3"
    by (simp add: arrayMap_def arrayFilter_def alloc_def Let_def case_prod_beta extends_def)
  have b: "extends ?h3 (snd (toBulletLinesS ?d projectFallback ?h3))"
    by (rule toBulletLinesS_extends)
  from a b have "extends h (snd (toBulletLinesS ?d projectFallback ?h3))"
    by (rule extends_trans)
  with Inr show ?thesis
    by (simp add: projectEntryS_def Let_def case_prod_beta)
qed

lemma derefProject_extends:
  "extends h h' \<Longrightarrow> optBelow (fresh h) (technologies p) \<Longrightarrow> derefProject h' p = derefProject h p"
  by (cases "technologies p") (simp_all add: derefProject_def extends_def optBelow_def)

lemma optBelow_mono:
  "extends h h' \<Longrightarrow> list_all (\<lambda>e. optBelow (fresh h) (f e)) es
   \<Longrightarrow> list_all (\<lambda>e. optBelow (fresh h') (f e)) es"
  by (auto simp: extends_def list_all_iff optBelow_def split: option.splits)

lemma mapES_project:
  "list_all (\<lambda>p. optBelow (fresh h) (technologies p)) ps \<Longrightarrow>
   fst (mapES projectEntryS ps h) = mapE projectEntry (map (derefProject h) ps)
   \<and> extends h (snd (mapES projectEntryS ps h))"
proof (induction ps arbitrary: h)
  case Nil
  then show ?case by (simp add: extends_refl)
next
  case (Cons p ps)
  obtain r1 h1 where p1: "projectEntryS p h = (r1, h1)" by (cases "projectEntryS p h")
  obtain r2 h2 where p2: "mapES projectEntryS ps h1 = (r2, h2)"
    by (cases "mapES projectEntryS ps h1")
  from projectEntryS_extends [of h p] p1 have e1: "extends h h1" by simp
  from projectEntryS_text [of p h] p1 have r1: "r1 = projectEntry (derefProject h p)" by simp
  from Cons.prems have below: "list_all (\<lambda>p. optBelow (fresh h) (technologies p)) ps" by simp
  with e1 have "list_all (\<lambda>p. optBelow (fresh h1) (technologies p)) ps" by (rule optBelow_mono)
  from Cons.IH [OF this] p2
  have ih: "r2 = mapE projectEntry (map (derefProject h1) ps)" and e2: "extends h1 h2"
    by simp_all
  have "\<forall>q \<in> set ps. derefProject h1 q = derefProject h q"
    using below e1 by (auto simp: list_all_iff derefProject_extends)
  then have "map (derefProject h1) ps = map (derefProject h) ps"
    by simp
  then have r2: "r2 = mapE projectEntry (map (derefProject h) ps)"
    unfolding ih by (rule arg_cong)
  from e1 e2 have x2: "extends h h2" by (rule extends_trans)
  from p1 p2 r1 r2 e1 x2 show ?case
    by (simp split: sum.splits)
qed

lemma buildProjectsSectionS_spec:
  assumes "listBelow (\<lambda>p. optBelow (fresh h) (technologies p)) po"
  shows "fst (buildProjectsSectionS po h)
           = buildProjectsSection (map_option (map (derefProject h)) po)
         \<and> extends h (snd (buildProjectsSectionS po h))"
proof (cases po)
  case None
  then show ?thesis
    by (simp add: buildProjectsSectionS_def buildProjectsSection_def extends_refl)
next
  case (Some ps)
  with assms have "list_all (\<lambda>p. optBelow (fresh h) (technologies p)) ps"
    by (simp add: listBelow_def)
  then have t: "fst (mapES projectEntryS ps h) = mapE projectEntry (map (derefProject h) ps)"
    and e: "extends h (snd (mapES projectEntryS ps h))"
    using mapES_project by blast+
  obtain r1 h1 where m: "mapES projectEntryS ps h = (r1, h1)" by (cases "mapES projectEntryS ps h")
  with t e have "r1 = mapE projectEntry (map (derefProject h) ps)" and "extends h h1" by simp_all
  with Some m show ?thesis
    by (simp add: buildProjectsSectionS_def buildProjectsSection_def extends_refl
        split: sum.splits)
qed

lemma derefSkill_extends:
  "extends h h' \<Longrightarrow> group_skills s < fresh h \<Longrightarrow> derefSkill h' s = derefSkill h s"
  by (simp add: derefSkill_def extends_def)

lemma derefEducation_extends:
  "extends h h' \<Longrightarrow> optBelow (fresh h) (honors e) \<Longrightarrow> derefEducation h' e = derefEducation h e"
  by (cases "honors e") (simp_all add: derefEducation_def extends_def optBelow_def)

lemma derefResume_extends:
  assumes "extends h h'" and "refsBelow (fresh h) r"
  shows "derefResume h' r = derefResume h r"
proof -
  have a: "map_option (map (derefExperience h')) (experience r)
             = map_option (map (derefExperience h)) (experience r)"
    using assms
    by (cases "experience r")
      (auto simp: refsBelow_def listBelow_def list_all_iff derefExperience_extends)
  have b: "map_option (map (derefEducation h')) (education r)
             = map_option (map (derefEducation h)) (education r)"
    using assms
    by (cases "education r")
      (auto simp: refsBelow_def listBelow_def list_all_iff derefEducation_extends)
  have c: "map_option (map (derefSkill h')) (skills r)
             = map_option (map (derefSkill h)) (skills r)"
    using assms
    by (cases "skills r") (auto simp: refsBelow_def listBelow_def list_all_iff derefSkill_extends)
  have d: "map_option (map (derefProject h')) (projects r)
             = map_option (map (derefProject h)) (projects r)"
    using assms
    by (cases "projects r")
      (auto simp: refsBelow_def listBelow_def list_all_iff derefProject_extends)
  show ?thesis
    by (simp add: derefResume_def a b c d)
qed

lemma buildLatexBodyS_spec:
  assumes below: "refsBelow (fresh h) r"
  shows "fst (buildLatexBodyS r h) = buildLatexBody (derefResume h r)
         \<and> extends h (snd (buildLatexBodyS r h))"
proof (cases "personalInfo r")
  case None
  then show ?thesis
    by (simp add: buildLatexBodyS_def buildLatexBody_def derefResume_def extends_refl)
next
  case (Some p)
  show ?thesis
  proof (cases "buildHeader p")
    case (Inl e)
    with Some show ?thesis
      by (simp add: buildLatexBodyS_def buildLatexBody_def derefResume_def extends_refl)
  next
    case (Inr header)
    obtain x h1 where ex: "buildExperienceSectionS (experience r) h = (x, h1)"
      by (cases "buildExperienceSectionS (experience r) h")
    obtain y h2 where pr: "buildProjectsSectionS (projects r) h1 = (y, h2)"
      by (cases "buildProjectsSectionS (projects r) h1")
    from below have "listBelow (\<lambda>e. bullets e < fresh h) (experience r)"
      by (simp add: refsBelow_def)
    from buildExperienceSectionS_spec [OF this] ex
    have x: "x = buildExperienceSection (map_option (map (derefExperience h)) (experience r))"
      and e1: "extends h h1" by simp_all
    from below e1 have d1: "derefResume h1 r = derefResume h r"
      by (simp add: derefResume_extends)
    from below e1 have "listBelow (\<lambda>p. optBelow (fresh h1) (technologies p)) (projects r)"
      by (cases "projects r") (auto simp: refsBelow_def listBelow_def optBelow_mono)
    from buildProjectsSectionS_spec [OF this] pr
    have "y = buildProjectsSection (map_option (map (derefProject h1)) (projects r))"
      and e2: "extends h1 h2" by simp_all
    with d1 have y: "y = buildProjectsSection (map_option (map (derefProject h)) (projects r))"
      by (simp add: derefResume_def)
    from e1 e2 have e: "extends h h2" by (rule extends_trans)
    with below have d2: "derefResume h2 r = derefResume h r"
      by (simp add: derefResume_extends)
    then have sk: "map_option (map (derefSkill h2)) (skills r)
                     = map_option (map (derefSkill h)) (skills r)"
      and ed: "map_option (map (derefEducation h2)) (education r)
                 = map_option (map (derefEducation h)) (education r)"
      by (simp_all add: derefResume_def)
    from Some Inr ex pr x y e sk ed show ?thesis
      by (simp add: buildLatexBodyS_def buildLatexBody_def derefResume_def Let_def
          buildSkillsSectionS_def buildEducationSectionS_def split: sum.splits)
  qed
qed

text \<open>
  C9: the renderer does not mutate its input. For every record \<open>r\<close> whose arrays are in
  the store \<open>h\<close> and every template \<open>T\<close>, after \<open>generateLatexFromResume\<close> every array
  that was in the store has its content of before the call, so every field of \<open>r\<close> and
  every element of its arrays reads as before; the text returned is the one the
  renderer returns for these values, and so is an exception it raises.
\<close>

theorem C9_renderer_keeps_input:
  assumes "refsBelow (fresh h) r"
  shows "extends h (snd (generateLatexFromResumeS r T h))
         \<and> (\<forall>a < fresh h. arrays (snd (generateLatexFromResumeS r T h)) a = arrays h a)
         \<and> derefResume (snd (generateLatexFromResumeS r T h)) r = derefResume h r
         \<and> fst (generateLatexFromResumeS r T h) = generateLatexFromResume (derefResume h r) T"
proof -
  from assms have t: "fst (buildLatexBodyS r h) = buildLatexBody (derefResume h r)"
    and e: "extends h (snd (buildLatexBodyS r h))"
    using buildLatexBodyS_spec by blast+
  have s: "snd (generateLatexFromResumeS r T h) = snd (buildLatexBodyS r h)"
    by (simp add: generateLatexFromResumeS_def case_prod_beta)
  have f: "fst (generateLatexFromResumeS r T h) = generateLatexFromResume (derefResume h r) T"
    by (simp add: generateLatexFromResumeS_def generateLatexFromResume_def case_prod_beta t)
  from e assms have d: "derefResume (snd (buildLatexBodyS r h)) r = derefResume h r"
    by (rule derefResume_extends)
  from e have a: "\<forall>a < fresh h. arrays (snd (buildLatexBodyS r h)) a = arrays h a"
    by (simp add: extends_def)
  from e a d f show ?thesis
    unfolding s by (intro conjI)
qed

theorem C9_renderer_keeps_input_witness:
  "refsBelow (fresh oneArrayStore) oneJobRef
   \<and> derefResume oneArrayStore oneJobRef = oneJob
   \<and> arrays oneArrayStore 0 = []
   \<and> arrays (snd (generateLatexFromResumeS oneJobRef [] oneArrayStore)) 0 = []
   \<and> derefResume (snd (generateLatexFromResumeS oneJobRef [] oneArrayStore)) oneJobRef = oneJob
   \<and> fst (generateLatexFromResumeS oneJobRef [] oneArrayStore) = Inr oneJobOut"
proof -
  have b: "refsBelow (fresh oneArrayStore) oneJobRef"
    by (simp add: refsBelow_def listBelow_def oneArrayStore_def oneJobRef_def)
  have d: "derefResume oneArrayStore oneJobRef = oneJob"
    by (simp add: derefResume_def derefExperience_def oneArrayStore_def oneJobRef_def oneJob_def
        emptyBulletEntry_def)
  have z: "(0::nat) < fresh oneArrayStore" "arrays oneArrayStore 0 = []"
    by (simp_all add: oneArrayStore_def)
  from C9_renderer_keeps_input [OF b, of "[]"] b d z show ?thesis
    by (simp add: oneJob_output)
qed


end
